theory Spec2Isabelle
  imports Main "HOL-Library.Sublist"
begin

section \<open>Board digitizer: request executor, prompt composer, pipeline and batch loop\<close>

text \<open>
  A shallow embedding of \<^verbatim>\<open>digitize_board.py\<close>. Python strings and the bytes of
  files are both \<^typ>\<open>string\<close> (text is read as its UTF-8 bytes, so concatenation and
  the substring test \<^verbatim>\<open>in\<close> are list append and \<^const>\<open>sublist\<close>). Exceptions are
  values of the type \<open>error\<close>. Everything the program does to the outside (HTTP
  requests, \<^verbatim>\<open>time.sleep\<close>, files, the clock) is threaded through a record \<open>world\<close>;
  what the outside answers (the endpoint, the clock, whether a write goes through) is read
  from a record \<open>env\<close>. Log lines and console prints are not modelled.
\<close>

subsection \<open>Strings\<close>

definition lower_char :: "char \<Rightarrow> char" where
  "lower_char c =
     (let n = (of_char c :: nat) in if 65 \<le> n \<and> n \<le> 90 then char_of (n + 32) else c)"

text \<open>\<^verbatim>\<open>str.lower()\<close> on the ASCII letters; bytes of other code points are kept.\<close>

definition lower :: "string \<Rightarrow> string" where
  "lower s = map lower_char s"

subsection \<open>Messages, requests and responses\<close>

datatype part = ImageUrl string | TextPart string

datatype msg_content = Str string | Parts "part list"

record message =
  role :: string
  content :: msg_content

text \<open>The JSON payload of one POST (model, messages, max_tokens) and the bearer credential.\<close>

record request =
  req_model :: string
  req_messages :: "message list"
  req_max_tokens :: int
  req_authorization :: string

text \<open>
  A value that \<^verbatim>\<open>_call_api\<close> can return: the \<^verbatim>\<open>content\<close> entry of the answer is a JSON
  string, or it is another JSON value (\<^verbatim>\<open>null\<close>, a number, an array, ...), which the code
  returns as it is. \<open>NonText r\<close> is such a value, \<open>r\<close> being what \<^verbatim>\<open>str()\<close> and an
  f-string print for it (\<^verbatim>\<open>None\<close> for \<^verbatim>\<open>null\<close>).
\<close>

datatype content_value = Text string | NonText string

text \<open>How an f-string renders a value.\<close>

fun to_text :: "content_value \<Rightarrow> string" where
  "to_text (Text s) = s"
| "to_text (NonText r) = r"

text \<open>
  What \<^verbatim>\<open>response.json()\<close> followed by \<^verbatim>\<open>data["choices"][0]["message"]["content"]\<close>
  does on a response: it yields the content, or raises an exception of the
  \<^verbatim>\<open>RequestException\<close> family (the library's JSON decode error), or raises another
  exception (\<^verbatim>\<open>KeyError\<close>, \<^verbatim>\<open>IndexError\<close>, \<^verbatim>\<open>TypeError\<close>).
\<close>

datatype json_result = Content content_value | JsonRequestException | JsonOtherException

record response =
  status_code :: int
  body_text :: string
  json :: json_result

text \<open>What \<^verbatim>\<open>requests.post(..., timeout=120)\<close> does.\<close>

datatype post_result = Responded response | TimedOut | ConnectionFailed

text \<open>The exceptions that leave the \<^verbatim>\<open>try\<close> block.\<close>

datatype exc = Timeout | HTTPError response | RequestException | OtherException

datatype error =
    FileNotFoundError string
  | ValueError string
  | RuntimeError_api_key
  | RuntimeError_guthaben
  | RuntimeError_vision string
  | RuntimeError_exhausted "exc option"
  | UncaughtError
  | RecursionError
  | TypeError
  | IsADirectoryError string
  | OSError
  | UnicodeEncodeError

subsection \<open>Configuration, world and environment\<close>

record config =
  api_key :: string
  model :: string
  fallback_model :: string
  output_dir :: string
  max_tokens :: int
  template :: string
  context_str :: string
  confidence :: bool

text \<open>
  What the program did to the outside, in order: a POST, a sleep, a file written, a write
  that raised.
\<close>

datatype event = Posted request | Slept nat | Wrote string | WriteFailed string

text \<open>An entry of the file system: a regular file with its bytes, or a directory.\<close>

datatype node = File string | Dir

record world =
  trace :: "event list"
  files :: "string \<rightharpoonup> node"
  clock_reads :: nat

text \<open>
  What \<^verbatim>\<open>Path.write_text\<close> does: it writes the whole text, or it raises an exception and
  leaves the file system as it was (\<open>None\<close>) or leaves the file created or truncated with
  some content (\<open>Some\<close>).
\<close>

datatype write_result = WriteOk | WriteRaises error "string option"

text \<open>
  \<open>post env n req\<close> is the outcome of the \<open>n\<close>-th POST of the run (counted from 0) when
  it carries \<open>req\<close>; \<open>strftime env n\<close> is what the \<open>n\<close>-th reading of the clock prints;
  \<open>recursion_limit env\<close> is how many nested frames of \<^verbatim>\<open>_call_api\<close> the interpreter
  allows before it raises \<^verbatim>\<open>RecursionError\<close>; \<open>fs_write env n p data\<close> is what the
  \<open>n\<close>-th call of \<^verbatim>\<open>write_text\<close> does when it writes \<open>data\<close> to the path \<open>p\<close>.
\<close>

record env =
  post :: "nat \<Rightarrow> request \<Rightarrow> post_result"
  strftime :: "nat \<Rightarrow> string"
  recursion_limit :: nat
  fs_write :: "nat \<Rightarrow> string \<Rightarrow> string \<Rightarrow> write_result"

fun posted_of :: "event list \<Rightarrow> request list" where
  "posted_of [] = []"
| "posted_of (Posted r # es) = r # posted_of es"
| "posted_of (Slept d # es) = posted_of es"
| "posted_of (Wrote p # es) = posted_of es"
| "posted_of (WriteFailed p # es) = posted_of es"

fun slept_of :: "event list \<Rightarrow> nat list" where
  "slept_of [] = []"
| "slept_of (Posted r # es) = slept_of es"
| "slept_of (Slept d # es) = d # slept_of es"
| "slept_of (Wrote p # es) = slept_of es"
| "slept_of (WriteFailed p # es) = slept_of es"

fun wrote_of :: "event list \<Rightarrow> string list" where
  "wrote_of [] = []"
| "wrote_of (Posted r # es) = wrote_of es"
| "wrote_of (Slept d # es) = wrote_of es"
| "wrote_of (Wrote p # es) = p # wrote_of es"
| "wrote_of (WriteFailed p # es) = wrote_of es"

text \<open>The paths of all calls of \<^verbatim>\<open>write_text\<close>, whether they went through or raised.\<close>

fun write_calls_of :: "event list \<Rightarrow> string list" where
  "write_calls_of [] = []"
| "write_calls_of (Posted r # es) = write_calls_of es"
| "write_calls_of (Slept d # es) = write_calls_of es"
| "write_calls_of (Wrote p # es) = p # write_calls_of es"
| "write_calls_of (WriteFailed p # es) = p # write_calls_of es"

definition posted :: "world \<Rightarrow> request list" where
  "posted w = posted_of (trace w)"

definition slept :: "world \<Rightarrow> nat list" where
  "slept w = slept_of (trace w)"

definition written :: "world \<Rightarrow> string list" where
  "written w = wrote_of (trace w)"

definition sleep :: "nat \<Rightarrow> world \<Rightarrow> world" where
  "sleep d w = w\<lparr>trace := trace w @ [Slept d]\<rparr>"

definition record_post :: "request \<Rightarrow> world \<Rightarrow> world" where
  "record_post req w = w\<lparr>trace := trace w @ [Posted req]\<rparr>"

subsection \<open>The request executor \<^verbatim>\<open>_call_api\<close>\<close>

definition MAX_RETRIES :: nat where
  "MAX_RETRIES = 3"

definition RETRY_BASE_DELAY :: nat where
  "RETRY_BASE_DELAY = 2"

definition build_request :: "config \<Rightarrow> string \<Rightarrow> message list \<Rightarrow> request" where
  "build_request cfg used_model messages =
     \<lparr>req_model = used_model, req_messages = messages, req_max_tokens = max_tokens cfg,
      req_authorization = ''Bearer '' @ api_key cfg\<rparr>"

text \<open>
  \<^verbatim>\<open>response.raise_for_status()\<close> raises \<^verbatim>\<open>HTTPError\<close> with the response attached
  exactly when \<open>400 \<le> status_code < 600\<close>.
\<close>

definition raises_for_status :: "response \<Rightarrow> bool" where
  "raises_for_status r = (400 \<le> status_code r \<and> status_code r < 600)"

text \<open>
  The truth value of a response object, as \<^verbatim>\<open>if e.response\<close> tests it: the library
  defines \<^verbatim>\<open>Response.__bool__\<close> as \<^verbatim>\<open>self.ok\<close>, which is false exactly when
  \<^verbatim>\<open>raise_for_status()\<close> would raise.
\<close>

definition response_bool :: "response \<Rightarrow> bool" where
  "response_bool r = (\<not> raises_for_status r)"

fun try_block :: "post_result \<Rightarrow> exc + content_value" where
  "try_block TimedOut = Inl Timeout"
| "try_block ConnectionFailed = Inl RequestException"
| "try_block (Responded r) =
     (if raises_for_status r then Inl (HTTPError r)
      else case json r of
             Content c \<Rightarrow> Inr c
           | JsonRequestException \<Rightarrow> Inl RequestException
           | JsonOtherException \<Rightarrow> Inl OtherException)"

text \<open>The value of \<^verbatim>\<open>status_code\<close> in the handler: a number, or the string \<^verbatim>\<open>"?"\<close>.\<close>

datatype status = Code int | Unknown

datatype http_action =
  RaiseApiKey | RaiseGuthaben | RaiseVision | BackoffExponential | BackoffFlat

text \<open>The \<^verbatim>\<open>if\<close>/\<^verbatim>\<open>elif\<close> chain of the \<^verbatim>\<open>HTTPError\<close> handler.\<close>

definition http_error_action :: "response \<Rightarrow> http_action" where
  "http_error_action r =
     (let status = (if response_bool r then Code (status_code r) else Unknown);
          error_body = (if response_bool r then body_text r else [])
      in if status = Code 401 then RaiseApiKey
         else if status = Code 402 then RaiseGuthaben
         else if status = Code 400 \<and> sublist ''vision'' (lower error_body) then RaiseVision
         else if status = Code 429 \<or> status = Code 503 then BackoffExponential
         else BackoffFlat)"

text \<open>
  The HTTP error responses outside the five kinds that the branches of the handler name:
  401, 402, 400 with \<open>vision\<close> in the lower-cased body, 429 and 503.
\<close>

definition unclassified_http_error :: "response \<Rightarrow> bool" where
  "unclassified_http_error r =
     (raises_for_status r \<and> status_code r \<notin> {401, 402, 429, 503} \<and>
      \<not> (status_code r = 400 \<and> sublist ''vision'' (lower (body_text r))))"

datatype outcome = Returned content_value | Raised error | Exhausted "exc option"

definition backoff :: "nat \<Rightarrow> nat \<Rightarrow> world \<Rightarrow> world" where
  "backoff attempt delay w = (if attempt < MAX_RETRIES then sleep delay w else w)"

text \<open>
  The loop \<^verbatim>\<open>for attempt in range(1, MAX_RETRIES + 1)\<close>, by recursion over the range.
  \<open>Exhausted e\<close> means the loop ran to its end with \<^verbatim>\<open>last_exception = e\<close>.
\<close>

fun attempt_loop ::
  "config \<Rightarrow> env \<Rightarrow> message list \<Rightarrow> string \<Rightarrow> nat list \<Rightarrow> exc option \<Rightarrow> world
     \<Rightarrow> outcome \<times> world" where
  "attempt_loop cfg env messages used_model [] last_exception w = (Exhausted last_exception, w)"
| "attempt_loop cfg env messages used_model (attempt # rest) last_exception w =
     (let req = build_request cfg used_model messages;
          w1 = record_post req w
      in case try_block (post env (length (posted w)) req) of
           Inr c \<Rightarrow> (Returned c, w1)
         | Inl Timeout \<Rightarrow>
             attempt_loop cfg env messages used_model rest (Some Timeout)
               (backoff attempt (RETRY_BASE_DELAY ^ attempt) w1)
         | Inl (HTTPError r) \<Rightarrow>
             (case http_error_action r of
                RaiseApiKey \<Rightarrow> (Raised RuntimeError_api_key, w1)
              | RaiseGuthaben \<Rightarrow> (Raised RuntimeError_guthaben, w1)
              | RaiseVision \<Rightarrow> (Raised (RuntimeError_vision used_model), w1)
              | BackoffExponential \<Rightarrow>
                  attempt_loop cfg env messages used_model rest (Some (HTTPError r))
                    (backoff attempt (RETRY_BASE_DELAY ^ attempt) w1)
              | BackoffFlat \<Rightarrow>
                  attempt_loop cfg env messages used_model rest (Some (HTTPError r))
                    (backoff attempt RETRY_BASE_DELAY w1))
         | Inl RequestException \<Rightarrow>
             attempt_loop cfg env messages used_model rest (Some RequestException)
               (backoff attempt (RETRY_BASE_DELAY ^ attempt) w1)
         | Inl OtherException \<Rightarrow> (Raised UncaughtError, w1))"

definition attempt_range :: "nat list" where
  "attempt_range = [1..<MAX_RETRIES + 1]"

text \<open>\<^verbatim>\<open>used_model = model or self.model\<close>: \<^verbatim>\<open>None\<close> and the empty string are both falsy.\<close>

definition used_model_of :: "config \<Rightarrow> string option \<Rightarrow> string" where
  "used_model_of cfg model_arg =
     (case model_arg of None \<Rightarrow> model cfg | Some m \<Rightarrow> if m = [] then model cfg else m)"

text \<open>
  \<^verbatim>\<open>_call_api\<close> with the number of frames it may still nest; the call that would exceed
  the interpreter's limit raises \<^verbatim>\<open>RecursionError\<close>.
\<close>

fun call_api_rec ::
  "nat \<Rightarrow> config \<Rightarrow> env \<Rightarrow> message list \<Rightarrow> string option \<Rightarrow> world
     \<Rightarrow> (error + content_value) \<times> world" where
  "call_api_rec 0 cfg env messages model_arg w = (Inl RecursionError, w)"
| "call_api_rec (Suc depth) cfg env messages model_arg w =
     (let used_model = used_model_of cfg model_arg
      in case attempt_loop cfg env messages used_model attempt_range None w of
           (Returned c, w') \<Rightarrow> (Inr c, w')
         | (Raised e, w') \<Rightarrow> (Inl e, w')
         | (Exhausted last_exception, w') \<Rightarrow>
             if used_model \<noteq> fallback_model cfg
             then call_api_rec depth cfg env messages (Some (fallback_model cfg)) w'
             else (Inl (RuntimeError_exhausted last_exception), w'))"

definition call_api ::
  "config \<Rightarrow> env \<Rightarrow> message list \<Rightarrow> string option \<Rightarrow> world \<Rightarrow> (error + content_value) \<times> world" where
  "call_api cfg env messages model_arg w =
     call_api_rec (recursion_limit env) cfg env messages model_arg w"

subsection \<open>Fixed texts\<close>

text \<open>
  The string constants of the source, as their UTF-8 bytes. A byte outside printable ASCII,
  a quote and a backslash are written \<open>CHR 0x..\<close>.
\<close>

definition template_retrospektive :: string where
  \<open>template_retrospektive =
     ''Dies ist ein Retrospektiven-Board. Typische Kategorien: '' @ [CHR 0x27] @
     ''Was lief gut'' @ [CHR 0x27] @ '', '' @ [CHR 0x27] @ ''Was lief schlecht'' @
     [CHR 0x27] @ '', '' @ [CHR 0x27] @ ''Ma'' @ [CHR 0xC3, CHR 0x9F] @
     ''nahmen/Action Items'' @ [CHR 0x27] @
     ''. Achte auf Voting-Punkte zur Priorisierung von Ma'' @ [CHR 0xC3, CHR 0x9F] @
     ''nahmen.''\<close>

definition template_ideensammlung :: string where
  \<open>template_ideensammlung =
     ''Dies ist ein Ideensammlungs-Board (Brainstorming). Zettel si'' @
     ''nd in thematische Cluster gruppiert. Klebepunkte/Votes zeige'' @
     ''n Priorisierung der Ideen.''\<close>

definition template_metaplan :: string where
  \<open>template_metaplan =
     ''Dies ist ein Metaplan-Board. Fragen stehen oben, Antworten a'' @
     ''ls Karten darunter. Spalten strukturieren die Themen.''\<close>

definition template_5s_audit :: string where
  \<open>template_5s_audit =
     ''Dies ist ein 5S-Audit-Board. Die 5 Kategorien: Sortieren / S'' @ ''etzen / S'' @
     [CHR 0xC3, CHR 0xA4] @
     ''ubern / Standardisieren / Selbstdisziplin. Bewertungen oder '' @ ''Ma'' @
     [CHR 0xC3, CHR 0x9F] @ ''nahmen sind den Kategorien zugeordnet.''\<close>

definition BOARD_TEMPLATES :: "(string \<times> string) list" where
  "BOARD_TEMPLATES =
     [(''retrospektive'', template_retrospektive),
      (''ideensammlung'', template_ideensammlung),
      (''metaplan'', template_metaplan),
      (''5s_audit'', template_5s_audit),
      (''custom'', [])]"

text \<open>\<^verbatim>\<open>SYSTEM_PROMPT_TEMPLATE\<close> is cut at its two fields \<^verbatim>\<open>{context_section}\<close> and
  \<^verbatim>\<open>{confidence_section}\<close>.\<close>

definition SYSTEM_PROMPT_head :: string where
  \<open>SYSTEM_PROMPT_head =
     ''Du bist ein Experte f'' @ [CHR 0xC3, CHR 0xBC] @
     ''r die Digitalisierung von Workshop-Boards und Metaplan-W'' @
     [CHR 0xC3, CHR 0xA4] @ ''nden.\<newline>\<newline>''\<close>

definition SYSTEM_PROMPT_body :: string where
  \<open>SYSTEM_PROMPT_body =
     ''\<newline>\<newline>Analysiere das Bild nach folgendem strik'' @
     ''ten Ablauf:\<newline>\<newline>### SCHRITT 1 '' @
     [CHR 0xE2, CHR 0x80, CHR 0x93] @
     '' STRUKTURANALYSE\<newline>1. Beschreibe zuerst die Struktur:'' @
     '' Spalten, Cluster, Matrix, Freiform oder Mindmap?\<newline>2'' @
     ''. Haben die Farben der Zettel eine erkennbare Bedeutung? (z.'' @
     ''B. Gelb=Fakten, Gr'' @ [CHR 0xC3, CHR 0xBC] @
     ''n=Ideen, Rot=Kritik)\<newline>   Falls unklar: schreibe '' @ [CHR 0x22] @
     ''generisch'' @ [CHR 0x22] @
     ''.\<newline>3. Gibt es Voting-Punkte/Klebepunkte? Wenn ja, z'' @
     [CHR 0xC3, CHR 0xA4] @
     ''hle sie exakt nach Farbe und Position.\<newline>4. Dokumenti'' @
     ''ere Verbindungen: Pfeile oder Linien zwischen Zetteln.'' @
     ''\<newline>\<newline>### SCHRITT 2 '' @ [CHR 0xE2, CHR 0x80, CHR 0x93] @
     '' TRANSKRIPTION\<newline>Erstelle ein Markdown das die erkann'' @
     ''te Struktur abbildet:\<newline>- Spalten '' @ [CHR 0xE2, CHR 0x86, CHR 0x92] @
     '' ## '' @ [CHR 0xC3, CHR 0x9C] @ ''berschriften\<newline>- Cluster '' @
     [CHR 0xE2, CHR 0x86, CHR 0x92] @
     '' ## Cluster-Titel + verschachtelte Listen\<newline>- Zettel '' @
     [CHR 0xE2, CHR 0x86, CHR 0x92] @ '' * Listenpunkte (Text 1:1, inkl. Abk'' @
     [CHR 0xC3, CHR 0xBC] @ ''rzungen & Tippfehler)\<newline>- Unleserliches '' @
     [CHR 0xE2, CHR 0x86, CHR 0x92] @
     '' [unleserlich] oder [?]\<newline>- Votes/Punkte '' @
     [CHR 0xE2, CHR 0x86, CHR 0x92] @ '' in Klammern: (3 rote Punkte, 1 gr'' @
     [CHR 0xC3, CHR 0xBC] @ ''ner Punkt)\<newline>- Farben wenn relevant '' @
     [CHR 0xE2, CHR 0x86, CHR 0x92] @ '' (Farbe: Rot) als Annotation''\<close>

definition SYSTEM_PROMPT_tail :: string where
  \<open>SYSTEM_PROMPT_tail =
     ''\<newline>\<newline>### SCHRITT 5 '' @ [CHR 0xE2, CHR 0x80, CHR 0x93] @
     '' QUALIT'' @ [CHR 0xC3, CHR 0x84] @ ''TSEINSCH'' @ [CHR 0xC3, CHR 0x84] @
     ''TZUNG\<newline>Gib am Ende eine Gesamteinsch'' @ [CHR 0xC3, CHR 0xA4] @
     ''tzung deiner Erkennungsqualit'' @ [CHR 0xC3, CHR 0xA4] @
     ''t ab (0-100%) und begr'' @ [CHR 0xC3, CHR 0xBC] @ ''nde sie kurz.''\<close>

definition CONFIDENCE_SECTION :: string where
  \<open>CONFIDENCE_SECTION =
     ''\<newline>- Unsichere Erkennungen '' @ [CHR 0xE2, CHR 0x86, CHR 0x92] @
     '' mit [?] markieren und Konfidenz in Prozent angeben: [?] (Ko'' @
     ''nfidenz: 65%)''\<close>

text \<open>The fixed pieces of the f-strings of the four stages, in the order of the source.\<close>

definition analyze_structure_prompt :: string where
  \<open>analyze_structure_prompt =
     ''F'' @ [CHR 0xC3, CHR 0xBC] @
     ''hre NUR Schritt 1 (STRUKTURANALYSE) durch. Beschreibe Layout'' @
     ''-Typ, Farb-Semantik, Voting-Punkte und Verbindungen. Sei pr'' @
     [CHR 0xC3, CHR 0xA4] @ ''zise und strukturiert.''\<close>

definition transcribe_raw_prompt_1 :: string where
  \<open>transcribe_raw_prompt_1 =
     ''Die Strukturanalyse hat folgendes ergeben:\<newline>'' @ ''\<newline>''\<close>

definition transcribe_raw_prompt_2 :: string where
  \<open>transcribe_raw_prompt_2 =
     ''\<newline>\<newline>F'' @ [CHR 0xC3, CHR 0xBC] @
     ''hre nun Schritt 2 (TRANSKRIPTION) durch. Transkribiere ALLE '' @
     ''Zettel/Karten 1:1, inklusive Tippfehler und Abk'' @ [CHR 0xC3, CHR 0xBC] @
     ''rzungen. Nutze die erkannte Struktur als Gliederung (## f'' @
     [CHR 0xC3, CHR 0xBC] @ ''r Spalten/Cluster, * f'' @ [CHR 0xC3, CHR 0xBC] @
     ''r Zettel). Annotiere Voting-Punkte und relevante Farben.''\<close>

definition clean_and_enrich_prompt_1 :: string where
  \<open>clean_and_enrich_prompt_1 =
     ''\<newline>Du erh'' @ [CHR 0xC3, CHR 0xA4] @
     ''ltst eine Rohdaten-Transkription eines Workshop-Boards. F'' @
     [CHR 0xC3, CHR 0xBC] @
     ''hre folgende Bereinigungen durch:\<newline>\<newline>1. L'' @
     [CHR 0xC3, CHR 0xB6] @ ''se Abk'' @ [CHR 0xC3, CHR 0xBC] @
     ''rzungen auf (NUR wenn Kontext eindeutig, sonst belassen)'' @
     ''\<newline>2. Sortiere Eintr'' @ [CHR 0xC3, CHR 0xA4] @
     ''ge absteigend nach Votes/Stimmen (falls vorhanden)\<newline>'' @
     ''3. Entferne Farb-Annotationen wenn inhaltlich irrelevant (No'' @
     ''ise Reduction)\<newline>4. Reduziere Klebepunkte auf Zahlenw'' @ ''erte: '' @
     [CHR 0x27] @ ''(3 rote Punkte, 1 gr'' @ [CHR 0xC3, CHR 0xBC] @ ''n)'' @
     [CHR 0x27] @ '' '' @ [CHR 0xE2, CHR 0x86, CHR 0x92] @ '' '' @ [CHR 0x27] @
     ''(4 Stimmen)'' @ [CHR 0x27] @
     ''\<newline>5. Behalte die Markdown-Struktur (##, *) bei'' @
     ''\<newline>\<newline>Strukturkontext:\<newline>''\<close>

definition clean_and_enrich_prompt_2 :: string where
  \<open>clean_and_enrich_prompt_2 =
     ''\<newline>\<newline>Rohdaten:\<newline>\<newline>''\<close>

definition synthesize_summary_prompt_1 :: string where
  \<open>synthesize_summary_prompt_1 =
     ''\<newline>\<newline>Erstelle eine strukturierte _Summary.md '' @
     ''aus den bereinigten Board-Daten.\<newline>\<newline>## Pflic'' @
     ''ht-Struktur der Summary:\<newline>\<newline>### Executive Su'' @
     ''mmary (max. 10 Zeilen)\<newline>- Kernaussage '' @ [CHR 0x27] @
     ''in a nutshell'' @ [CHR 0x27] @ ''\<newline>- Top 1-2 Themen oder Beschl'' @
     [CHR 0xC3, CHR 0xBC] @ ''sse\<newline>- Gr'' @
     [CHR 0xC3, CHR 0xB6, CHR 0xC3, CHR 0x9F] @ ''te H'' @ [CHR 0xC3, CHR 0xBC] @
     ''rde oder Kontroverse (falls erkennbar)\<newline>\<newline>##'' @
     ''# Detaillierter Bericht\<newline>- Stichpunkte '' @
     [CHR 0xE2, CHR 0x86, CHR 0x92] @ '' ausformulierte, vollst'' @
     [CHR 0xC3, CHR 0xA4] @ ''ndige S'' @ [CHR 0xC3, CHR 0xA4] @
     ''tze\<newline>- Strukturiert nach Themenbereichen aus der Ana'' @
     ''lyse\<newline>- Pfeile/Verbindungen verbalisieren: '' @ [CHR 0x27] @
     ''Thema A f'' @ [CHR 0xC3, CHR 0xBC] @ ''hrt zu Thema B'' @ [CHR 0x27] @
     ''\<newline>- Absteigende Sortierung nach Relevanz/Votes'' @
     ''\<newline>\<newline>Strukturanalyse:\<newline>''\<close>

definition synthesize_summary_prompt_2 :: string where
  \<open>synthesize_summary_prompt_2 =
     ''\<newline>\<newline>Bereinigte Daten:\<newline>\<newline>''\<close>

subsection \<open>The prompt composer\<close>

definition templates_get :: "string \<Rightarrow> string" where
  "templates_get key = (case map_of BOARD_TEMPLATES key of None \<Rightarrow> [] | Some t \<Rightarrow> t)"

definition build_context_section :: "config \<Rightarrow> string" where
  "build_context_section cfg =
     (let template_text = templates_get (template cfg);
          template_text =
            (if template cfg = ''custom'' \<and> context_str cfg \<noteq> []
             then ''Board-Kontext: '' @ context_str cfg
             else if context_str cfg \<noteq> []
             then template_text @ ''\<newline>\<newline>Zus'' @ [CHR 0xC3, CHR 0xA4] @
                    ''tzlicher Kontext: '' @ context_str cfg
             else template_text)
      in if template_text \<noteq> [] then ''Board-Kontext:\<newline>'' @ template_text @ ''\<newline>''
         else [])"

definition system_prompt_format :: "string \<Rightarrow> string \<Rightarrow> string" where
  "system_prompt_format context_section confidence_section =
     SYSTEM_PROMPT_head @ context_section @ SYSTEM_PROMPT_body @ confidence_section @
     SYSTEM_PROMPT_tail"

definition build_vision_message :: "string \<Rightarrow> string \<Rightarrow> string \<Rightarrow> message list" where
  "build_vision_message image_b64 mime_type prompt =
     [\<lparr>role = ''user'',
       content = Parts [ImageUrl (''data:'' @ mime_type @ '';base64,'' @ image_b64),
                        TextPart prompt]\<rparr>]"

definition system_prompt :: "config \<Rightarrow> string" where
  "system_prompt cfg =
     (let context_section = build_context_section cfg;
          confidence_section = (if confidence cfg then CONFIDENCE_SECTION else [])
      in system_prompt_format context_section confidence_section)"

text \<open>
  The messages of the four stages. An earlier result is put into an f-string, which renders
  it with \<open>to_text\<close>.
\<close>

definition analyze_structure_messages :: "config \<Rightarrow> string \<Rightarrow> string \<Rightarrow> message list" where
  "analyze_structure_messages cfg image_b64 mime_type =
     \<lparr>role = ''system'', content = Str (system_prompt cfg)\<rparr> #
     build_vision_message image_b64 mime_type analyze_structure_prompt"

definition transcribe_raw_messages ::
  "config \<Rightarrow> string \<Rightarrow> string \<Rightarrow> content_value \<Rightarrow> message list" where
  "transcribe_raw_messages cfg image_b64 mime_type structure_analysis =
     (let prompt = transcribe_raw_prompt_1 @ to_text structure_analysis @ transcribe_raw_prompt_2
      in \<lparr>role = ''system'', content = Str (system_prompt cfg)\<rparr> #
         build_vision_message image_b64 mime_type prompt)"

definition clean_and_enrich_messages ::
  "config \<Rightarrow> content_value \<Rightarrow> content_value \<Rightarrow> message list" where
  "clean_and_enrich_messages cfg raw_content structure_analysis =
     (let context_section = build_context_section cfg;
          prompt = context_section @ clean_and_enrich_prompt_1 @ to_text structure_analysis @
                   clean_and_enrich_prompt_2 @ to_text raw_content
      in [\<lparr>role = ''user'', content = Str prompt\<rparr>])"

definition synthesize_summary_messages ::
  "config \<Rightarrow> content_value \<Rightarrow> content_value \<Rightarrow> message list" where
  "synthesize_summary_messages cfg cleaned_content structure_analysis =
     (let context_section = build_context_section cfg;
          template_hint = templates_get (template cfg);
          prompt = context_section @ ''\<newline>Board-Template: '' @ template cfg @ ''\<newline>'' @
                   (if template_hint \<noteq> [] then ''Template-Kontext: '' @ template_hint else []) @
                   synthesize_summary_prompt_1 @ to_text structure_analysis @
                   synthesize_summary_prompt_2 @ to_text cleaned_content
      in [\<lparr>role = ''user'', content = Str prompt\<rparr>])"

subsection \<open>The four stages\<close>

definition analyze_structure ::
  "config \<Rightarrow> env \<Rightarrow> string \<Rightarrow> string \<Rightarrow> world \<Rightarrow> (error + content_value) \<times> world" where
  "analyze_structure cfg env image_b64 mime_type w =
     call_api cfg env (analyze_structure_messages cfg image_b64 mime_type) None w"

definition transcribe_raw ::
  "config \<Rightarrow> env \<Rightarrow> string \<Rightarrow> string \<Rightarrow> content_value \<Rightarrow> world
     \<Rightarrow> (error + content_value) \<times> world" where
  "transcribe_raw cfg env image_b64 mime_type structure_analysis w =
     call_api cfg env (transcribe_raw_messages cfg image_b64 mime_type structure_analysis) None w"

definition clean_and_enrich ::
  "config \<Rightarrow> env \<Rightarrow> content_value \<Rightarrow> content_value \<Rightarrow> world
     \<Rightarrow> (error + content_value) \<times> world" where
  "clean_and_enrich cfg env raw_content structure_analysis w =
     call_api cfg env (clean_and_enrich_messages cfg raw_content structure_analysis) None w"

definition synthesize_summary ::
  "config \<Rightarrow> env \<Rightarrow> content_value \<Rightarrow> content_value \<Rightarrow> world
     \<Rightarrow> (error + content_value) \<times> world" where
  "synthesize_summary cfg env cleaned_content structure_analysis w =
     call_api cfg env (synthesize_summary_messages cfg cleaned_content structure_analysis) None w"

subsection \<open>Paths\<close>

text \<open>
  A \<^verbatim>\<open>Path\<close> object is modelled by the text it was made from, read as \<^verbatim>\<open>pathlib\<close> reads
  a POSIX path: the text is cut at every \<open>/\<close>, empty components and the components \<open>.\<close>
  are dropped (\<open>..\<close> is kept), and the root is \<open>/\<close>, or \<open>//\<close> for exactly two leading
  slashes, or empty for a relative path. \<open>path_str\<close> of the root and the parts is
  \<^verbatim>\<open>str(path)\<close>, which is \<open>.\<close> for the empty relative path.
\<close>

fun split_slash :: "string \<Rightarrow> string list" where
  "split_slash [] = [[]]"
| "split_slash (c # cs) =
     (if c = CHR ''/'' then [] # split_slash cs
      else case split_slash cs of [] \<Rightarrow> [[c]] | x # xs \<Rightarrow> (c # x) # xs)"

definition path_parts :: "string \<Rightarrow> string list" where
  "path_parts p = filter (\<lambda>c. c \<noteq> [] \<and> c \<noteq> ''.'') (split_slash p)"

definition path_root :: "string \<Rightarrow> string" where
  "path_root p =
     (let n = length (takeWhile (\<lambda>c. c = CHR ''/'') p)
      in if n = 0 then [] else if n = 2 then ''//'' else ''/'')"

fun join_slash :: "string list \<Rightarrow> string" where
  "join_slash [] = []"
| "join_slash [c] = c"
| "join_slash (c # d # cs) = c @ ''/'' @ join_slash (d # cs)"

definition path_str :: "string \<Rightarrow> string list \<Rightarrow> string" where
  "path_str root parts = (if root = [] \<and> parts = [] then ''.'' else root @ join_slash parts)"

text \<open>\<^verbatim>\<open>str(Path(p))\<close>: the text under which the operating system is asked for the file.\<close>

definition norm_path :: "string \<Rightarrow> string" where
  "norm_path p = path_str (path_root p) (path_parts p)"

text \<open>\<^verbatim>\<open>str(Path(dir) / name)\<close>: an absolute \<open>name\<close> replaces \<open>dir\<close>.\<close>

definition joinpath :: "string \<Rightarrow> string \<Rightarrow> string" where
  "joinpath dir name =
     (if path_root name \<noteq> [] then norm_path name
      else path_str (path_root dir) (path_parts dir @ path_parts name))"

text \<open>
  \<^verbatim>\<open>Path.name\<close>, \<^verbatim>\<open>Path.suffix\<close> and \<^verbatim>\<open>Path.stem\<close>: the name is the last part, and the
  suffix starts at the last dot of the name, unless that dot is its first or its last
  character.
\<close>

definition path_name :: "string \<Rightarrow> string" where
  "path_name p = (case path_parts p of [] \<Rightarrow> [] | c # cs \<Rightarrow> last (c # cs))"

text \<open>\<^verbatim>\<open>name.rfind('.')\<close>, with \<open>None\<close> for \<open>-1\<close>.\<close>

definition rfind_dot :: "string \<Rightarrow> nat option" where
  "rfind_dot name =
     (if CHR ''.'' \<in> set name
      then Some (length name - 1 - length (takeWhile (\<lambda>c. c \<noteq> CHR ''.'') (rev name)))
      else None)"

definition path_suffix :: "string \<Rightarrow> string" where
  "path_suffix p =
     (let name = path_name p
      in case rfind_dot name of
           None \<Rightarrow> []
         | Some i \<Rightarrow> if 0 < i \<and> i < length name - 1 then drop i name else [])"

definition path_stem :: "string \<Rightarrow> string" where
  "path_stem p =
     (let name = path_name p
      in case rfind_dot name of
           None \<Rightarrow> name
         | Some i \<Rightarrow> if 0 < i \<and> i < length name - 1 then take i name else name)"

subsection \<open>Files and the clock\<close>

text \<open>
  The file system maps the text of a path to a regular file or a directory.
  \<^verbatim>\<open>Path.exists\<close> holds for both; opening a directory for reading raises.
\<close>

definition path_exists :: "world \<Rightarrow> string \<Rightarrow> bool" where
  "path_exists w p = (files w (norm_path p) \<noteq> None)"

definition write_calls :: "world \<Rightarrow> string list" where
  "write_calls w = write_calls_of (trace w)"

text \<open>
  \<^verbatim>\<open>path.write_text(data, encoding="utf-8")\<close> for a path already in its \<open>str\<close> form: the
  environment says whether the write goes through, and what is left of the file if it
  raises.
\<close>

definition write_text :: "env \<Rightarrow> string \<Rightarrow> string \<Rightarrow> world \<Rightarrow> (error + unit) \<times> world" where
  "write_text env p data w =
     (case fs_write env (length (write_calls w)) p data of
        WriteOk \<Rightarrow>
          (Inr (), w\<lparr>trace := trace w @ [Wrote p], files := (files w)(p \<mapsto> File data)\<rparr>)
      | WriteRaises e left \<Rightarrow>
          (Inl e,
           w\<lparr>trace := trace w @ [WriteFailed p],
             files := (case left of None \<Rightarrow> files w | Some d \<Rightarrow> (files w)(p \<mapsto> File d))\<rparr>))"

text \<open>\<^verbatim>\<open>time.strftime('%Y-%m-%d %H:%M')\<close>: one more reading of the clock.\<close>

definition read_clock :: "env \<Rightarrow> world \<Rightarrow> string \<times> world" where
  "read_clock env w = (strftime env (clock_reads w), w\<lparr>clock_reads := clock_reads w + 1\<rparr>)"

subsection \<open>Image encoding\<close>

definition b64_alphabet :: string where
  "b64_alphabet = ''ABCDEFGHIJKLMNOPQRSTUVWXYZabcdefghijklmnopqrstuvwxyz0123456789+/''"

definition b64_char :: "nat \<Rightarrow> char" where
  "b64_char n = b64_alphabet ! (n mod 64)"

fun b64encode :: "string \<Rightarrow> string" where
  "b64encode [] = []"
| "b64encode [a] =
     (let n = of_char a * 65536
      in [b64_char (n div 262144), b64_char (n div 4096), CHR ''='', CHR ''=''])"
| "b64encode [a, b] =
     (let n = of_char a * 65536 + of_char b * 256
      in [b64_char (n div 262144), b64_char (n div 4096), b64_char (n div 64), CHR ''=''])"
| "b64encode (a # b # c # rest) =
     (let n = of_char a * 65536 + of_char b * 256 + of_char c
      in [b64_char (n div 262144), b64_char (n div 4096), b64_char (n div 64), b64_char n]
         @ b64encode rest)"

definition SUPPORTED_FORMATS :: "string set" where
  "SUPPORTED_FORMATS = {''.jpg'', ''.jpeg'', ''.png'', ''.webp''}"

definition mime_map :: "(string \<times> string) list" where
  "mime_map =
     [(''.jpg'', ''image/jpeg''),
      (''.jpeg'', ''image/jpeg''),
      (''.png'', ''image/png''),
      (''.webp'', ''image/webp'')]"

definition encode_image :: "string \<Rightarrow> world \<Rightarrow> error + string \<times> string" where
  "encode_image image_path w =
     (let suffix = lower (path_suffix image_path);
          mime_type = (case map_of mime_map suffix of None \<Rightarrow> ''image/jpeg'' | Some m \<Rightarrow> m)
      in case files w (norm_path image_path) of
           None \<Rightarrow> Inl (FileNotFoundError image_path)
         | Some Dir \<Rightarrow> Inl (IsADirectoryError image_path)
         | Some (File bytes) \<Rightarrow> Inr (b64encode bytes, mime_type))"

subsection \<open>The pipeline \<^verbatim>\<open>process_board\<close>\<close>

definition raw_path_of :: "config \<Rightarrow> string \<Rightarrow> string" where
  "raw_path_of cfg image_path = joinpath (output_dir cfg) (path_stem image_path @ ''_Raw.md'')"

definition summary_path_of :: "config \<Rightarrow> string \<Rightarrow> string" where
  "summary_path_of cfg image_path =
     joinpath (output_dir cfg) (path_stem image_path @ ''_Summary.md'')"

definition raw_header :: "config \<Rightarrow> string \<Rightarrow> string \<Rightarrow> content_value \<Rightarrow> string" where
  "raw_header cfg board_name now structure_analysis =
     ''# Rohdaten-Transkription: '' @ board_name @ ''\<newline>\<newline>**Erstellt:** '' @ now @
     ''\<newline>**Modell:** '' @ model cfg @ ''\<newline>**Template:** '' @ template cfg @
     ''\<newline>\<newline>---\<newline>\<newline>## Strukturanalyse\<newline>\<newline>'' @ to_text structure_analysis @
     ''\<newline>\<newline>---\<newline>\<newline>## Transkription\<newline>\<newline>''"

definition summary_header :: "config \<Rightarrow> string \<Rightarrow> string \<Rightarrow> string" where
  "summary_header cfg board_name now =
     ''# Executive Summary: '' @ board_name @ ''\<newline>\<newline>**Erstellt:** '' @ now @
     ''\<newline>**Modell:** '' @ model cfg @ ''\<newline>**Template:** '' @ template cfg @
     ''\<newline>\<newline>---\<newline>\<newline>''"

text \<open>
  \<^verbatim>\<open>raw_header + raw_content\<close> and \<^verbatim>\<open>summary_header + summary_content\<close> raise
  \<^verbatim>\<open>TypeError\<close> when the content is not a string; the header, and with it the clock, is
  evaluated before.
\<close>

definition process_board ::
  "config \<Rightarrow> env \<Rightarrow> string \<Rightarrow> world \<Rightarrow> (error + string \<times> string) \<times> world" where
  "process_board cfg env image_path w =
     (if \<not> path_exists w image_path then (Inl (FileNotFoundError image_path), w)
      else if lower (path_suffix image_path) \<notin> SUPPORTED_FORMATS
      then (Inl (ValueError (path_suffix image_path)), w)
      else
        let board_name = path_stem image_path;
            raw_path = raw_path_of cfg image_path;
            summary_path = summary_path_of cfg image_path
        in case encode_image image_path w of
             Inl e \<Rightarrow> (Inl e, w)
           | Inr (image_b64, mime_type) \<Rightarrow>
        (case analyze_structure cfg env image_b64 mime_type w of
             (Inl e, w1) \<Rightarrow> (Inl e, w1)
           | (Inr structure_analysis, w1) \<Rightarrow>
        (case transcribe_raw cfg env image_b64 mime_type structure_analysis w1 of
             (Inl e, w2) \<Rightarrow> (Inl e, w2)
           | (Inr raw_content, w2) \<Rightarrow>
        (let (now, w3) = read_clock env w2;
             header = raw_header cfg board_name now structure_analysis
         in case raw_content of
              NonText r \<Rightarrow> (Inl TypeError, w3)
            | Text raw_text \<Rightarrow>
        (case write_text env raw_path (header @ raw_text) w3 of
              (Inl e, w4) \<Rightarrow> (Inl e, w4)
            | (Inr u, w4) \<Rightarrow>
        (case clean_and_enrich cfg env raw_content structure_analysis w4 of
              (Inl e, w5) \<Rightarrow> (Inl e, w5)
            | (Inr cleaned_content, w5) \<Rightarrow>
        (case synthesize_summary cfg env cleaned_content structure_analysis w5 of
              (Inl e, w6) \<Rightarrow> (Inl e, w6)
            | (Inr summary_content, w6) \<Rightarrow>
        (let (now, w7) = read_clock env w6;
             header = summary_header cfg board_name now
         in case summary_content of
              NonText r \<Rightarrow> (Inl TypeError, w7)
            | Text summary_text \<Rightarrow>
        (case write_text env summary_path (header @ summary_text) w7 of
              (Inl e, w8) \<Rightarrow> (Inl e, w8)
            | (Inr u, w8) \<Rightarrow> (Inr (raw_path, summary_path), w8))))))))))"

subsection \<open>The batch loop of \<^verbatim>\<open>main\<close>\<close>

text \<open>
  \<^verbatim>\<open>for image_path in images: try: ... except Exception\<close>: every error of the model is an
  \<^verbatim>\<open>Exception\<close>, so each one is caught and counted.
\<close>

fun batch_loop ::
  "config \<Rightarrow> env \<Rightarrow> string list \<Rightarrow> nat \<times> nat \<Rightarrow> world \<Rightarrow> (nat \<times> nat) \<times> world" where
  "batch_loop cfg env [] counts w = (counts, w)"
| "batch_loop cfg env (image_path # images) (success_count, error_count) w =
     (case process_board cfg env image_path w of
        (Inr paths, w') \<Rightarrow> batch_loop cfg env images (success_count + 1, error_count) w'
      | (Inl e, w') \<Rightarrow> batch_loop cfg env images (success_count, error_count + 1) w')"

text \<open>
  The batch coordinator as the specification words it: the pipeline is applied to every image
  of the collection in order, each from the world the one before left, whatever the one
  before returned; the results are collected.
\<close>

fun process_all ::
  "config \<Rightarrow> env \<Rightarrow> string list \<Rightarrow> world \<Rightarrow> (error + string \<times> string) list \<times> world" where
  "process_all cfg env [] w = ([], w)"
| "process_all cfg env (image_path # images) w =
     (let (r, w') = process_board cfg env image_path w;
          (rs, w'') = process_all cfg env images w'
      in (r # rs, w''))"

subsection \<open>Inspecting a request\<close>

fun part_texts :: "part \<Rightarrow> string" where
  "part_texts (ImageUrl url) = url"
| "part_texts (TextPart t) = t"

fun content_texts :: "msg_content \<Rightarrow> string list" where
  "content_texts (Str s) = [s]"
| "content_texts (Parts ps) = map part_texts ps"

text \<open>Some text of some message of the request has \<open>s\<close> as a contiguous substring.\<close>

definition request_contains :: "request \<Rightarrow> string \<Rightarrow> bool" where
  "request_contains q s =
     list_ex (sublist s) (concat (map (\<lambda>m. content_texts (content m)) (req_messages q)))"

fun image_urls_of :: "part list \<Rightarrow> string list" where
  "image_urls_of [] = []"
| "image_urls_of (ImageUrl url # ps) = url # image_urls_of ps"
| "image_urls_of (TextPart t # ps) = image_urls_of ps"

fun content_image_urls :: "msg_content \<Rightarrow> string list" where
  "content_image_urls (Str s) = []"
| "content_image_urls (Parts ps) = image_urls_of ps"

definition request_image_urls :: "request \<Rightarrow> string list" where
  "request_image_urls q = concat (map (\<lambda>m. content_image_urls (content m)) (req_messages q))"

text \<open>The requests posted between two worlds of one run.\<close>

definition new_posts :: "world \<Rightarrow> world \<Rightarrow> request list" where
  "new_posts w w' = drop (length (posted w)) (posted w')"

subsection \<open>Example inputs\<close>

text \<open>The defaults of \<^verbatim>\<open>main\<close> and of the constructor.\<close>

definition example_config :: config where
  "example_config =
     \<lparr>api_key = ''sk-test'', model = ''google/gemini-2.0-flash'',
      fallback_model = ''anthropic/claude-sonnet-4-5'', output_dir = ''./output'',
      max_tokens = 4000, template = ''custom'', context_str = [], confidence = False\<rparr>"

text \<open>An endpoint that answers every request in the same way; every write goes through.\<close>

definition env_always :: "post_result \<Rightarrow> env" where
  "env_always reply =
     \<lparr>post = (\<lambda>n q. reply), strftime = (\<lambda>n. ''2026-02-26 12:00''), recursion_limit = 1000,
      fs_write = (\<lambda>n p d. WriteOk)\<rparr>"

definition empty_world :: world where
  "empty_world = \<lparr>trace = [], files = Map.empty, clock_reads = 0\<rparr>"

definition error_response :: "int \<Rightarrow> string \<Rightarrow> response" where
  "error_response code body = \<lparr>status_code = code, body_text = body, json = JsonOtherException\<rparr>"

definition ok_response :: "string \<Rightarrow> response" where
  "ok_response c = \<lparr>status_code = 200, body_text = [], json = Content (Text c)\<rparr>"

text \<open>A response with status 200 whose JSON body has no \<^verbatim>\<open>choices\<close> entry.\<close>

definition malformed_response :: response where
  "malformed_response = \<lparr>status_code = 200, body_text = ''{}'', json = JsonOtherException\<rparr>"

text \<open>
  The answer to the request number \<open>n\<close> of the examples: a text that depends on \<open>n\<close> and
  occurs in none of the fixed texts.
\<close>

definition example_output :: "nat \<Rightarrow> string" where
  "example_output n = ''~Antwort '' @ replicate (Suc n) CHR ''I'' @ ''~''"

text \<open>
  An endpoint that answers the request number \<open>n\<close> with the text \<open>example_output n\<close>,
  except that the requests number \<open>lo\<close> up to \<open>hi - 1\<close> get \<open>reply\<close>.
\<close>

definition env_example :: "nat \<Rightarrow> nat \<Rightarrow> post_result \<Rightarrow> env" where
  "env_example lo hi reply =
     \<lparr>post = (\<lambda>n q. if lo \<le> n \<and> n < hi then reply
                     else Responded (ok_response (example_output n))),
      strftime = (\<lambda>n. ''2026-02-26 12:00''), recursion_limit = 1000,
      fs_write = (\<lambda>n p d. WriteOk)\<rparr>"

definition example_world :: world where
  "example_world =
     \<lparr>trace = [],
      files = [''board.jpg'' \<mapsto> File ''abc'', ''photo.PNG'' \<mapsto> File ''abc'',
               ''notes.txt'' \<mapsto> File ''abc''],
      clock_reads = 0\<rparr>"

definition batch_world :: world where
  "batch_world =
     \<lparr>trace = [],
      files = [''a.jpg'' \<mapsto> File ''abc'', ''b.png'' \<mapsto> File ''abc'', ''c.webp'' \<mapsto> File ''abc''],
      clock_reads = 0\<rparr>"

section \<open>Facts\<close>

subsection \<open>The executor\<close>

lemma attempt_range_eq: "attempt_range = [1, 2, 3]"
  by (simp add: attempt_range_def MAX_RETRIES_def upt_rec)

lemma posted_of_append: "posted_of (xs @ ys) = posted_of xs @ posted_of ys"
  by (induction xs rule: posted_of.induct) simp_all

lemma slept_of_append: "slept_of (xs @ ys) = slept_of xs @ slept_of ys"
  by (induction xs rule: slept_of.induct) simp_all

lemma posted_record_post: "posted (record_post req w) = posted w @ [req]"
  by (simp add: posted_def record_post_def posted_of_append)

lemma posted_sleep: "posted (sleep d w) = posted w"
  by (simp add: posted_def sleep_def posted_of_append)

lemma posted_backoff: "posted (backoff a d w) = posted w"
  by (simp add: backoff_def posted_sleep)

lemma files_record_post: "files (record_post req w) = files w"
  by (simp add: record_post_def)

lemma files_backoff: "files (backoff a d w) = files w"
  by (simp add: backoff_def sleep_def)

lemma clock_record_post: "clock_reads (record_post req w) = clock_reads w"
  by (simp add: record_post_def)

lemma clock_backoff: "clock_reads (backoff a d w) = clock_reads w"
  by (simp add: backoff_def sleep_def)

lemma attempt_loop_posted:
  "attempt_loop cfg env msgs m as l w = (out, w') \<Longrightarrow>
     \<exists>k\<le>length as. posted w' = posted w @ replicate k (build_request cfg m msgs) \<and>
       (as \<noteq> [] \<longrightarrow> 0 < k) \<and> (\<forall>e. out = Exhausted e \<longrightarrow> k = length as)"
proof (induction as arbitrary: l w)
  case Nil
  then show ?case by auto
next
  case (Cons a as)
  let ?req = "build_request cfg m msgs"
  let ?w1 = "record_post ?req w"
  have step: "\<exists>k\<le>length (a # as). posted w' = posted w @ replicate k ?req \<and> 0 < k \<and>
      (\<forall>e. out = Exhausted e \<longrightarrow> k = length (a # as))"
    if rec: "attempt_loop cfg env msgs m as l' (backoff a d ?w1) = (out, w')" for l' d
  proof -
    from Cons.IH [OF rec] obtain k where k: "k \<le> length as"
      "posted w' = posted (backoff a d ?w1) @ replicate k ?req"
      "\<forall>e. out = Exhausted e \<longrightarrow> k = length as" by blast
    have "posted w' = posted w @ replicate (Suc k) ?req"
      using k(2) by (simp add: posted_backoff posted_record_post replicate_app_Cons_same)
    with k(1,3) show ?thesis by (intro exI [of _ "Suc k"]) auto
  qed
  have stop: "\<exists>k\<le>length (a # as). posted w' = posted w @ replicate k ?req \<and> 0 < k \<and>
      (\<forall>e. out = Exhausted e \<longrightarrow> k = length (a # as))"
    if "w' = ?w1" "\<And>e. out \<noteq> Exhausted e"
    using that by (intro exI [of _ "Suc 0"]) (simp add: posted_record_post)
  from Cons.prems
  have "(\<exists>l' d. attempt_loop cfg env msgs m as l' (backoff a d ?w1) = (out, w')) \<or>
        (w' = ?w1 \<and> (\<forall>e. out \<noteq> Exhausted e))"
    by (auto simp: Let_def split: sum.splits exc.splits http_action.splits)
  then show ?case using step stop by blast
qed

lemma attempt_loop_files:
  "attempt_loop cfg env msgs m as l w = (out, w') \<Longrightarrow>
     files w' = files w \<and> clock_reads w' = clock_reads w"
  by (induction as arbitrary: l w)
     (auto simp: Let_def files_record_post files_backoff clock_record_post clock_backoff
           split: sum.splits exc.splits http_action.splits)

lemma http_error_action_raises:
  "raises_for_status r \<Longrightarrow> http_error_action r = BackoffFlat"
  by (simp add: http_error_action_def response_bool_def)

lemma attempt_loop_timeouts:
  assumes "\<forall>n q. post env n q = TimedOut"
  shows "attempt_loop cfg env msgs m attempt_range None w =
     (Exhausted (Some Timeout),
      w\<lparr>trace := trace w @
         [Posted (build_request cfg m msgs), Slept (RETRY_BASE_DELAY ^ 1),
          Posted (build_request cfg m msgs), Slept (RETRY_BASE_DELAY ^ 2),
          Posted (build_request cfg m msgs)]\<rparr>)"
  using assms
  by (simp add: attempt_range_eq backoff_def sleep_def record_post_def MAX_RETRIES_def)

lemma attempt_loop_flat:
  assumes "\<forall>n q. post env n q = Responded (resp n q) \<and> raises_for_status (resp n q)"
  shows "attempt_loop cfg env msgs m attempt_range None w =
     (Exhausted (Some (HTTPError (resp (length (posted w) + 2) (build_request cfg m msgs)))),
      w\<lparr>trace := trace w @
         [Posted (build_request cfg m msgs), Slept RETRY_BASE_DELAY,
          Posted (build_request cfg m msgs), Slept RETRY_BASE_DELAY,
          Posted (build_request cfg m msgs)]\<rparr>)"
  using assms
  by (simp add: attempt_range_eq backoff_def sleep_def record_post_def MAX_RETRIES_def
      http_error_action_raises posted_def posted_of_append Let_def)

lemma call_api_rec_Suc_Suc:
  "2 \<le> n \<Longrightarrow> \<exists>d. n = Suc (Suc d)"
  by presburger


lemma call_api_same_model:
  assumes "model cfg = fallback_model cfg" and "1 \<le> recursion_limit env"
    and "attempt_loop cfg env msgs (model cfg) attempt_range None w = (Exhausted e, w')"
  shows "call_api cfg env msgs None w = (Inl (RuntimeError_exhausted e), w') \<and>
         posted w' = posted w @ replicate MAX_RETRIES (build_request cfg (model cfg) msgs)"
proof -
  from assms(2) obtain d where d: "recursion_limit env = Suc d"
    by (cases "recursion_limit env") auto
  from attempt_loop_posted [OF assms(3)]
  have "posted w' = posted w @ replicate MAX_RETRIES (build_request cfg (model cfg) msgs)"
    by (auto simp: attempt_range_eq MAX_RETRIES_def numeral_3_eq_3)
  then show ?thesis
    using assms(1,3) by (simp add: call_api_def d used_model_of_def)
qed

lemma call_api_rec_empty_fallback:
  assumes "\<forall>n q. post env n q = TimedOut" and "fallback_model cfg = []" and "model cfg \<noteq> []"
    and "ma = None \<or> ma = Some []"
  shows "fst (call_api_rec d cfg env msgs ma w) = Inl RecursionError \<and>
         length (posted (snd (call_api_rec d cfg env msgs ma w))) = length (posted w) + MAX_RETRIES * d"
  using assms(4)
proof (induction d arbitrary: ma w)
  case 0
  then show ?case by simp
next
  case (Suc d)
  have um: "used_model_of cfg ma = model cfg"
    using Suc.prems by (auto simp: used_model_of_def)
  let ?w1 = "snd (attempt_loop cfg env msgs (model cfg) attempt_range None w)"
  have step: "call_api_rec (Suc d) cfg env msgs ma w = call_api_rec d cfg env msgs (Some []) ?w1"
    using assms(2,3) by (simp add: um attempt_loop_timeouts [OF assms(1)] Let_def)
  have len: "length (posted ?w1) = length (posted w) + MAX_RETRIES"
    by (simp add: attempt_loop_timeouts [OF assms(1)] posted_def posted_of_append MAX_RETRIES_def)
  from Suc.IH [of "Some []" ?w1] show ?case
    unfolding step by (simp add: len)
qed


lemma Suc5: "Suc (Suc (Suc (Suc (Suc n)))) = n + 5"
  by simp

lemma call_api_all_http_errors:
  assumes "\<forall>n q. post env n q = Responded (resp n q) \<and> raises_for_status (resp n q)"
    and "model cfg \<noteq> fallback_model cfg" and "fallback_model cfg \<noteq> []"
    and "2 \<le> recursion_limit env"
  shows "call_api cfg env msgs None w =
     (Inl (RuntimeError_exhausted (Some (HTTPError
        (resp (length (posted w) + 5) (build_request cfg (fallback_model cfg) msgs))))),
      w\<lparr>trace := trace w @
         [Posted (build_request cfg (model cfg) msgs), Slept RETRY_BASE_DELAY,
          Posted (build_request cfg (model cfg) msgs), Slept RETRY_BASE_DELAY,
          Posted (build_request cfg (model cfg) msgs),
          Posted (build_request cfg (fallback_model cfg) msgs), Slept RETRY_BASE_DELAY,
          Posted (build_request cfg (fallback_model cfg) msgs), Slept RETRY_BASE_DELAY,
          Posted (build_request cfg (fallback_model cfg) msgs)]\<rparr>)"
proof -
  from assms(4) obtain d where d: "recursion_limit env = Suc (Suc d)"
    using call_api_rec_Suc_Suc by blast
  show ?thesis
    using assms(2,3)
    by (simp add: call_api_def d used_model_of_def attempt_loop_flat [OF assms(1)] Let_def
        posted_def posted_of_append Suc5)
qed

lemma example_http_error:
  assumes "400 \<le> code" and "code < 600"
  shows "call_api example_config (env_always (Responded (error_response code body))) msgs None
           empty_world =
     (Inl (RuntimeError_exhausted (Some (HTTPError (error_response code body)))),
      empty_world\<lparr>trace :=
         [Posted (build_request example_config ''google/gemini-2.0-flash'' msgs), Slept 2,
          Posted (build_request example_config ''google/gemini-2.0-flash'' msgs), Slept 2,
          Posted (build_request example_config ''google/gemini-2.0-flash'' msgs),
          Posted (build_request example_config ''anthropic/claude-sonnet-4-5'' msgs), Slept 2,
          Posted (build_request example_config ''anthropic/claude-sonnet-4-5'' msgs), Slept 2,
          Posted (build_request example_config ''anthropic/claude-sonnet-4-5'' msgs)]\<rparr>)"
proof -
  have "call_api example_config (env_always (Responded (error_response code body))) msgs None
          empty_world = (Inl (RuntimeError_exhausted (Some (HTTPError
        ((\<lambda>n q. error_response code body) (length (posted empty_world) + 5) (build_request example_config (fallback_model example_config) msgs))))),
      empty_world\<lparr>trace := trace empty_world @
         [Posted (build_request example_config (model example_config) msgs), Slept RETRY_BASE_DELAY,
          Posted (build_request example_config (model example_config) msgs), Slept RETRY_BASE_DELAY,
          Posted (build_request example_config (model example_config) msgs),
          Posted (build_request example_config (fallback_model example_config) msgs), Slept RETRY_BASE_DELAY,
          Posted (build_request example_config (fallback_model example_config) msgs), Slept RETRY_BASE_DELAY,
          Posted (build_request example_config (fallback_model example_config) msgs)]\<rparr>)"
    by (rule call_api_all_http_errors)
       (simp_all add: env_always_def example_config_def raises_for_status_def error_response_def assms)
  then show ?thesis
    by (simp add: example_config_def empty_world_def RETRY_BASE_DELAY_def)
qed

lemma used_model_of_None: "used_model_of cfg None = model cfg"
  by (simp add: used_model_of_def)

lemma call_api_rec_extends:
  "\<exists>ext. posted (snd (call_api_rec d cfg env msgs ma w)) = posted w @ ext"
proof (induction d arbitrary: ma w)
  case 0
  then show ?case by simp
next
  case (Suc d)
  obtain out w1 where al:
    "attempt_loop cfg env msgs (used_model_of cfg ma) attempt_range None w = (out, w1)"
    by (cases "attempt_loop cfg env msgs (used_model_of cfg ma) attempt_range None w")
  from attempt_loop_posted [OF al] obtain k where
    k: "posted w1 = posted w @ replicate k (build_request cfg (used_model_of cfg ma) msgs)"
    by blast
  from Suc.IH [of "Some (fallback_model cfg)" w1] obtain ext where
    "posted (snd (call_api_rec d cfg env msgs (Some (fallback_model cfg)) w1)) = posted w1 @ ext"
    by blast
  with k al show ?case
    by (cases out) (auto simp: Let_def)
qed

lemma call_api_rec_first_post:
  "\<exists>ext. posted (snd (call_api_rec (Suc d) cfg env msgs ma w)) =
     posted w @ build_request cfg (used_model_of cfg ma) msgs # ext"
proof -
  obtain out w1 where al:
    "attempt_loop cfg env msgs (used_model_of cfg ma) attempt_range None w = (out, w1)"
    by (cases "attempt_loop cfg env msgs (used_model_of cfg ma) attempt_range None w")
  from attempt_loop_posted [OF al] obtain k where
    k: "posted w1 = posted w @ replicate k (build_request cfg (used_model_of cfg ma) msgs)"
       "0 < k"
    by (auto simp: attempt_range_eq)
  then obtain k' where k': "k = Suc k'" by (cases k) auto
  from call_api_rec_extends [of d cfg env msgs "Some (fallback_model cfg)" w1] obtain ext where
    "posted (snd (call_api_rec d cfg env msgs (Some (fallback_model cfg)) w1)) = posted w1 @ ext"
    by blast
  with k k' al show ?thesis
    by (cases out) (auto simp: Let_def)
qed

lemma call_api_rec_files:
  "files (snd (call_api_rec d cfg env msgs ma w)) = files w \<and>
   clock_reads (snd (call_api_rec d cfg env msgs ma w)) = clock_reads w"
proof (induction d arbitrary: ma w)
  case 0
  then show ?case by simp
next
  case (Suc d)
  obtain out w1 where al:
    "attempt_loop cfg env msgs (used_model_of cfg ma) attempt_range None w = (out, w1)"
    by (cases "attempt_loop cfg env msgs (used_model_of cfg ma) attempt_range None w")
  from attempt_loop_files [OF al] Suc.IH [of "Some (fallback_model cfg)" w1] al
  show ?case
    by (cases out) (auto simp: Let_def)
qed

lemma call_api_bounded:
  assumes "fallback_model cfg \<noteq> [] \<or> model cfg = fallback_model cfg"
    and "2 \<le> recursion_limit env"
  shows "fst (call_api cfg env msgs None w) \<noteq> Inl RecursionError \<and>
         length (posted (snd (call_api cfg env msgs None w)))
           \<le> length (posted w) + 2 * MAX_RETRIES"
proof -
  from assms(2) obtain d where d: "recursion_limit env = Suc (Suc d)"
    using call_api_rec_Suc_Suc by blast
  obtain out w1 where al:
    "attempt_loop cfg env msgs (model cfg) attempt_range None w = (out, w1)"
    by (cases "attempt_loop cfg env msgs (model cfg) attempt_range None w")
  from attempt_loop_posted [OF al]
  have l1: "length (posted w1) \<le> length (posted w) + MAX_RETRIES"
    by (auto simp: attempt_range_eq MAX_RETRIES_def)
  have nr: "e \<noteq> RecursionError" if "attempt_loop cfg env msgs m as l v = (Raised e, v')"
    for e m as l v v'
    using that
    by (induction as arbitrary: l v)
       (auto simp: Let_def split: sum.splits exc.splits http_action.splits)
  show ?thesis
  proof (cases "model cfg = fallback_model cfg")
    case True
    with al l1 show ?thesis
      by (cases out) (auto simp: call_api_def d used_model_of_def dest: nr)
  next
    case False
    with assms(1) have fb: "fallback_model cfg \<noteq> []" by simp
    obtain out2 w2 where al2:
      "attempt_loop cfg env msgs (fallback_model cfg) attempt_range None w1 = (out2, w2)"
      by (cases "attempt_loop cfg env msgs (fallback_model cfg) attempt_range None w1")
    from attempt_loop_posted [OF al2]
    have l2: "length (posted w2) \<le> length (posted w1) + MAX_RETRIES"
      by (auto simp: attempt_range_eq MAX_RETRIES_def)
    from False fb al al2 l1 l2 show ?thesis
      by (cases out; cases out2) (auto simp: call_api_def d used_model_of_def dest: nr)
  qed
qed

subsection \<open>Claims about the executor\<close>

text \<open>
  C1 (does not hold of the code). The claim: a 401, a 402 or a 400 whose body names the
  missing vision capability ends the call after exactly one attempt, with no delay, no
  fallback and the specific cause. The handler reads the status through
  \<^verbatim>\<open>e.response.status_code if e.response else "?"\<close>, and a response with an error status
  is falsy, so the three branches are never taken: with the default models and an endpoint
  that always answers 401, the call posts three times to the primary model with a flat delay
  of 2 s in between, three times to the fallback model, and raises the generic exhaustion
  error; likewise (six attempts, generic error) for 402 and for the 400 vision rejection.
\<close>

theorem terminal_statuses_are_retried:
  "call_api example_config (env_always (Responded (error_response 401 ''Unauthorized'')))
          msgs None empty_world =
     (Inl (RuntimeError_exhausted (Some (HTTPError (error_response 401 ''Unauthorized'')))),
      empty_world\<lparr>trace :=
         [Posted (build_request example_config ''google/gemini-2.0-flash'' msgs), Slept 2,
          Posted (build_request example_config ''google/gemini-2.0-flash'' msgs), Slept 2,
          Posted (build_request example_config ''google/gemini-2.0-flash'' msgs),
          Posted (build_request example_config ''anthropic/claude-sonnet-4-5'' msgs), Slept 2,
          Posted (build_request example_config ''anthropic/claude-sonnet-4-5'' msgs), Slept 2,
          Posted (build_request example_config ''anthropic/claude-sonnet-4-5'' msgs)]\<rparr>)
   \<and> fst (call_api example_config (env_always (Responded (error_response 402 ''Payment Required'')))
          msgs None empty_world) =
       Inl (RuntimeError_exhausted (Some (HTTPError (error_response 402 ''Payment Required''))))
   \<and> length (posted (snd (call_api example_config
        (env_always (Responded (error_response 402 ''Payment Required''))) msgs None empty_world)))
       = 6
   \<and> fst (call_api example_config
            (env_always (Responded (error_response 400 ''model has no vision support'')))
          msgs None empty_world) =
       Inl (RuntimeError_exhausted
             (Some (HTTPError (error_response 400 ''model has no vision support''))))
   \<and> length (posted (snd (call_api example_config
        (env_always (Responded (error_response 400 ''model has no vision support''))) msgs None
        empty_world))) = 6"
  by (simp add: example_http_error posted_def)

text \<open>
  C9 (does not hold of the code). The claim: the fallback dispatch happens at most once per
  call, so a call makes at most \<open>2 * MAX_RETRIES\<close> attempts. With an empty fallback model
  identifier and a non-empty primary one, \<^verbatim>\<open>model or self.model\<close> turns the fallback
  dispatch back into the primary model, which again differs from the fallback: on an endpoint
  that always times out the call dispatches again at every level, makes \<open>MAX_RETRIES\<close>
  attempts per nested frame and ends with \<^verbatim>\<open>RecursionError\<close>, whatever the recursion limit
  \<open>L\<close> is. (For a non-empty fallback identifier the bound holds: \<open>call_api_bounded\<close>.)
\<close>

theorem empty_fallback_recursion_unbounded:
  "fst (call_api (example_config\<lparr>fallback_model := []\<rparr>)
          (env_always TimedOut\<lparr>recursion_limit := L\<rparr>) msgs None w) = Inl RecursionError \<and>
   length (posted (snd (call_api (example_config\<lparr>fallback_model := []\<rparr>)
          (env_always TimedOut\<lparr>recursion_limit := L\<rparr>) msgs None w)))
     = length (posted w) + MAX_RETRIES * L"
  unfolding call_api_def
  using call_api_rec_empty_fallback
    [of "env_always TimedOut\<lparr>recursion_limit := L\<rparr>" "example_config\<lparr>fallback_model := []\<rparr>"
        None L msgs w]
  by (simp add: env_always_def example_config_def)



text \<open>
  C3 (confirmed). If the primary model identifier equals the fallback model identifier and
  the attempt loop of a call runs to its end (every attempt failed in a retryable way), the
  call is not dispatched again: it raises the exhaustion error at once, after exactly
  \<open>MAX_RETRIES\<close> requests.
\<close>

theorem fallback_idempotence:
  assumes "model cfg = fallback_model cfg" and "1 \<le> recursion_limit env"
    and "attempt_loop cfg env msgs (model cfg) attempt_range None w = (Exhausted e, w')"
  shows "call_api cfg env msgs None w = (Inl (RuntimeError_exhausted e), w') \<and>
         posted w' = posted w @ replicate MAX_RETRIES (build_request cfg (model cfg) msgs)"
  using call_api_same_model [OF assms] .

theorem fallback_idempotence_witness:
  "call_api (example_config\<lparr>fallback_model := ''google/gemini-2.0-flash''\<rparr>)
     (env_always ConnectionFailed) [] None empty_world =
   (Inl (RuntimeError_exhausted (Some RequestException)),
    empty_world\<lparr>trace :=
      [Posted (build_request example_config ''google/gemini-2.0-flash'' []), Slept 2,
       Posted (build_request example_config ''google/gemini-2.0-flash'' []), Slept 4,
       Posted (build_request example_config ''google/gemini-2.0-flash'' [])]\<rparr>)"
proof -
  let ?cfg = "example_config\<lparr>fallback_model := ''google/gemini-2.0-flash''\<rparr>"
  let ?w = "empty_world\<lparr>trace :=
      [Posted (build_request example_config ''google/gemini-2.0-flash'' []), Slept 2,
       Posted (build_request example_config ''google/gemini-2.0-flash'' []), Slept 4,
       Posted (build_request example_config ''google/gemini-2.0-flash'' [])]\<rparr>"
  have loop: "attempt_loop ?cfg (env_always ConnectionFailed) [] (model ?cfg) attempt_range None
          empty_world = (Exhausted (Some RequestException), ?w)"
    by (simp add: attempt_range_eq env_always_def example_config_def empty_world_def
        backoff_def sleep_def record_post_def MAX_RETRIES_def RETRY_BASE_DELAY_def
        build_request_def posted_def)
  have "model ?cfg = fallback_model ?cfg" by (simp add: example_config_def)
  moreover have "1 \<le> recursion_limit (env_always ConnectionFailed)"
    by (simp add: env_always_def)
  ultimately show ?thesis
    using fallback_idempotence [OF _ _ loop] by simp
qed


text \<open>
  C8 (corrected). The claim: an HTTP error outside the five classified kinds is retried
  exactly once with a flat delay and the budget of the model then counts as exhausted. The
  code gives such an error the same budget as every other retryable failure: on an endpoint
  that always answers 500 the primary model is tried three times, not two.
\<close>

theorem unclassified_error_counterexample:
  "trace (snd (call_api example_config
       (env_always (Responded (error_response 500 ''Internal Server Error''))) [] None
       empty_world)) =
     [Posted (build_request example_config ''google/gemini-2.0-flash'' []), Slept 2,
      Posted (build_request example_config ''google/gemini-2.0-flash'' []), Slept 2,
      Posted (build_request example_config ''google/gemini-2.0-flash'' []),
      Posted (build_request example_config ''anthropic/claude-sonnet-4-5'' []), Slept 2,
      Posted (build_request example_config ''anthropic/claude-sonnet-4-5'' []), Slept 2,
      Posted (build_request example_config ''anthropic/claude-sonnet-4-5'' [])] \<and>
   length (filter (\<lambda>q. req_model q = ''google/gemini-2.0-flash'')
     (posted (snd (call_api example_config
       (env_always (Responded (error_response 500 ''Internal Server Error''))) [] None
       empty_world)))) \<noteq> 2"
  by (simp add: example_http_error posted_def build_request_def)

lemma try_block_http_error:
  "raises_for_status r \<Longrightarrow> try_block (Responded r) = Inl (HTTPError r)"
  by simp

lemma attempt_step_flat:
  assumes "post env (length (posted w)) (build_request cfg m msgs) = Responded r"
    and "raises_for_status r"
  shows "attempt_loop cfg env msgs m (k # rest) l w =
     attempt_loop cfg env msgs m rest (Some (HTTPError r))
       (w\<lparr>trace := trace w @
          (if k < MAX_RETRIES
           then [Posted (build_request cfg m msgs), Slept RETRY_BASE_DELAY]
           else [Posted (build_request cfg m msgs)])\<rparr>)"
  using assms
  by (simp add: Let_def http_error_action_raises backoff_def sleep_def record_post_def)

lemma posted_trace_append:
  "posted (w\<lparr>trace := trace w @ evs\<rparr>) = posted w @ posted_of evs"
  by (simp add: posted_def posted_of_append)

text \<open>
  C8, amended: an attempt answered by an HTTP error response outside the five kinds (401,
  402, 400 naming vision, 429, 503) is followed by the flat delay \<open>RETRY_BASE_DELAY\<close>, with
  no exponent, unless it is the attempt number \<open>MAX_RETRIES\<close>, which is followed by no
  delay; the loop then goes on with the attempts that remain of the same budget of
  \<open>MAX_RETRIES\<close> attempts, the error kept as the last exception, whatever the attempts
  before were and the attempts after will be: the error does not end the budget after one
  retry. When the three attempts of a frame are all answered so, the model gets three
  requests with the flat delay between them; the frame then dispatches the call to the
  fallback model if the model it used is not the fallback model, and raises the exhaustion
  error, the last response as its cause, if it is.
\<close>

theorem unclassified_error_flat_retries:
  assumes "post env (length (posted w)) (build_request cfg (used_model_of cfg ma) msgs) =
             Responded r"
    and "unclassified_http_error r"
  shows "attempt_loop cfg env msgs (used_model_of cfg ma) (k # rest) l w =
     attempt_loop cfg env msgs (used_model_of cfg ma) rest (Some (HTTPError r))
       (w\<lparr>trace := trace w @
          (if k < MAX_RETRIES
           then [Posted (build_request cfg (used_model_of cfg ma) msgs), Slept RETRY_BASE_DELAY]
           else [Posted (build_request cfg (used_model_of cfg ma) msgs)])\<rparr>) \<and>
   (\<forall>r2 r3.
      post env (length (posted w) + 1) (build_request cfg (used_model_of cfg ma) msgs) =
        Responded r2 \<and> unclassified_http_error r2 \<and>
      post env (length (posted w) + 2) (build_request cfg (used_model_of cfg ma) msgs) =
        Responded r3 \<and> unclassified_http_error r3 \<longrightarrow>
      call_api_rec (Suc d) cfg env msgs ma w =
        (if used_model_of cfg ma \<noteq> fallback_model cfg
         then call_api_rec d cfg env msgs (Some (fallback_model cfg))
                (w\<lparr>trace := trace w @
                   [Posted (build_request cfg (used_model_of cfg ma) msgs), Slept RETRY_BASE_DELAY,
                    Posted (build_request cfg (used_model_of cfg ma) msgs), Slept RETRY_BASE_DELAY,
                    Posted (build_request cfg (used_model_of cfg ma) msgs)]\<rparr>)
         else (Inl (RuntimeError_exhausted (Some (HTTPError r3))),
               w\<lparr>trace := trace w @
                   [Posted (build_request cfg (used_model_of cfg ma) msgs), Slept RETRY_BASE_DELAY,
                    Posted (build_request cfg (used_model_of cfg ma) msgs), Slept RETRY_BASE_DELAY,
                    Posted (build_request cfg (used_model_of cfg ma) msgs)]\<rparr>)))"
proof (intro conjI allI impI)
  let ?m = "used_model_of cfg ma"
  let ?q = "build_request cfg ?m msgs"
  from assms(2) have r: "raises_for_status r"
    by (simp add: unclassified_http_error_def)
  show "attempt_loop cfg env msgs ?m (k # rest) l w =
     attempt_loop cfg env msgs ?m rest (Some (HTTPError r))
       (w\<lparr>trace := trace w @
          (if k < MAX_RETRIES then [Posted ?q, Slept RETRY_BASE_DELAY] else [Posted ?q])\<rparr>)"
    by (rule attempt_step_flat [OF assms(1) r])
  fix r2 r3
  assume h: "post env (length (posted w) + 1) ?q = Responded r2 \<and> unclassified_http_error r2 \<and>
      post env (length (posted w) + 2) ?q = Responded r3 \<and> unclassified_http_error r3"
  then have r2: "raises_for_status r2" and r3: "raises_for_status r3"
    by (simp_all add: unclassified_http_error_def)
  let ?w1 = "w\<lparr>trace := trace w @ [Posted ?q, Slept RETRY_BASE_DELAY]\<rparr>"
  let ?w2 = "w\<lparr>trace := trace w @ [Posted ?q, Slept RETRY_BASE_DELAY, Posted ?q,
                 Slept RETRY_BASE_DELAY]\<rparr>"
  let ?w3 = "w\<lparr>trace := trace w @ [Posted ?q, Slept RETRY_BASE_DELAY, Posted ?q,
                 Slept RETRY_BASE_DELAY, Posted ?q]\<rparr>"
  have p1: "post env (length (posted ?w1)) ?q = Responded r2"
    using h by (simp add: posted_trace_append)
  have p2: "post env (length (posted ?w2)) ?q = Responded r3"
    using h by (simp add: posted_trace_append)
  have s1: "attempt_loop cfg env msgs ?m [1, 2, 3] None w =
             attempt_loop cfg env msgs ?m [2, 3] (Some (HTTPError r)) ?w1"
    using attempt_step_flat [OF assms(1) r, of 1 "[2, 3]" None]
    by (simp add: MAX_RETRIES_def)
  have s2: "attempt_loop cfg env msgs ?m [2, 3] (Some (HTTPError r)) ?w1 =
             attempt_loop cfg env msgs ?m [3] (Some (HTTPError r2)) ?w2"
    using attempt_step_flat [OF p1 r2, of 2 "[3]" "Some (HTTPError r)"]
    by (simp add: MAX_RETRIES_def)
  have s3: "attempt_loop cfg env msgs ?m [3] (Some (HTTPError r2)) ?w2 =
             attempt_loop cfg env msgs ?m [] (Some (HTTPError r3)) ?w3"
    using attempt_step_flat [OF p2 r3, of 3 "[]" "Some (HTTPError r2)"]
    by (simp add: MAX_RETRIES_def)
  have loop: "attempt_loop cfg env msgs ?m attempt_range None w =
             (Exhausted (Some (HTTPError r3)), ?w3)"
    unfolding attempt_range_eq s1 s2 s3 by simp
  show "call_api_rec (Suc d) cfg env msgs ma w =
        (if ?m \<noteq> fallback_model cfg
         then call_api_rec d cfg env msgs (Some (fallback_model cfg)) ?w3
         else (Inl (RuntimeError_exhausted (Some (HTTPError r3))), ?w3))"
    by (simp add: loop Let_def)
qed

theorem unclassified_error_flat_retries_witness:
  "attempt_loop example_config
      (env_example 0 1 (Responded (error_response 500 ''Internal Server Error''))) []
      ''google/gemini-2.0-flash'' [1, 2, 3] None empty_world =
     (Returned (Text (example_output 1)),
      empty_world\<lparr>trace :=
        [Posted (build_request example_config ''google/gemini-2.0-flash'' []), Slept 2,
         Posted (build_request example_config ''google/gemini-2.0-flash'' [])]\<rparr>) \<and>
   call_api_rec 2 example_config
      (env_always (Responded (error_response 500 ''Internal Server Error''))) [] None
      empty_world =
     call_api_rec 1 example_config
      (env_always (Responded (error_response 500 ''Internal Server Error''))) []
      (Some ''anthropic/claude-sonnet-4-5'')
      (empty_world\<lparr>trace :=
        [Posted (build_request example_config ''google/gemini-2.0-flash'' []), Slept 2,
         Posted (build_request example_config ''google/gemini-2.0-flash'' []), Slept 2,
         Posted (build_request example_config ''google/gemini-2.0-flash'' [])]\<rparr>) \<and>
   call_api_rec 1 (example_config\<lparr>fallback_model := ''google/gemini-2.0-flash''\<rparr>)
      (env_always (Responded (error_response 500 ''Internal Server Error''))) [] None
      empty_world =
     (Inl (RuntimeError_exhausted
        (Some (HTTPError (error_response 500 ''Internal Server Error'')))),
      empty_world\<lparr>trace :=
        [Posted (build_request example_config ''google/gemini-2.0-flash'' []), Slept 2,
         Posted (build_request example_config ''google/gemini-2.0-flash'' []), Slept 2,
         Posted (build_request example_config ''google/gemini-2.0-flash'' [])]\<rparr>)"
proof -
  let ?r = "error_response 500 ''Internal Server Error''"
  let ?q = "build_request example_config ''google/gemini-2.0-flash'' []"
  let ?w3 = "empty_world\<lparr>trace := [Posted ?q, Slept 2, Posted ?q, Slept 2, Posted ?q]\<rparr>"
  have u: "unclassified_http_error ?r"
    by (simp add: unclassified_http_error_def raises_for_status_def error_response_def)
  have m: "used_model_of example_config None = ''google/gemini-2.0-flash''"
    by (simp add: used_model_of_def example_config_def)
  have p0: "post (env_example 0 1 (Responded ?r)) (length (posted empty_world))
              (build_request example_config (used_model_of example_config None) []) =
            Responded ?r"
    by (simp add: env_example_def empty_world_def posted_def)
  note step = unclassified_error_flat_retries [where k = 1 and rest = "[2, 3]" and l = None,
      OF p0 u, THEN conjunct1]
  have rest: "attempt_loop example_config (env_example 0 1 (Responded ?r)) []
       ''google/gemini-2.0-flash'' [2, 3] (Some (HTTPError ?r))
       (empty_world\<lparr>trace := trace empty_world @ [Posted ?q, Slept RETRY_BASE_DELAY]\<rparr>) =
     (Returned (Text (example_output 1)),
      empty_world\<lparr>trace := [Posted ?q, Slept 2, Posted ?q]\<rparr>)"
    by (simp add: env_example_def empty_world_def posted_def RETRY_BASE_DELAY_def Let_def
        record_post_def ok_response_def raises_for_status_def)
  have a: "attempt_loop example_config (env_example 0 1 (Responded ?r)) []
      ''google/gemini-2.0-flash'' [1, 2, 3] None empty_world =
     (Returned (Text (example_output 1)),
      empty_world\<lparr>trace := [Posted ?q, Slept 2, Posted ?q]\<rparr>)"
    using step rest unfolding m by (simp add: MAX_RETRIES_def del: attempt_loop.simps)
  have p1: "post (env_always (Responded ?r)) (length (posted empty_world))
              (build_request example_config (used_model_of example_config None) []) =
            Responded ?r"
    by (simp add: env_always_def)
  have p23: "post (env_always (Responded ?r)) (length (posted empty_world) + 1)
              (build_request example_config (used_model_of example_config None) []) =
            Responded ?r \<and> unclassified_http_error ?r \<and>
          post (env_always (Responded ?r)) (length (posted empty_world) + 2)
              (build_request example_config (used_model_of example_config None) []) =
            Responded ?r \<and> unclassified_http_error ?r"
    using u by (simp add: env_always_def)
  note frame = unclassified_error_flat_retries [where d = 1, OF p1 u, THEN conjunct2,
      rule_format, OF p23]
  have fb: "fallback_model example_config = ''anthropic/claude-sonnet-4-5''"
    by (simp add: example_config_def)
  have b: "call_api_rec 2 example_config (env_always (Responded ?r)) [] None empty_world =
     call_api_rec 1 example_config (env_always (Responded ?r)) []
      (Some ''anthropic/claude-sonnet-4-5'') ?w3"
    using frame unfolding m fb
    by (simp add: empty_world_def RETRY_BASE_DELAY_def numeral_2_eq_2 del: call_api_rec.simps)
  let ?cfg = "example_config\<lparr>fallback_model := ''google/gemini-2.0-flash''\<rparr>"
  have m': "used_model_of ?cfg None = ''google/gemini-2.0-flash''"
    by (simp add: used_model_of_def example_config_def)
  have q': "build_request ?cfg ''google/gemini-2.0-flash'' [] = ?q"
    by (simp add: build_request_def example_config_def)
  have p1': "post (env_always (Responded ?r)) (length (posted empty_world))
              (build_request ?cfg (used_model_of ?cfg None) []) = Responded ?r"
    by (simp add: env_always_def)
  have p23': "post (env_always (Responded ?r)) (length (posted empty_world) + 1)
              (build_request ?cfg (used_model_of ?cfg None) []) =
            Responded ?r \<and> unclassified_http_error ?r \<and>
          post (env_always (Responded ?r)) (length (posted empty_world) + 2)
              (build_request ?cfg (used_model_of ?cfg None) []) =
            Responded ?r \<and> unclassified_http_error ?r"
    using u by (simp add: env_always_def)
  note frame' = unclassified_error_flat_retries [where d = 0, OF p1' u, THEN conjunct2,
      rule_format, OF p23']
  have c: "call_api_rec 1 ?cfg (env_always (Responded ?r)) [] None empty_world =
     (Inl (RuntimeError_exhausted (Some (HTTPError ?r))), ?w3)"
    using frame' unfolding m' q'
    by (simp add: empty_world_def RETRY_BASE_DELAY_def del: call_api_rec.simps)
  from a b c show ?thesis by (intro conjI)
qed

subsection \<open>The prompt composer\<close>

lemma templates_get_named:
  "templates_get ''retrospektive'' = template_retrospektive"
  "templates_get ''ideensammlung'' = template_ideensammlung"
  "templates_get ''metaplan'' = template_metaplan"
  "templates_get ''5s_audit'' = template_5s_audit"
  "templates_get ''custom'' = []"
  by (simp_all add: templates_get_def BOARD_TEMPLATES_def)

lemma templates_nonempty:
  "template_retrospektive \<noteq> []" "template_ideensammlung \<noteq> []"
  "template_metaplan \<noteq> []" "template_5s_audit \<noteq> []"
  by (simp_all add: template_retrospektive_def template_ideensammlung_def
      template_metaplan_def template_5s_audit_def)

lemma templates_get_named_nonempty:
  "t \<in> {''retrospektive'', ''ideensammlung'', ''metaplan'', ''5s_audit''} \<Longrightarrow>
     templates_get t \<noteq> [] \<and> t \<noteq> ''custom''"
  by (auto simp: templates_get_named templates_nonempty)

lemma templates_get_unknown: "map_of BOARD_TEMPLATES t = None \<Longrightarrow> templates_get t = []"
  by (simp add: templates_get_def)

text \<open>
  C7 (corrected). The claim: with the template \<^verbatim>\<open>custom\<close> and the context \<^verbatim>\<open>X\<close> the
  context block equals \<^verbatim>\<open>Board-Kontext: X\<close>, and with a named template and no context it
  equals the template's text. The code wraps every non-empty block in the header line
  \<^verbatim>\<open>Board-Kontext:\<close> and a final newline, so the block for \<^verbatim>\<open>custom\<close> and \<^verbatim>\<open>X\<close> is
  the three lines below, not the bare text.
\<close>

theorem context_custom_counterexample:
  "build_context_section (example_config\<lparr>template := ''custom'', context_str := ''X''\<rparr>) =
     ''Board-Kontext:\<newline>Board-Kontext: X\<newline>'' \<and>
   build_context_section (example_config\<lparr>template := ''custom'', context_str := ''X''\<rparr>) \<noteq>
     ''Board-Kontext: X''"
  by (simp add: build_context_section_def example_config_def templates_get_named)

text \<open>
  C7, amended. The context block is empty exactly when the context is empty and the
  template key has no text (the key is \<^verbatim>\<open>custom\<close>, empty or unknown); otherwise it is the
  header line \<^verbatim>\<open>Board-Kontext:\<close>, a non-empty body and a final newline. The body is:
  for the template \<^verbatim>\<open>custom\<close> with a non-empty context \<open>X\<close>, the line \<^verbatim>\<open>Board-Kontext: X\<close>;
  for one of the four named templates with no context, the template's fixed text; for a named
  template with a non-empty context \<open>X\<close>, the template's text first, then a blank line, then
  \<^verbatim>\<open>Zusaetzlicher Kontext: X\<close> (written with a-umlaut); for an empty or unknown template
  key with a non-empty context \<open>X\<close>, a blank line and \<^verbatim>\<open>Zusaetzlicher Kontext: X\<close> after an
  empty first line. An empty or unknown template key, or the key \<^verbatim>\<open>custom\<close>, with no
  context gives no block at all (the empty string).
\<close>

theorem context_composition:
  "(template cfg = ''custom'' \<and> context_str cfg \<noteq> [] \<longrightarrow>
      build_context_section cfg =
        ''Board-Kontext:\<newline>'' @ (''Board-Kontext: '' @ context_str cfg) @ ''\<newline>'') \<and>
   (template cfg \<in> {''retrospektive'', ''ideensammlung'', ''metaplan'', ''5s_audit''} \<and>
    context_str cfg = [] \<longrightarrow>
      build_context_section cfg =
        ''Board-Kontext:\<newline>'' @ templates_get (template cfg) @ ''\<newline>'') \<and>
   (template cfg \<in> {''retrospektive'', ''ideensammlung'', ''metaplan'', ''5s_audit''} \<and>
    context_str cfg \<noteq> [] \<longrightarrow>
      build_context_section cfg =
        ''Board-Kontext:\<newline>'' @
        (templates_get (template cfg) @ ''\<newline>\<newline>Zus'' @ [CHR 0xC3, CHR 0xA4] @
           ''tzlicher Kontext: '' @ context_str cfg) @ ''\<newline>'') \<and>
   (map_of BOARD_TEMPLATES (template cfg) = None \<and> context_str cfg \<noteq> [] \<longrightarrow>
      build_context_section cfg =
        ''Board-Kontext:\<newline>'' @
        (''\<newline>\<newline>Zus'' @ [CHR 0xC3, CHR 0xA4] @ ''tzlicher Kontext: '' @ context_str cfg) @
        ''\<newline>'') \<and>
   ((template cfg = ''custom'' \<or> map_of BOARD_TEMPLATES (template cfg) = None) \<and>
    context_str cfg = [] \<longrightarrow> build_context_section cfg = []) \<and>
   map_of BOARD_TEMPLATES [] = None \<and>
   (template cfg \<in> {''retrospektive'', ''ideensammlung'', ''metaplan'', ''5s_audit'', ''custom''} \<or>
    map_of BOARD_TEMPLATES (template cfg) = None) \<and>
   (build_context_section cfg = [] \<longleftrightarrow>
      context_str cfg = [] \<and> templates_get (template cfg) = []) \<and>
   (build_context_section cfg = [] \<or>
    (\<exists>body. body \<noteq> [] \<and>
       build_context_section cfg = ''Board-Kontext:\<newline>'' @ body @ ''\<newline>''))"
proof (intro conjI impI)
  assume "template cfg = ''custom'' \<and> context_str cfg \<noteq> []"
  then show "build_context_section cfg =
        ''Board-Kontext:\<newline>'' @ (''Board-Kontext: '' @ context_str cfg) @ ''\<newline>''"
    by (simp add: build_context_section_def)
next
  assume a: "template cfg \<in> {''retrospektive'', ''ideensammlung'', ''metaplan'', ''5s_audit''} \<and>
    context_str cfg = []"
  with templates_get_named_nonempty [of "template cfg"]
  show "build_context_section cfg =
        ''Board-Kontext:\<newline>'' @ templates_get (template cfg) @ ''\<newline>''"
    by (simp add: build_context_section_def Let_def)
next
  assume a: "template cfg \<in> {''retrospektive'', ''ideensammlung'', ''metaplan'', ''5s_audit''} \<and>
    context_str cfg \<noteq> []"
  with templates_get_named_nonempty [of "template cfg"]
  show "build_context_section cfg =
        ''Board-Kontext:\<newline>'' @
        (templates_get (template cfg) @ ''\<newline>\<newline>Zus'' @ [CHR 0xC3, CHR 0xA4] @
           ''tzlicher Kontext: '' @ context_str cfg) @ ''\<newline>''"
    by (simp add: build_context_section_def Let_def)
next
  assume a: "map_of BOARD_TEMPLATES (template cfg) = None \<and> context_str cfg \<noteq> []"
  then have "templates_get (template cfg) = []" "template cfg \<noteq> ''custom''"
    by (auto simp: templates_get_unknown BOARD_TEMPLATES_def)
  with a show "build_context_section cfg =
        ''Board-Kontext:\<newline>'' @
        (''\<newline>\<newline>Zus'' @ [CHR 0xC3, CHR 0xA4] @ ''tzlicher Kontext: '' @ context_str cfg) @
        ''\<newline>''"
    by (simp add: build_context_section_def Let_def)
next
  assume a: "(template cfg = ''custom'' \<or> map_of BOARD_TEMPLATES (template cfg) = None) \<and>
    context_str cfg = []"
  then have "templates_get (template cfg) = []"
    by (auto simp: templates_get_unknown templates_get_named)
  with a show "build_context_section cfg = []"
    by (simp add: build_context_section_def Let_def)
next
  show "map_of BOARD_TEMPLATES [] = None" by (simp add: BOARD_TEMPLATES_def)
next
  show "template cfg \<in> {''retrospektive'', ''ideensammlung'', ''metaplan'', ''5s_audit'', ''custom''} \<or>
    map_of BOARD_TEMPLATES (template cfg) = None"
    by (simp add: BOARD_TEMPLATES_def)
next
  show "build_context_section cfg = [] \<longleftrightarrow>
      context_str cfg = [] \<and> templates_get (template cfg) = []"
    by (simp add: build_context_section_def Let_def)
next
  show "build_context_section cfg = [] \<or>
    (\<exists>body. body \<noteq> [] \<and>
       build_context_section cfg = ''Board-Kontext:\<newline>'' @ body @ ''\<newline>'')"
    by (simp add: build_context_section_def Let_def)
qed

theorem context_composition_witness:
  "build_context_section (example_config\<lparr>template := ''custom'', context_str := ''X''\<rparr>) =
     ''Board-Kontext:\<newline>Board-Kontext: X\<newline>'' \<and>
   build_context_section (example_config\<lparr>template := ''metaplan'', context_str := []\<rparr>) =
     ''Board-Kontext:\<newline>'' @ template_metaplan @ ''\<newline>'' \<and>
   build_context_section (example_config\<lparr>template := ''metaplan'', context_str := ''X''\<rparr>) =
     ''Board-Kontext:\<newline>'' @ template_metaplan @ ''\<newline>\<newline>Zus'' @ [CHR 0xC3, CHR 0xA4] @
       ''tzlicher Kontext: X\<newline>'' \<and>
   build_context_section (example_config\<lparr>template := ''unknown'', context_str := ''X''\<rparr>) =
     ''Board-Kontext:\<newline>\<newline>\<newline>Zus'' @ [CHR 0xC3, CHR 0xA4] @ ''tzlicher Kontext: X\<newline>'' \<and>
   build_context_section (example_config\<lparr>template := [], context_str := ''X''\<rparr>) =
     ''Board-Kontext:\<newline>\<newline>\<newline>Zus'' @ [CHR 0xC3, CHR 0xA4] @ ''tzlicher Kontext: X\<newline>'' \<and>
   build_context_section (example_config\<lparr>template := ''unknown'', context_str := []\<rparr>) = [] \<and>
   build_context_section (example_config\<lparr>template := [], context_str := []\<rparr>) = [] \<and>
   build_context_section (example_config\<lparr>template := ''custom'', context_str := []\<rparr>) = []"
  using context_composition [of "example_config\<lparr>template := ''custom'', context_str := ''X''\<rparr>"]
    context_composition [of "example_config\<lparr>template := ''metaplan'', context_str := []\<rparr>"]
    context_composition [of "example_config\<lparr>template := ''metaplan'', context_str := ''X''\<rparr>"]
    context_composition [of "example_config\<lparr>template := ''unknown'', context_str := ''X''\<rparr>"]
    context_composition [of "example_config\<lparr>template := [], context_str := ''X''\<rparr>"]
    context_composition [of "example_config\<lparr>template := ''unknown'', context_str := []\<rparr>"]
    context_composition [of "example_config\<lparr>template := [], context_str := []\<rparr>"]
    context_composition [of "example_config\<lparr>template := ''custom'', context_str := []\<rparr>"]
  by (simp add: example_config_def templates_get_named BOARD_TEMPLATES_def)

subsection \<open>Media subtypes and the checks of the pipeline\<close>

lemma mime_map_dom: "dom (map_of mime_map) = SUPPORTED_FORMATS"
  by (auto simp: mime_map_def SUPPORTED_FORMATS_def split: if_splits)

lemma mime_map_values:
  "map_of mime_map ''.jpg'' = Some ''image/jpeg''"
  "map_of mime_map ''.jpeg'' = Some ''image/jpeg''"
  "map_of mime_map ''.png'' = Some ''image/png''"
  "map_of mime_map ''.webp'' = Some ''image/webp''"
  by (simp_all add: mime_map_def)

text \<open>
  C6 (corrected). The claim: the map from supported extensions to media subtypes is total and
  injective on the supported set. It is total, and not injective: \<^verbatim>\<open>.jpg\<close> and \<^verbatim>\<open>.jpeg\<close> both
  map to \<^verbatim>\<open>image/jpeg\<close>.
\<close>

theorem mime_map_not_injective_counterexample:
  "\<not> inj_on (map_of mime_map) SUPPORTED_FORMATS"
proof
  assume "inj_on (map_of mime_map) SUPPORTED_FORMATS"
  moreover have "''.jpg'' \<in> SUPPORTED_FORMATS" "''.jpeg'' \<in> SUPPORTED_FORMATS"
    by (simp_all add: SUPPORTED_FORMATS_def)
  moreover have "map_of mime_map ''.jpg'' = map_of mime_map ''.jpeg''"
    by (simp add: mime_map_values)
  ultimately have "''.jpg'' = ''.jpeg''" unfolding inj_on_def by blast
  then show False by simp
qed

lemma mime_map_inj_apart_jpeg:
  "inj_on (map_of mime_map) (SUPPORTED_FORMATS - {''.jpeg''})"
  by (auto simp: inj_on_def SUPPORTED_FORMATS_def mime_map_def)

subsection \<open>Paths\<close>

lemma split_slash_nonempty: "split_slash s \<noteq> []"
  by (induction s) (auto split: list.splits)

lemma split_slash_no_slash: "c \<in> set (split_slash s) \<Longrightarrow> CHR ''/'' \<notin> set c"
proof (induction s arbitrary: c)
  case Nil
  then show ?case by simp
next
  case (Cons a s)
  then show ?case
    using split_slash_nonempty [of s]
    by (cases "split_slash s") (auto split: if_splits)
qed

lemma split_slash_plain: "CHR ''/'' \<notin> set s \<Longrightarrow> split_slash s = [s]"
  by (induction s) auto

lemma path_parts_no_slash: "c \<in> set (path_parts p) \<Longrightarrow> CHR ''/'' \<notin> set c"
  by (auto simp: path_parts_def dest: split_slash_no_slash)

lemma path_name_no_slash: "CHR ''/'' \<notin> set (path_name p)"
proof (cases "path_parts p")
  case Nil
  then show ?thesis by (simp add: path_name_def)
next
  case (Cons c cs)
  then have "last (c # cs) \<in> set (path_parts p)"
    by (metis last_in_set list.distinct(1))
  with Cons show ?thesis
    using path_parts_no_slash [of "last (c # cs)" p] by (simp add: path_name_def)
qed

lemma path_stem_no_slash: "CHR ''/'' \<notin> set (path_stem p)"
  using path_name_no_slash [of p]
  by (auto simp: path_stem_def Let_def split: option.splits dest: in_set_takeD)

lemma path_parts_plain:
  "CHR ''/'' \<notin> set s \<Longrightarrow> s \<noteq> [] \<Longrightarrow> s \<noteq> ''.'' \<Longrightarrow> path_parts s = [s]"
  by (simp add: path_parts_def split_slash_plain)

lemma path_root_plain: "CHR ''/'' \<notin> set s \<Longrightarrow> path_root s = []"
  by (cases s) (auto simp: path_root_def)

lemma join_slash_snoc: "join_slash (ps @ [n]) = concat (map (\<lambda>c. c @ ''/'') ps) @ n"
  by (induction ps rule: join_slash.induct) auto

lemma joinpath_artifact:
  assumes "CHR ''/'' \<notin> set stem" and "CHR ''/'' \<notin> set tail" and "2 \<le> length tail"
  shows "joinpath dir (stem @ tail) =
           path_root dir @ concat (map (\<lambda>c. c @ ''/'') (path_parts dir)) @ stem @ tail"
proof -
  have ns: "CHR ''/'' \<notin> set (stem @ tail)" using assms by simp
  have ne: "stem @ tail \<noteq> []" "stem @ tail \<noteq> ''.''"
    using assms(3) by (auto simp: append_eq_Cons_conv)
  show ?thesis
    by (simp add: joinpath_def path_root_plain [OF ns] path_parts_plain [OF ns ne] path_str_def
        join_slash_snoc)
qed

lemma raw_path_of_eq:
  "raw_path_of cfg p =
     path_root (output_dir cfg) @ concat (map (\<lambda>c. c @ ''/'') (path_parts (output_dir cfg))) @
     path_stem p @ ''_Raw.md''"
  unfolding raw_path_of_def
  by (rule joinpath_artifact) (simp_all add: path_stem_no_slash)

lemma summary_path_of_eq:
  "summary_path_of cfg p =
     path_root (output_dir cfg) @ concat (map (\<lambda>c. c @ ''/'') (path_parts (output_dir cfg))) @
     path_stem p @ ''_Summary.md''"
  unfolding summary_path_of_def
  by (rule joinpath_artifact) (simp_all add: path_stem_no_slash)

lemma raw_summary_paths_differ: "raw_path_of cfg p \<noteq> summary_path_of cfg p"
  by (simp add: raw_path_of_eq summary_path_of_eq)

subsection \<open>The stage prompts contain the earlier outputs\<close>

lemma sublist_cons: "sublist xs ys \<Longrightarrow> sublist xs (y # ys)"
  by (simp add: sublist_Cons_right)

lemma sublist_app_left: "sublist xs ys \<Longrightarrow> sublist xs (zs @ ys)"
  by (metis append_assoc sublist_def)

lemma request_contains_messages:
  "req_messages q = req_messages q' \<Longrightarrow> request_contains q s = request_contains q' s"
  by (simp add: request_contains_def)

lemma transcribe_raw_contains:
  "req_messages q = transcribe_raw_messages cfg b mt sa \<Longrightarrow> request_contains q (to_text sa)"
  by (simp add: request_contains_def transcribe_raw_messages_def
      build_vision_message_def Let_def)

lemma clean_and_enrich_contains:
  "req_messages q = clean_and_enrich_messages cfg rc sa \<Longrightarrow> request_contains q (to_text sa)"
  "req_messages q = clean_and_enrich_messages cfg rc sa \<Longrightarrow> request_contains q (to_text rc)"
  by (simp_all add: request_contains_def clean_and_enrich_messages_def
      Let_def sublist_app_left)

lemma synthesize_summary_contains:
  "req_messages q = synthesize_summary_messages cfg cc sa \<Longrightarrow> request_contains q (to_text sa)"
  "req_messages q = synthesize_summary_messages cfg cc sa \<Longrightarrow> request_contains q (to_text cc)"
  by (simp_all add: request_contains_def synthesize_summary_messages_def
      Let_def sublist_app_left sublist_cons)

subsection \<open>What a call does to the world\<close>

lemma wrote_of_append: "wrote_of (xs @ ys) = wrote_of xs @ wrote_of ys"
  by (induction xs rule: wrote_of.induct) simp_all

lemma write_calls_of_append: "write_calls_of (xs @ ys) = write_calls_of xs @ write_calls_of ys"
  by (induction xs rule: write_calls_of.induct) simp_all

lemma attempt_loop_trace:
  "attempt_loop cfg env msgs m as l w = (out, w') \<Longrightarrow>
     \<exists>ext. trace w' = trace w @ ext \<and> wrote_of ext = [] \<and> write_calls_of ext = []"
proof (induction as arbitrary: l w)
  case Nil
  then show ?case by simp
next
  case (Cons a as)
  let ?w1 = "record_post (build_request cfg m msgs) w"
  have step: "\<exists>ext. trace w' = trace w @ ext \<and> wrote_of ext = [] \<and> write_calls_of ext = []"
    if rec: "attempt_loop cfg env msgs m as l' (backoff a d ?w1) = (out, w')" for l' d
  proof -
    from Cons.IH [OF rec] obtain ext where
      "trace w' = trace (backoff a d ?w1) @ ext" "wrote_of ext = []" "write_calls_of ext = []"
      by blast
    then show ?thesis
      by (auto simp: backoff_def sleep_def record_post_def wrote_of_append
          write_calls_of_append)
  qed
  from Cons.prems
  have "(\<exists>l' d. attempt_loop cfg env msgs m as l' (backoff a d ?w1) = (out, w')) \<or> w' = ?w1"
    by (auto simp: Let_def split: sum.splits exc.splits http_action.splits)
  then show ?case
    using step by (auto simp: record_post_def)
qed

lemma call_api_rec_trace:
  "\<exists>ext. trace (snd (call_api_rec d cfg env msgs ma w)) = trace w @ ext \<and> wrote_of ext = [] \<and>
     write_calls_of ext = []"
proof (induction d arbitrary: ma w)
  case 0
  then show ?case by simp
next
  case (Suc d)
  obtain out w1 where al:
    "attempt_loop cfg env msgs (used_model_of cfg ma) attempt_range None w = (out, w1)"
    by (cases "attempt_loop cfg env msgs (used_model_of cfg ma) attempt_range None w")
  from attempt_loop_trace [OF al] obtain e1 where
    e1: "trace w1 = trace w @ e1" "wrote_of e1 = []" "write_calls_of e1 = []" by blast
  from Suc.IH [of "Some (fallback_model cfg)" w1] obtain e2 where
    e2: "trace (snd (call_api_rec d cfg env msgs (Some (fallback_model cfg)) w1)) = trace w1 @ e2"
      "wrote_of e2 = []" "write_calls_of e2 = []" by blast
  have "\<exists>ext. trace w1 @ e2 = trace w @ ext \<and> wrote_of ext = [] \<and> write_calls_of ext = []"
    using e1 e2 by (simp add: wrote_of_append write_calls_of_append)
  with e1 e2 al show ?case
    by (cases out) (auto simp: Let_def)
qed

text \<open>Every request of a call carries the messages of the call.\<close>

lemma call_api_rec_requests:
  "\<exists>reqs. posted (snd (call_api_rec d cfg env msgs ma w)) = posted w @ reqs \<and>
     (\<forall>q\<in>set reqs. req_messages q = msgs) \<and> (reqs = [] \<longleftrightarrow> d = 0)"
proof (induction d arbitrary: ma w)
  case 0
  then show ?case by simp
next
  case (Suc d)
  let ?m = "used_model_of cfg ma"
  obtain out w1 where al: "attempt_loop cfg env msgs ?m attempt_range None w = (out, w1)"
    by (cases "attempt_loop cfg env msgs ?m attempt_range None w")
  from attempt_loop_posted [OF al] obtain k where
    k: "posted w1 = posted w @ replicate k (build_request cfg ?m msgs)" "0 < k"
    by (auto simp: attempt_range_eq)
  have one: "\<exists>reqs. posted w1 = posted w @ reqs \<and> (\<forall>q\<in>set reqs. req_messages q = msgs) \<and>
      reqs \<noteq> []"
    using k by (intro exI [of _ "replicate k (build_request cfg ?m msgs)"])
      (auto simp: build_request_def)
  from Suc.IH [of "Some (fallback_model cfg)" w1] obtain r2 where
    r2: "posted (snd (call_api_rec d cfg env msgs (Some (fallback_model cfg)) w1)) =
           posted w1 @ r2" "\<forall>q\<in>set r2. req_messages q = msgs" by blast
  from one obtain r1 where
    r1: "posted w1 = posted w @ r1" "\<forall>q\<in>set r1. req_messages q = msgs" "r1 \<noteq> []" by blast
  have two: "\<exists>reqs. posted (snd (call_api_rec d cfg env msgs (Some (fallback_model cfg)) w1)) =
      posted w @ reqs \<and> (\<forall>q\<in>set reqs. req_messages q = msgs) \<and> reqs \<noteq> []"
    using r1 r2 by (intro exI [of _ "r1 @ r2"]) auto
  from al one two show ?case
    by (cases out) (auto simp: Let_def)
qed

lemma call_api_effects:
  assumes "call_api cfg env msgs ma w = (r, w')"
  shows "files w' = files w" and "clock_reads w' = clock_reads w"
    and "\<exists>ext. trace w' = trace w @ ext \<and> wrote_of ext = [] \<and> write_calls_of ext = []"
proof -
  have w': "w' = snd (call_api_rec (recursion_limit env) cfg env msgs ma w)"
    using assms by (simp add: call_api_def)
  show "files w' = files w" "clock_reads w' = clock_reads w"
    unfolding w' by (simp_all add: call_api_rec_files)
  show "\<exists>ext. trace w' = trace w @ ext \<and> wrote_of ext = [] \<and> write_calls_of ext = []"
    unfolding w' by (rule call_api_rec_trace)
qed

lemma call_api_returns_limit:
  "call_api cfg env msgs ma w = (Inr c, w') \<Longrightarrow> 1 \<le> recursion_limit env"
  by (cases "recursion_limit env") (auto simp: call_api_def)

lemma call_api_requests:
  assumes "call_api cfg env msgs ma w = (r, w')"
  shows "prefix (posted w) (posted w')"
    and "\<forall>q\<in>set (new_posts w w'). req_messages q = msgs"
    and "1 \<le> recursion_limit env \<Longrightarrow> new_posts w w' \<noteq> []"
proof -
  have w': "w' = snd (call_api_rec (recursion_limit env) cfg env msgs ma w)"
    using assms by (simp add: call_api_def)
  have "\<exists>reqs. posted w' = posted w @ reqs \<and> (\<forall>q\<in>set reqs. req_messages q = msgs) \<and>
     (reqs = [] \<longleftrightarrow> recursion_limit env = 0)"
    unfolding w' by (rule call_api_rec_requests)
  then obtain reqs where
    reqs: "posted w' = posted w @ reqs" "\<forall>q\<in>set reqs. req_messages q = msgs"
      "reqs = [] \<longleftrightarrow> recursion_limit env = 0"
    by auto
  show "prefix (posted w) (posted w')" using reqs(1) by simp
  show "\<forall>q\<in>set (new_posts w w'). req_messages q = msgs"
    using reqs(1,2) by (simp add: new_posts_def)
  show "new_posts w w' \<noteq> []" if "1 \<le> recursion_limit env"
    using reqs(1,3) that by (simp add: new_posts_def)
qed

lemma call_api_first_try:
  assumes "1 \<le> recursion_limit env"
    and "try_block (post env (length (posted w)) (build_request cfg (model cfg) msgs)) = Inr c"
  shows "call_api cfg env msgs None w = (Inr c, record_post (build_request cfg (model cfg) msgs) w)"
proof -
  from assms(1) obtain d where d: "recursion_limit env = Suc d"
    by (cases "recursion_limit env") auto
  show ?thesis
    using assms(2) by (simp add: call_api_def d used_model_of_def attempt_range_eq Let_def)
qed

lemma call_api_uncaught:
  assumes "1 \<le> recursion_limit env"
    and "try_block (post env (length (posted w)) (build_request cfg (model cfg) msgs))
           = Inl OtherException"
  shows "call_api cfg env msgs None w =
           (Inl UncaughtError, record_post (build_request cfg (model cfg) msgs) w)"
proof -
  from assms(1) obtain d where d: "recursion_limit env = Suc d"
    by (cases "recursion_limit env") auto
  show ?thesis
    using assms(2) by (simp add: call_api_def d used_model_of_def attempt_range_eq Let_def)
qed

lemma stage_effects:
  "analyze_structure cfg env b m w = (r, w') \<Longrightarrow>
     files w' = files w \<and> clock_reads w' = clock_reads w \<and>
     (\<exists>ext. trace w' = trace w @ ext \<and> wrote_of ext = [] \<and> write_calls_of ext = [])"
  "transcribe_raw cfg env b m sa w = (r, w') \<Longrightarrow>
     files w' = files w \<and> clock_reads w' = clock_reads w \<and>
     (\<exists>ext. trace w' = trace w @ ext \<and> wrote_of ext = [] \<and> write_calls_of ext = [])"
  "clean_and_enrich cfg env rc sa w = (r, w') \<Longrightarrow>
     files w' = files w \<and> clock_reads w' = clock_reads w \<and>
     (\<exists>ext. trace w' = trace w @ ext \<and> wrote_of ext = [] \<and> write_calls_of ext = [])"
  "synthesize_summary cfg env cc sa w = (r, w') \<Longrightarrow>
     files w' = files w \<and> clock_reads w' = clock_reads w \<and>
     (\<exists>ext. trace w' = trace w @ ext \<and> wrote_of ext = [] \<and> write_calls_of ext = [])"
  unfolding analyze_structure_def transcribe_raw_def clean_and_enrich_def synthesize_summary_def
  by (blast dest: call_api_effects)+

lemma stage_trace_prefix:
  "analyze_structure cfg env b m w = (r, w') \<Longrightarrow> prefix (trace w) (trace w')"
  "transcribe_raw cfg env b m sa w = (r, w') \<Longrightarrow> prefix (trace w) (trace w')"
  "clean_and_enrich cfg env rc sa w = (r, w') \<Longrightarrow> prefix (trace w) (trace w')"
  "synthesize_summary cfg env cc sa w = (r, w') \<Longrightarrow> prefix (trace w) (trace w')"
  by (auto dest!: stage_effects)

lemma stage_requests:
  "transcribe_raw cfg env b m sa w = (r, w') \<Longrightarrow>
     \<forall>q\<in>set (new_posts w w'). req_messages q = transcribe_raw_messages cfg b m sa"
  "clean_and_enrich cfg env rc sa w = (r, w') \<Longrightarrow>
     \<forall>q\<in>set (new_posts w w'). req_messages q = clean_and_enrich_messages cfg rc sa"
  "synthesize_summary cfg env cc sa w = (r, w') \<Longrightarrow>
     \<forall>q\<in>set (new_posts w w'). req_messages q = synthesize_summary_messages cfg cc sa"
  unfolding transcribe_raw_def clean_and_enrich_def synthesize_summary_def
  by (blast dest: call_api_requests(2))+

lemma stage_posts_nonempty:
  "1 \<le> recursion_limit env \<Longrightarrow> transcribe_raw cfg env b m sa w = (r, w') \<Longrightarrow>
     new_posts w w' \<noteq> []"
  "1 \<le> recursion_limit env \<Longrightarrow> clean_and_enrich cfg env rc sa w = (r, w') \<Longrightarrow>
     new_posts w w' \<noteq> []"
  "1 \<le> recursion_limit env \<Longrightarrow> synthesize_summary cfg env cc sa w = (r, w') \<Longrightarrow>
     new_posts w w' \<noteq> []"
  unfolding transcribe_raw_def clean_and_enrich_def synthesize_summary_def
  by (blast dest: call_api_requests(3))+

lemma stage_returns_limit:
  "analyze_structure cfg env b m w = (Inr sa, w') \<Longrightarrow> 1 \<le> recursion_limit env"
  unfolding analyze_structure_def by (rule call_api_returns_limit)

subsection \<open>Files and the clock\<close>

lemma trace_read_clock [simp]: "trace (snd (read_clock env w)) = trace w"
  and files_read_clock [simp]: "files (snd (read_clock env w)) = files w"
  and clock_read_clock [simp]: "clock_reads (snd (read_clock env w)) = Suc (clock_reads w)"
  and posted_read_clock [simp]: "posted (snd (read_clock env w)) = posted w"
  and write_calls_read_clock [simp]: "write_calls (snd (read_clock env w)) = write_calls w"
  and fst_read_clock: "fst (read_clock env w) = strftime env (clock_reads w)"
  by (simp_all add: read_clock_def posted_def write_calls_def)

lemma write_text_ok:
  "write_text env p d w = (Inr u, w') \<Longrightarrow>
     w' = w\<lparr>trace := trace w @ [Wrote p], files := (files w)(p \<mapsto> File d)\<rparr>"
  by (auto simp: write_text_def split: write_result.splits)

lemma write_text_failed:
  "write_text env p d w = (Inl e, w') \<Longrightarrow>
     trace w' = trace w @ [WriteFailed p] \<and> clock_reads w' = clock_reads w"
  by (auto simp: write_text_def split: write_result.splits)

lemma write_text_trace:
  "write_text env p d w = (r, w') \<Longrightarrow>
     trace w' = trace w @ [if isl r then WriteFailed p else Wrote p]"
  by (auto simp: write_text_def split: write_result.splits)

lemma write_text_always_ok:
  "\<forall>n p d. fs_write env n p d = WriteOk \<Longrightarrow>
     write_text env p d w =
       (Inr (), w\<lparr>trace := trace w @ [Wrote p], files := (files w)(p \<mapsto> File d)\<rparr>)"
  by (simp add: write_text_def)

subsection \<open>The pipeline, stage by stage\<close>

lemma encode_image_exists: "encode_image p w = Inr x \<Longrightarrow> path_exists w p"
  by (auto simp: encode_image_def path_exists_def Let_def split: option.splits)

lemma encode_image_value:
  "files w (norm_path p) = Some (File bytes) \<Longrightarrow>
   encode_image p w =
     Inr (b64encode bytes,
          case map_of mime_map (lower (path_suffix p)) of None \<Rightarrow> ''image/jpeg'' | Some m \<Rightarrow> m)"
  by (simp add: encode_image_def Let_def)

lemma process_board_missing:
  "files w (norm_path p) = None \<Longrightarrow> process_board cfg env p w = (Inl (FileNotFoundError p), w)"
  by (simp add: process_board_def path_exists_def)

lemma process_board_unsupported:
  "files w (norm_path p) \<noteq> None \<Longrightarrow> lower (path_suffix p) \<notin> SUPPORTED_FORMATS \<Longrightarrow>
   process_board cfg env p w = (Inl (ValueError (path_suffix p)), w)"
  by (simp add: process_board_def path_exists_def)

lemma process_board_directory:
  "files w (norm_path p) = Some Dir \<Longrightarrow> lower (path_suffix p) \<in> SUPPORTED_FORMATS \<Longrightarrow>
   process_board cfg env p w = (Inl (IsADirectoryError p), w)"
  by (simp add: process_board_def path_exists_def encode_image_def Let_def)

lemma process_board_stage1_fails:
  assumes "encode_image p w = Inr (b64, mime)" and "lower (path_suffix p) \<in> SUPPORTED_FORMATS"
    and "analyze_structure cfg env b64 mime w = (Inl e, w1)"
  shows "process_board cfg env p w = (Inl e, w1)"
  using assms encode_image_exists [OF assms(1)] by (simp add: process_board_def)

lemma process_board_stage2_fails:
  assumes "encode_image p w = Inr (b64, mime)" and "lower (path_suffix p) \<in> SUPPORTED_FORMATS"
    and "analyze_structure cfg env b64 mime w = (Inr sa, w1)"
    and "transcribe_raw cfg env b64 mime sa w1 = (Inl e, w2)"
  shows "process_board cfg env p w = (Inl e, w2)"
  using assms encode_image_exists [OF assms(1)] by (simp add: process_board_def)

lemma process_board_raw_not_text:
  assumes "encode_image p w = Inr (b64, mime)" and "lower (path_suffix p) \<in> SUPPORTED_FORMATS"
    and "analyze_structure cfg env b64 mime w = (Inr sa, w1)"
    and "transcribe_raw cfg env b64 mime sa w1 = (Inr (NonText r), w2)"
  shows "process_board cfg env p w = (Inl TypeError, snd (read_clock env w2))"
  using assms encode_image_exists [OF assms(1)]
  by (simp add: process_board_def Let_def split_beta)

lemma process_board_raw_write_fails:
  assumes "encode_image p w = Inr (b64, mime)" and "lower (path_suffix p) \<in> SUPPORTED_FORMATS"
    and "analyze_structure cfg env b64 mime w = (Inr sa, w1)"
    and "transcribe_raw cfg env b64 mime sa w1 = (Inr (Text rc), w2)"
    and "write_text env (raw_path_of cfg p)
           (raw_header cfg (path_stem p) (fst (read_clock env w2)) sa @ rc)
           (snd (read_clock env w2)) = (Inl e, w4)"
  shows "process_board cfg env p w = (Inl e, w4)"
  using assms encode_image_exists [OF assms(1)]
  by (simp add: process_board_def Let_def split_beta)

lemma process_board_stage3_fails:
  assumes "encode_image p w = Inr (b64, mime)" and "lower (path_suffix p) \<in> SUPPORTED_FORMATS"
    and "analyze_structure cfg env b64 mime w = (Inr sa, w1)"
    and "transcribe_raw cfg env b64 mime sa w1 = (Inr (Text rc), w2)"
    and "write_text env (raw_path_of cfg p)
           (raw_header cfg (path_stem p) (fst (read_clock env w2)) sa @ rc)
           (snd (read_clock env w2)) = (Inr u, w4)"
    and "clean_and_enrich cfg env (Text rc) sa w4 = (Inl e, w5)"
  shows "process_board cfg env p w = (Inl e, w5)"
  using assms encode_image_exists [OF assms(1)]
  by (simp add: process_board_def Let_def split_beta)

lemma process_board_stage4_fails:
  assumes "encode_image p w = Inr (b64, mime)" and "lower (path_suffix p) \<in> SUPPORTED_FORMATS"
    and "analyze_structure cfg env b64 mime w = (Inr sa, w1)"
    and "transcribe_raw cfg env b64 mime sa w1 = (Inr (Text rc), w2)"
    and "write_text env (raw_path_of cfg p)
           (raw_header cfg (path_stem p) (fst (read_clock env w2)) sa @ rc)
           (snd (read_clock env w2)) = (Inr u, w4)"
    and "clean_and_enrich cfg env (Text rc) sa w4 = (Inr cc, w5)"
    and "synthesize_summary cfg env cc sa w5 = (Inl e, w6)"
  shows "process_board cfg env p w = (Inl e, w6)"
  using assms encode_image_exists [OF assms(1)]
  by (simp add: process_board_def Let_def split_beta)

lemma process_board_summary_not_text:
  assumes "encode_image p w = Inr (b64, mime)" and "lower (path_suffix p) \<in> SUPPORTED_FORMATS"
    and "analyze_structure cfg env b64 mime w = (Inr sa, w1)"
    and "transcribe_raw cfg env b64 mime sa w1 = (Inr (Text rc), w2)"
    and "write_text env (raw_path_of cfg p)
           (raw_header cfg (path_stem p) (fst (read_clock env w2)) sa @ rc)
           (snd (read_clock env w2)) = (Inr u, w4)"
    and "clean_and_enrich cfg env (Text rc) sa w4 = (Inr cc, w5)"
    and "synthesize_summary cfg env cc sa w5 = (Inr (NonText r), w6)"
  shows "process_board cfg env p w = (Inl TypeError, snd (read_clock env w6))"
  using assms encode_image_exists [OF assms(1)]
  by (simp add: process_board_def Let_def split_beta)

lemma process_board_summary_write:
  assumes "encode_image p w = Inr (b64, mime)" and "lower (path_suffix p) \<in> SUPPORTED_FORMATS"
    and "analyze_structure cfg env b64 mime w = (Inr sa, w1)"
    and "transcribe_raw cfg env b64 mime sa w1 = (Inr (Text rc), w2)"
    and "write_text env (raw_path_of cfg p)
           (raw_header cfg (path_stem p) (fst (read_clock env w2)) sa @ rc)
           (snd (read_clock env w2)) = (Inr u, w4)"
    and "clean_and_enrich cfg env (Text rc) sa w4 = (Inr cc, w5)"
    and "synthesize_summary cfg env cc sa w5 = (Inr (Text sc), w6)"
    and "write_text env (summary_path_of cfg p)
           (summary_header cfg (path_stem p) (fst (read_clock env w6)) @ sc)
           (snd (read_clock env w6)) = (r8, w8)"
  shows "process_board cfg env p w =
           (case r8 of Inl e \<Rightarrow> Inl e
            | Inr v \<Rightarrow> Inr (raw_path_of cfg p, summary_path_of cfg p), w8)"
  using assms encode_image_exists [OF assms(1)]
  by (cases r8) (simp_all add: process_board_def Let_def split_beta)

lemma posted_trace_eq: "trace w' = trace w \<Longrightarrow> posted w' = posted w"
  by (simp add: posted_def)

lemma posted_write_text: "write_text env p d w = (r, w') \<Longrightarrow> posted w' = posted w"
  by (auto simp: posted_def posted_of_append dest!: write_text_trace)

lemma process_board_after_stage4:
  assumes enc: "encode_image p w = Inr (b64, mime)"
    and sup: "lower (path_suffix p) \<in> SUPPORTED_FORMATS"
    and s1: "analyze_structure cfg env b64 mime w = (Inr sa, w1)"
    and s2: "transcribe_raw cfg env b64 mime sa w1 = (Inr (Text rc), w2)"
    and wr: "write_text env (raw_path_of cfg p)
           (raw_header cfg (path_stem p) (fst (read_clock env w2)) sa @ rc)
           (snd (read_clock env w2)) = (Inr u, w4)"
    and s3: "clean_and_enrich cfg env (Text rc) sa w4 = (Inr cc, w5)"
    and s4: "synthesize_summary cfg env cc sa w5 = (r4, w6)"
  shows "prefix (trace w6) (trace (snd (process_board cfg env p w))) \<and>
         posted (snd (process_board cfg env p w)) = posted w6"
proof (cases r4)
  case (Inl e)
  have "process_board cfg env p w = (Inl e, w6)"
    by (rule process_board_stage4_fails [OF enc sup s1 s2 wr s3 s4 [unfolded Inl]])
  then show ?thesis by simp
next
  case (Inr v)
  note s4v = s4 [unfolded Inr]
  show ?thesis
  proof (cases v)
    case (NonText r)
    have "process_board cfg env p w = (Inl TypeError, snd (read_clock env w6))"
      by (rule process_board_summary_not_text [OF enc sup s1 s2 wr s3 s4v [unfolded NonText]])
    then show ?thesis by simp
  next
    case (Text sc)
    obtain r8 w8 where w8: "write_text env (summary_path_of cfg p)
           (summary_header cfg (path_stem p) (fst (read_clock env w6)) @ sc)
           (snd (read_clock env w6)) = (r8, w8)"
      by (cases "write_text env (summary_path_of cfg p)
           (summary_header cfg (path_stem p) (fst (read_clock env w6)) @ sc)
           (snd (read_clock env w6))")
    have "snd (process_board cfg env p w) = w8"
      unfolding process_board_summary_write [OF enc sup s1 s2 wr s3 s4v [unfolded Text] w8]
      by simp
    moreover have "trace w8 = trace w6 @ [if isl r8 then WriteFailed (summary_path_of cfg p)
        else Wrote (summary_path_of cfg p)]"
      using write_text_trace [OF w8] by simp
    moreover have "posted w8 = posted w6"
      using posted_write_text [OF w8] by simp
    ultimately show ?thesis by simp
  qed
qed
lemma process_board_after_stage3:
  assumes enc: "encode_image p w = Inr (b64, mime)"
    and sup: "lower (path_suffix p) \<in> SUPPORTED_FORMATS"
    and s1: "analyze_structure cfg env b64 mime w = (Inr sa, w1)"
    and s2: "transcribe_raw cfg env b64 mime sa w1 = (Inr (Text rc), w2)"
    and wr: "write_text env (raw_path_of cfg p)
           (raw_header cfg (path_stem p) (fst (read_clock env w2)) sa @ rc)
           (snd (read_clock env w2)) = (Inr u, w4)"
    and s3: "clean_and_enrich cfg env (Text rc) sa w4 = (r3, w5)"
  shows "prefix (trace w5) (trace (snd (process_board cfg env p w)))"
proof (cases r3)
  case (Inl e)
  have "process_board cfg env p w = (Inl e, w5)"
    by (rule process_board_stage3_fails [OF enc sup s1 s2 wr s3 [unfolded Inl]])
  then show ?thesis by simp
next
  case (Inr cc)
  obtain r4 w6 where s4: "synthesize_summary cfg env cc sa w5 = (r4, w6)"
    by (cases "synthesize_summary cfg env cc sa w5")
  have "prefix (trace w6) (trace (snd (process_board cfg env p w)))"
    by (rule process_board_after_stage4 [OF enc sup s1 s2 wr s3 [unfolded Inr] s4,
        THEN conjunct1])
  moreover have "prefix (trace w5) (trace w6)"
    by (rule stage_trace_prefix(4) [OF s4])
  ultimately show ?thesis by (rule prefix_order.trans [rotated])
qed
lemma process_board_after_stage2:
  assumes enc: "encode_image p w = Inr (b64, mime)"
    and sup: "lower (path_suffix p) \<in> SUPPORTED_FORMATS"
    and s1: "analyze_structure cfg env b64 mime w = (Inr sa, w1)"
    and s2: "transcribe_raw cfg env b64 mime sa w1 = (r2, w2)"
  shows "prefix (trace w2) (trace (snd (process_board cfg env p w)))"
proof (cases r2)
  case (Inl e)
  have "process_board cfg env p w = (Inl e, w2)"
    by (rule process_board_stage2_fails [OF enc sup s1 s2 [unfolded Inl]])
  then show ?thesis by simp
next
  case (Inr v)
  note s2v = s2 [unfolded Inr]
  show ?thesis
  proof (cases v)
    case (NonText r)
    have "process_board cfg env p w = (Inl TypeError, snd (read_clock env w2))"
      by (rule process_board_raw_not_text [OF enc sup s1 s2v [unfolded NonText]])
    then show ?thesis by simp
  next
    case (Text rc)
    note s2' = s2v [unfolded Text]
    obtain rw w4 where wr: "write_text env (raw_path_of cfg p)
           (raw_header cfg (path_stem p) (fst (read_clock env w2)) sa @ rc)
           (snd (read_clock env w2)) = (rw, w4)"
      by (cases "write_text env (raw_path_of cfg p)
           (raw_header cfg (path_stem p) (fst (read_clock env w2)) sa @ rc)
           (snd (read_clock env w2))")
    have p4: "prefix (trace w2) (trace w4)"
      using write_text_trace [OF wr] by simp
    show ?thesis
    proof (cases rw)
      case (Inl e)
      have "process_board cfg env p w = (Inl e, w4)"
        by (rule process_board_raw_write_fails [OF enc sup s1 s2' wr [unfolded Inl]])
      with p4 show ?thesis by simp
    next
      case (Inr u)
      obtain r3 w5 where s3: "clean_and_enrich cfg env (Text rc) sa w4 = (r3, w5)"
        by (cases "clean_and_enrich cfg env (Text rc) sa w4")
      have "prefix (trace w5) (trace (snd (process_board cfg env p w)))"
        by (rule process_board_after_stage3 [OF enc sup s1 s2' wr [unfolded Inr] s3])
      moreover have "prefix (trace w4) (trace w5)"
        by (rule stage_trace_prefix(3) [OF s3])
      ultimately have "prefix (trace w4) (trace (snd (process_board cfg env p w)))"
        by (rule prefix_order.trans [rotated])
      with p4 show ?thesis by (rule prefix_order.trans)
    qed
  qed
qed
lemma process_board_after_stage1:
  assumes enc: "encode_image p w = Inr (b64, mime)"
    and sup: "lower (path_suffix p) \<in> SUPPORTED_FORMATS"
    and a: "analyze_structure cfg env b64 mime w = (r1, w1)"
  shows "prefix (trace w1) (trace (snd (process_board cfg env p w)))"
proof (cases r1)
  case (Inl e)
  have "process_board cfg env p w = (Inl e, w1)"
    by (rule process_board_stage1_fails [OF enc sup a [unfolded Inl]])
  then show ?thesis by simp
next
  case (Inr sa)
  obtain r2 w2 where s2: "transcribe_raw cfg env b64 mime sa w1 = (r2, w2)"
    by (cases "transcribe_raw cfg env b64 mime sa w1")
  have "prefix (trace w2) (trace (snd (process_board cfg env p w)))"
    by (rule process_board_after_stage2 [OF enc sup a [unfolded Inr] s2])
  moreover have "prefix (trace w1) (trace w2)"
    by (rule stage_trace_prefix(2) [OF s2])
  ultimately show ?thesis by (rule prefix_order.trans [rotated])
qed

text \<open>
  C4 (confirmed). Take any run of the pipeline that passes the checks, with any endpoint
  (answers, failures, retries and fallback dispatches in any mix) and any file system.
  If stage 1 returned \<open>sa\<close>, stage 2 is called next and every request it posts, one at least,
  contains \<open>sa\<close> as it is printed; if stage 2 returned the text \<open>rc\<close> and the raw artifact was
  written, stage 3 is called next and every request it posts contains \<open>sa\<close> and \<open>rc\<close>; if
  stage 3 returned \<open>cc\<close>, stage 4 is called next and every request it posts contains \<open>sa\<close>
  and \<open>cc\<close>, and no request follows stage 4. The events of each of these calls are part of
  the trace of the run. (A request contains a text when the text is a contiguous part of one
  of the texts of its messages.)
\<close>

theorem pipeline_ordering:
  assumes "encode_image image_path w = Inr (image_b64, mime_type)"
    and "lower (path_suffix image_path) \<in> SUPPORTED_FORMATS"
    and "analyze_structure cfg env image_b64 mime_type w = (Inr sa, w1)"
    and "transcribe_raw cfg env image_b64 mime_type sa w1 = (r2, w2)"
  shows "prefix (trace w2) (trace (snd (process_board cfg env image_path w))) \<and>
     new_posts w1 w2 \<noteq> [] \<and>
     (\<forall>q\<in>set (new_posts w1 w2). request_contains q (to_text sa)) \<and>
     (\<forall>rc u w4 r3 w5.
        r2 = Inr (Text rc) \<and>
        write_text env (raw_path_of cfg image_path)
          (raw_header cfg (path_stem image_path) (fst (read_clock env w2)) sa @ rc)
          (snd (read_clock env w2)) = (Inr u, w4) \<and>
        clean_and_enrich cfg env (Text rc) sa w4 = (r3, w5) \<longrightarrow>
        prefix (trace w5) (trace (snd (process_board cfg env image_path w))) \<and>
        new_posts w4 w5 \<noteq> [] \<and>
        (\<forall>q\<in>set (new_posts w4 w5).
           request_contains q (to_text sa) \<and> request_contains q rc) \<and>
        (\<forall>cc r4 w6.
           r3 = Inr cc \<and> synthesize_summary cfg env cc sa w5 = (r4, w6) \<longrightarrow>
           prefix (trace w6) (trace (snd (process_board cfg env image_path w))) \<and>
           new_posts w5 w6 \<noteq> [] \<and>
           (\<forall>q\<in>set (new_posts w5 w6).
              request_contains q (to_text sa) \<and> request_contains q (to_text cc)) \<and>
           posted (snd (process_board cfg env image_path w)) = posted w6))"
proof (intro conjI allI impI ballI)
  note enc = assms(1) and sup = assms(2) and s1 = assms(3) and s2 = assms(4)
  note lim = stage_returns_limit [OF s1]
  show "prefix (trace w2) (trace (snd (process_board cfg env image_path w)))"
    by (rule process_board_after_stage2 [OF enc sup s1 s2])
  show "new_posts w1 w2 \<noteq> []"
    by (rule stage_posts_nonempty(1) [OF lim s2])
  show "request_contains q (to_text sa)" if "q \<in> set (new_posts w1 w2)" for q
    using stage_requests(1) [OF s2] that by (auto intro: transcribe_raw_contains)
  fix rc u w4 r3 w5
  assume h: "r2 = Inr (Text rc) \<and>
        write_text env (raw_path_of cfg image_path)
          (raw_header cfg (path_stem image_path) (fst (read_clock env w2)) sa @ rc)
          (snd (read_clock env w2)) = (Inr u, w4) \<and>
        clean_and_enrich cfg env (Text rc) sa w4 = (r3, w5)"
  from h have r2: "r2 = Inr (Text rc)" by (rule conjunct1)
  note s2' = s2 [unfolded r2]
  from h have wr: "write_text env (raw_path_of cfg image_path)
          (raw_header cfg (path_stem image_path) (fst (read_clock env w2)) sa @ rc)
          (snd (read_clock env w2)) = (Inr u, w4)"
    by (rule conjunct2 [THEN conjunct1])
  from h have s3: "clean_and_enrich cfg env (Text rc) sa w4 = (r3, w5)"
    by (rule conjunct2 [THEN conjunct2])
  show "prefix (trace w5) (trace (snd (process_board cfg env image_path w)))"
    by (rule process_board_after_stage3 [OF enc sup s1 s2' wr s3])
  show "new_posts w4 w5 \<noteq> []"
    by (rule stage_posts_nonempty(2) [OF lim s3])
  show "request_contains q (to_text sa)" if "q \<in> set (new_posts w4 w5)" for q
    using stage_requests(2) [OF s3] that by (auto intro: clean_and_enrich_contains(1))
  show "request_contains q rc" if "q \<in> set (new_posts w4 w5)" for q
    using stage_requests(2) [OF s3] that clean_and_enrich_contains(2) [of q cfg "Text rc" sa]
    by auto
  fix cc r4 w6
  assume h4: "r3 = Inr cc \<and> synthesize_summary cfg env cc sa w5 = (r4, w6)"
  from h4 have r3: "r3 = Inr cc" by (rule conjunct1)
  note s3' = s3 [unfolded r3]
  from h4 have s4: "synthesize_summary cfg env cc sa w5 = (r4, w6)" by (rule conjunct2)
  note l4 = process_board_after_stage4 [OF enc sup s1 s2' wr s3' s4]
  show "prefix (trace w6) (trace (snd (process_board cfg env image_path w)))"
    by (rule l4 [THEN conjunct1])
  show "posted (snd (process_board cfg env image_path w)) = posted w6"
    by (rule l4 [THEN conjunct2])
  show "new_posts w5 w6 \<noteq> []"
    by (rule stage_posts_nonempty(3) [OF lim s4])
  show "request_contains q (to_text sa)" if "q \<in> set (new_posts w5 w6)" for q
    using stage_requests(3) [OF s4] that by (auto intro: synthesize_summary_contains(1))
  show "request_contains q (to_text cc)" if "q \<in> set (new_posts w5 w6)" for q
    using stage_requests(3) [OF s4] that by (auto intro: synthesize_summary_contains(2))
qed

subsection \<open>The first request of a run\<close>

lemma posted_prefix: "prefix (trace w) (trace w') \<Longrightarrow> prefix (posted w) (posted w')"
  by (auto simp: prefix_def posted_def posted_of_append)

lemma process_board_first_post:
  assumes enc: "encode_image p w = Inr (b64, mime)"
    and sup: "lower (path_suffix p) \<in> SUPPORTED_FORMATS"
    and lim: "1 \<le> recursion_limit env"
  shows "\<exists>ext. posted (snd (process_board cfg env p w)) =
     posted w @ build_request cfg (model cfg) (analyze_structure_messages cfg b64 mime) # ext"
proof -
  from lim obtain d where d: "recursion_limit env = Suc d"
    by (cases "recursion_limit env") auto
  obtain r1 w1 where a: "analyze_structure cfg env b64 mime w = (r1, w1)"
    by (cases "analyze_structure cfg env b64 mime w")
  then have w1: "w1 = snd (call_api_rec (Suc d) cfg env
      (analyze_structure_messages cfg b64 mime) None w)"
    by (simp add: analyze_structure_def call_api_def d)
  from call_api_rec_first_post [of d cfg env "analyze_structure_messages cfg b64 mime" None w]
  obtain e1 where e1: "posted w1 =
      posted w @ build_request cfg (model cfg) (analyze_structure_messages cfg b64 mime) # e1"
    unfolding w1 by (auto simp: used_model_of_None)
  from posted_prefix [OF process_board_after_stage1 [OF enc sup a]] obtain e2 where
    "posted (snd (process_board cfg env p w)) = posted w1 @ e2"
    by (auto simp: prefix_def)
  with e1 show ?thesis by simp
qed

lemma analyze_structure_image_url:
  "request_image_urls (build_request cfg m (analyze_structure_messages cfg b64 mime)) =
     [''data:'' @ mime @ '';base64,'' @ b64]"
  by (simp add: request_image_urls_def build_request_def analyze_structure_messages_def
      build_vision_message_def)

lemma supported_mime:
  "s \<in> SUPPORTED_FORMATS \<Longrightarrow>
     (case map_of mime_map s of None \<Rightarrow> ''image/jpeg'' | Some m \<Rightarrow> m) = the (map_of mime_map s)"
proof -
  assume "s \<in> SUPPORTED_FORMATS"
  then have "s \<in> dom (map_of mime_map)" by (simp add: mime_map_dom)
  then obtain m where "map_of mime_map s = Some m" by blast
  then show ?thesis by simp
qed

text \<open>
  C6, amended: the table from extensions to media subtypes is defined exactly on the supported
  set (total), sends \<^verbatim>\<open>.jpg\<close> and \<^verbatim>\<open>.jpeg\<close> to \<^verbatim>\<open>image/jpeg\<close>, \<^verbatim>\<open>.png\<close> to
  \<^verbatim>\<open>image/png\<close> and \<^verbatim>\<open>.webp\<close> to \<^verbatim>\<open>image/webp\<close>, and is injective apart from
  \<^verbatim>\<open>.jpeg\<close>, which shares its subtype with \<^verbatim>\<open>.jpg\<close>. For an existing image file whose
  lower-cased extension is supported, the first request of \<^verbatim>\<open>process_board\<close> declares the
  subtype of the table in its data URL. For a path that does not exist, \<^verbatim>\<open>process_board\<close>
  raises \<^verbatim>\<open>FileNotFoundError\<close>; for a path that exists and whose lower-cased extension is
  not supported, it raises \<^verbatim>\<open>ValueError\<close> naming the extension; in both cases the world is
  left as it was: no request is made.
\<close>

theorem media_subtype_selection:
  "dom (map_of mime_map) = SUPPORTED_FORMATS \<and>
   map_of mime_map ''.jpg'' = Some ''image/jpeg'' \<and>
   map_of mime_map ''.jpeg'' = Some ''image/jpeg'' \<and>
   map_of mime_map ''.png'' = Some ''image/png'' \<and>
   map_of mime_map ''.webp'' = Some ''image/webp'' \<and>
   inj_on (map_of mime_map) (SUPPORTED_FORMATS - {''.jpeg''}) \<and>
   (files w (norm_path p) = Some (File bytes) \<and> lower (path_suffix p) \<in> SUPPORTED_FORMATS \<and>
    1 \<le> recursion_limit env \<longrightarrow>
      (\<exists>q ext. posted (snd (process_board cfg env p w)) = posted w @ q # ext \<and>
         request_image_urls q =
           [''data:'' @ the (map_of mime_map (lower (path_suffix p))) @ '';base64,'' @
            b64encode bytes])) \<and>
   (files w (norm_path p) = None \<longrightarrow>
      process_board cfg env p w = (Inl (FileNotFoundError p), w)) \<and>
   (files w (norm_path p) \<noteq> None \<and> lower (path_suffix p) \<notin> SUPPORTED_FORMATS \<longrightarrow>
      process_board cfg env p w = (Inl (ValueError (path_suffix p)), w))"
proof -
  have sel: "\<exists>q ext. posted (snd (process_board cfg env p w)) = posted w @ q # ext \<and>
         request_image_urls q =
           [''data:'' @ the (map_of mime_map (lower (path_suffix p))) @ '';base64,'' @
            b64encode bytes]"
    if "files w (norm_path p) = Some (File bytes)" "lower (path_suffix p) \<in> SUPPORTED_FORMATS"
      "1 \<le> recursion_limit env"
  proof -
    have enc: "encode_image p w =
        Inr (b64encode bytes, the (map_of mime_map (lower (path_suffix p))))"
      using encode_image_value [OF that(1)] supported_mime [OF that(2)] by simp
    from process_board_first_post [OF enc that(2,3)] obtain ext where
      ext: "posted (snd (process_board cfg env p w)) =
        posted w @ build_request cfg (model cfg) (analyze_structure_messages cfg
          (b64encode bytes) (the (map_of mime_map (lower (path_suffix p))))) # ext"
      by (rule exE)
    show ?thesis
      by (rule exI, rule exI, rule conjI, rule ext, rule analyze_structure_image_url)
  qed
  show ?thesis
  proof (intro conjI impI)
    show "dom (map_of mime_map) = SUPPORTED_FORMATS" by (rule mime_map_dom)
    show "map_of mime_map ''.jpg'' = Some ''image/jpeg''" by (rule mime_map_values)
    show "map_of mime_map ''.jpeg'' = Some ''image/jpeg''" by (rule mime_map_values)
    show "map_of mime_map ''.png'' = Some ''image/png''" by (rule mime_map_values)
    show "map_of mime_map ''.webp'' = Some ''image/webp''" by (rule mime_map_values)
    show "inj_on (map_of mime_map) (SUPPORTED_FORMATS - {''.jpeg''})"
      by (rule mime_map_inj_apart_jpeg)
  next
    assume "files w (norm_path p) = Some (File bytes) \<and>
      lower (path_suffix p) \<in> SUPPORTED_FORMATS \<and> 1 \<le> recursion_limit env"
    then show "\<exists>q ext. posted (snd (process_board cfg env p w)) = posted w @ q # ext \<and>
         request_image_urls q =
           [''data:'' @ the (map_of mime_map (lower (path_suffix p))) @ '';base64,'' @
            b64encode bytes]"
      by (elim conjE) (rule sel)
  next
    assume "files w (norm_path p) = None"
    then show "process_board cfg env p w = (Inl (FileNotFoundError p), w)"
      by (rule process_board_missing)
  next
    assume "files w (norm_path p) \<noteq> None \<and> lower (path_suffix p) \<notin> SUPPORTED_FORMATS"
    then show "process_board cfg env p w = (Inl (ValueError (path_suffix p)), w)"
      by (elim conjE) (rule process_board_unsupported)
  qed
qed

subsection \<open>Evaluating the example inputs\<close>

lemma example_b64: "b64encode ''abc'' = ''YWJj''"
  by (simp add: b64_char_def b64_alphabet_def)

lemma lower_examples:
  "lower ''.PNG'' = ''.png''" "lower ''.txt'' = ''.txt''" "lower ''.jpg'' = ''.jpg''"
  "lower ''.png'' = ''.png''" "lower ''.webp'' = ''.webp''" "lower ''.gif'' = ''.gif''"
  by code_simp+

lemma example_names:
  "path_name ''photo.PNG'' = ''photo.PNG''"
  "path_name ''notes.txt'' = ''notes.txt''"
  "path_name ''missing.gif'' = ''missing.gif''"
  "path_name ''board.jpg'' = ''board.jpg''"
  "path_name ''a.jpg'' = ''a.jpg''"
  "path_name ''b.png'' = ''b.png''"
  "path_name ''c.webp'' = ''c.webp''"
  by (simp_all add: path_name_def path_parts_def)

lemma example_norms:
  "norm_path ''photo.PNG'' = ''photo.PNG''"
  "norm_path ''notes.txt'' = ''notes.txt''"
  "norm_path ''missing.gif'' = ''missing.gif''"
  "norm_path ''board.jpg'' = ''board.jpg''"
  "norm_path ''a.jpg'' = ''a.jpg''"
  "norm_path ''b.png'' = ''b.png''"
  "norm_path ''c.webp'' = ''c.webp''"
  by (simp_all add: norm_path_def path_str_def path_root_def path_parts_def)

lemma example_stems:
  "path_suffix ''photo.PNG'' = ''.PNG''"
  "path_suffix ''notes.txt'' = ''.txt''"
  "path_suffix ''missing.gif'' = ''.gif''"
  "path_suffix ''board.jpg'' = ''.jpg''"
  "path_suffix ''a.jpg'' = ''.jpg''"
  "path_suffix ''b.png'' = ''.png''"
  "path_suffix ''c.webp'' = ''.webp''"
  "path_stem ''board.jpg'' = ''board''"
  "path_stem ''a.jpg'' = ''a''"
  "path_stem ''b.png'' = ''b''"
  "path_stem ''c.webp'' = ''c''"
  by (simp_all add: path_suffix_def path_stem_def example_names rfind_dot_def)

lemma example_suffixes:
  "lower (path_suffix ''photo.PNG'') = ''.png''"
  "lower (path_suffix ''notes.txt'') = ''.txt''"
  "lower (path_suffix ''missing.gif'') = ''.gif''"
  "lower (path_suffix ''board.jpg'') = ''.jpg''"
  "lower (path_suffix ''a.jpg'') = ''.jpg''"
  "lower (path_suffix ''b.png'') = ''.png''"
  "lower (path_suffix ''c.webp'') = ''.webp''"
  unfolding example_stems lower_examples by (rule refl)+

lemma example_supported:
  "lower (path_suffix ''photo.PNG'') \<in> SUPPORTED_FORMATS"
  "lower (path_suffix ''notes.txt'') \<notin> SUPPORTED_FORMATS"
  "lower (path_suffix ''missing.gif'') \<notin> SUPPORTED_FORMATS"
  "lower (path_suffix ''board.jpg'') \<in> SUPPORTED_FORMATS"
  "lower (path_suffix ''a.jpg'') \<in> SUPPORTED_FORMATS"
  "lower (path_suffix ''b.png'') \<in> SUPPORTED_FORMATS"
  "lower (path_suffix ''c.webp'') \<in> SUPPORTED_FORMATS"
  unfolding example_suffixes SUPPORTED_FORMATS_def by simp_all

theorem media_subtype_selection_witness:
  "(\<exists>q ext. posted (snd (process_board example_config (env_always TimedOut) ''photo.PNG''
        example_world)) = q # ext \<and>
      request_image_urls q = [''data:image/png;base64,YWJj'']) \<and>
   process_board example_config (env_always TimedOut) ''missing.gif'' example_world =
     (Inl (FileNotFoundError ''missing.gif''), example_world) \<and>
   process_board example_config (env_always TimedOut) ''notes.txt'' example_world =
     (Inl (ValueError ''.txt''), example_world)"
proof -
  let ?env = "env_always TimedOut"
  have f: "files example_world (norm_path ''photo.PNG'') = Some (File ''abc'')"
    unfolding example_norms by (simp add: example_world_def)
  have l: "1 \<le> recursion_limit ?env" by (simp add: env_always_def)
  have p0: "posted example_world = []" by (simp add: posted_def example_world_def)
  have m: "the (map_of mime_map (lower (path_suffix ''photo.PNG''))) = ''image/png''"
    unfolding example_suffixes by (simp add: mime_map_def)
  note sel = media_subtype_selection [of example_world "''photo.PNG''" "''abc''" ?env
      example_config, THEN conjunct2, THEN conjunct2, THEN conjunct2, THEN conjunct2,
      THEN conjunct2, THEN conjunct2, THEN conjunct1, THEN mp]
  have "\<exists>q ext. posted (snd (process_board example_config ?env ''photo.PNG'' example_world)) =
          posted example_world @ q # ext \<and>
      request_image_urls q =
        [''data:'' @ the (map_of mime_map (lower (path_suffix ''photo.PNG''))) @ '';base64,'' @
            b64encode ''abc'']"
    by (rule sel) (intro conjI f l example_supported(1))
  then have part1: "\<exists>q ext. posted (snd (process_board example_config ?env ''photo.PNG''
        example_world)) = q # ext \<and> request_image_urls q = [''data:image/png;base64,YWJj'']"
    unfolding m example_b64 p0 by simp
  have g: "files example_world (norm_path ''missing.gif'') = None"
    unfolding example_norms by (simp add: example_world_def)
  note missing = media_subtype_selection [of example_world "''missing.gif''" "''abc''" ?env
      example_config, THEN conjunct2, THEN conjunct2, THEN conjunct2, THEN conjunct2,
      THEN conjunct2, THEN conjunct2, THEN conjunct2, THEN conjunct1, THEN mp, OF g]
  have n: "files example_world (norm_path ''notes.txt'') \<noteq> None"
    unfolding example_norms by (simp add: example_world_def)
  note rej = media_subtype_selection [of example_world "''notes.txt''" "''abc''" ?env
      example_config, THEN conjunct2, THEN conjunct2, THEN conjunct2, THEN conjunct2,
      THEN conjunct2, THEN conjunct2, THEN conjunct2, THEN conjunct2, THEN mp,
      OF conjI [OF n example_supported(2)]]
  from part1 missing rej [unfolded example_stems] show ?thesis
    by (intro conjI)
qed

subsection \<open>Whole runs\<close>

lemma call_api_retry_once:
  assumes "1 \<le> recursion_limit env"
    and "post env (length (posted w)) (build_request cfg (model cfg) msgs) = TimedOut"
    and "try_block (post env (length (posted w) + 1) (build_request cfg (model cfg) msgs)) =
           Inr c"
  shows "call_api cfg env msgs None w =
     (Inr c, w\<lparr>trace := trace w @
        [Posted (build_request cfg (model cfg) msgs), Slept (RETRY_BASE_DELAY ^ 1),
         Posted (build_request cfg (model cfg) msgs)]\<rparr>)"
proof -
  from assms(1) obtain d where d: "recursion_limit env = Suc d"
    by (cases "recursion_limit env") auto
  show ?thesis
    using assms(2,3)
    by (simp add: call_api_def d used_model_of_def attempt_range_eq Let_def backoff_def
        sleep_def record_post_def MAX_RETRIES_def posted_def posted_of_append)
qed

lemma attempt_step_timeout:
  assumes "post env (length (posted w)) (build_request cfg m msgs) = TimedOut"
  shows "attempt_loop cfg env msgs m (k # rest) l w =
     attempt_loop cfg env msgs m rest (Some Timeout)
       (w\<lparr>trace := trace w @
          (if k < MAX_RETRIES
           then [Posted (build_request cfg m msgs), Slept (RETRY_BASE_DELAY ^ k)]
           else [Posted (build_request cfg m msgs)])\<rparr>)"
  using assms by (simp add: Let_def backoff_def sleep_def record_post_def)

lemma attempt_loop_three_timeouts:
  assumes "\<forall>n q. length (posted w) \<le> n \<and> n < length (posted w) + 3 \<longrightarrow> post env n q = TimedOut"
  shows "attempt_loop cfg env msgs m attempt_range None w =
     (Exhausted (Some Timeout),
      w\<lparr>trace := trace w @
         [Posted (build_request cfg m msgs), Slept RETRY_BASE_DELAY,
          Posted (build_request cfg m msgs), Slept (RETRY_BASE_DELAY ^ 2),
          Posted (build_request cfg m msgs)]\<rparr>)"
proof -
  let ?q = "build_request cfg m msgs"
  let ?w1 = "w\<lparr>trace := trace w @ [Posted ?q, Slept RETRY_BASE_DELAY]\<rparr>"
  let ?w2 = "w\<lparr>trace := trace w @ [Posted ?q, Slept RETRY_BASE_DELAY, Posted ?q,
                 Slept (RETRY_BASE_DELAY ^ 2)]\<rparr>"
  let ?w3 = "w\<lparr>trace := trace w @ [Posted ?q, Slept RETRY_BASE_DELAY, Posted ?q,
                 Slept (RETRY_BASE_DELAY ^ 2), Posted ?q]\<rparr>"
  have p0: "post env (length (posted w)) ?q = TimedOut"
    using assms by simp
  have p1: "post env (length (posted ?w1)) ?q = TimedOut"
    using assms by (simp add: posted_trace_append)
  have p2: "post env (length (posted ?w2)) ?q = TimedOut"
    using assms by (simp add: posted_trace_append)
  have s1: "attempt_loop cfg env msgs m [1, 2, 3] None w =
             attempt_loop cfg env msgs m [2, 3] (Some Timeout) ?w1"
    using attempt_step_timeout [OF p0, of 1 "[2, 3]" None]
    by (simp add: MAX_RETRIES_def)
  have s2: "attempt_loop cfg env msgs m [2, 3] (Some Timeout) ?w1 =
             attempt_loop cfg env msgs m [3] (Some Timeout) ?w2"
    using attempt_step_timeout [OF p1, of 2 "[3]" "Some Timeout"]
    by (simp add: MAX_RETRIES_def)
  have s3: "attempt_loop cfg env msgs m [3] (Some Timeout) ?w2 =
             attempt_loop cfg env msgs m [] (Some Timeout) ?w3"
    using attempt_step_timeout [OF p2, of 3 "[]" "Some Timeout"]
    by (simp add: MAX_RETRIES_def)
  show ?thesis
    unfolding attempt_range_eq s1 s2 s3 by simp
qed

lemma call_api_six_timeouts:
  assumes "\<forall>n q. length (posted w) \<le> n \<and> n < length (posted w) + 6 \<longrightarrow> post env n q = TimedOut"
    and "model cfg \<noteq> fallback_model cfg" and "fallback_model cfg \<noteq> []"
    and "2 \<le> recursion_limit env"
  shows "call_api cfg env msgs None w =
     (Inl (RuntimeError_exhausted (Some Timeout)),
      w\<lparr>trace := trace w @
         [Posted (build_request cfg (model cfg) msgs), Slept RETRY_BASE_DELAY,
          Posted (build_request cfg (model cfg) msgs), Slept (RETRY_BASE_DELAY ^ 2),
          Posted (build_request cfg (model cfg) msgs),
          Posted (build_request cfg (fallback_model cfg) msgs), Slept RETRY_BASE_DELAY,
          Posted (build_request cfg (fallback_model cfg) msgs), Slept (RETRY_BASE_DELAY ^ 2),
          Posted (build_request cfg (fallback_model cfg) msgs)]\<rparr>)"
proof -
  from assms(4) obtain d where d: "recursion_limit env = Suc (Suc d)"
    using call_api_rec_Suc_Suc by blast
  let ?w1 = "w\<lparr>trace := trace w @
         [Posted (build_request cfg (model cfg) msgs), Slept RETRY_BASE_DELAY,
          Posted (build_request cfg (model cfg) msgs), Slept (RETRY_BASE_DELAY ^ 2),
          Posted (build_request cfg (model cfg) msgs)]\<rparr>"
  have a1: "\<forall>n q. length (posted w) \<le> n \<and> n < length (posted w) + 3 \<longrightarrow> post env n q = TimedOut"
    using assms(1) by simp
  have a2: "\<forall>n q. length (posted ?w1) \<le> n \<and> n < length (posted ?w1) + 3 \<longrightarrow>
      post env n q = TimedOut"
    using assms(1) by (simp add: posted_trace_append)
  note l1 = attempt_loop_three_timeouts [OF a1, of cfg msgs]
  note l2 = attempt_loop_three_timeouts [OF a2, of cfg msgs]
  have f1: "call_api_rec (Suc (Suc d)) cfg env msgs None w =
      call_api_rec (Suc d) cfg env msgs (Some (fallback_model cfg)) ?w1"
    by (subst call_api_rec.simps(2))
       (simp add: used_model_of_def l1 Let_def assms(2) del: call_api_rec.simps)
  have f2: "call_api_rec (Suc d) cfg env msgs (Some (fallback_model cfg)) ?w1 =
      (Inl (RuntimeError_exhausted (Some Timeout)),
       ?w1\<lparr>trace := trace ?w1 @
         [Posted (build_request cfg (fallback_model cfg) msgs), Slept RETRY_BASE_DELAY,
          Posted (build_request cfg (fallback_model cfg) msgs), Slept (RETRY_BASE_DELAY ^ 2),
          Posted (build_request cfg (fallback_model cfg) msgs)]\<rparr>)"
    by (subst call_api_rec.simps(2))
       (simp add: used_model_of_def l2 Let_def assms(3) del: call_api_rec.simps)
  show ?thesis
    unfolding call_api_def d f1 f2 by simp
qed

lemma process_board_run_ok:
  assumes enc: "encode_image p w = Inr (b64, mime)"
    and sup: "lower (path_suffix p) \<in> SUPPORTED_FORMATS"
    and lim: "1 \<le> recursion_limit env"
    and fs: "\<forall>n p d. fs_write env n p d = WriteOk"
    and r1: "try_block (post env (length (posted w))
               (build_request cfg (model cfg) (analyze_structure_messages cfg b64 mime))) = Inr s1"
    and r2: "try_block (post env (length (posted w) + 1)
               (build_request cfg (model cfg) (transcribe_raw_messages cfg b64 mime s1))) =
             Inr (Text s2)"
    and r3: "try_block (post env (length (posted w) + 2)
               (build_request cfg (model cfg) (clean_and_enrich_messages cfg (Text s2) s1))) =
             Inr s3"
    and r4: "try_block (post env (length (posted w) + 3)
               (build_request cfg (model cfg) (synthesize_summary_messages cfg s3 s1))) =
             Inr (Text s4)"
  shows "process_board cfg env p w =
     (Inr (raw_path_of cfg p, summary_path_of cfg p),
      w\<lparr>trace := trace w @
          [Posted (build_request cfg (model cfg) (analyze_structure_messages cfg b64 mime)),
           Posted (build_request cfg (model cfg) (transcribe_raw_messages cfg b64 mime s1)),
           Wrote (raw_path_of cfg p),
           Posted (build_request cfg (model cfg) (clean_and_enrich_messages cfg (Text s2) s1)),
           Posted (build_request cfg (model cfg) (synthesize_summary_messages cfg s3 s1)),
           Wrote (summary_path_of cfg p)],
        files := (files w)
          (raw_path_of cfg p \<mapsto>
             File (raw_header cfg (path_stem p) (strftime env (clock_reads w)) s1 @ s2),
           summary_path_of cfg p \<mapsto>
             File (summary_header cfg (path_stem p) (strftime env (clock_reads w + 1)) @ s4)),
        clock_reads := clock_reads w + 2\<rparr>)"
proof -
  let ?q1 = "build_request cfg (model cfg) (analyze_structure_messages cfg b64 mime)"
  let ?q2 = "build_request cfg (model cfg) (transcribe_raw_messages cfg b64 mime s1)"
  let ?q3 = "build_request cfg (model cfg) (clean_and_enrich_messages cfg (Text s2) s1)"
  let ?q4 = "build_request cfg (model cfg) (synthesize_summary_messages cfg s3 s1)"
  let ?w1 = "record_post ?q1 w"
  let ?w2 = "record_post ?q2 ?w1"
  let ?d4 = "raw_header cfg (path_stem p) (fst (read_clock env ?w2)) s1 @ s2"
  let ?w3 = "snd (read_clock env ?w2)"
  let ?w4 = "?w3\<lparr>trace := trace ?w3 @ [Wrote (raw_path_of cfg p)],
                  files := (files ?w3)(raw_path_of cfg p \<mapsto> File ?d4)\<rparr>"
  let ?w5 = "record_post ?q3 ?w4"
  let ?w6 = "record_post ?q4 ?w5"
  let ?d8 = "summary_header cfg (path_stem p) (fst (read_clock env ?w6)) @ s4"
  let ?w7 = "snd (read_clock env ?w6)"
  let ?w8 = "?w7\<lparr>trace := trace ?w7 @ [Wrote (summary_path_of cfg p)],
                  files := (files ?w7)(summary_path_of cfg p \<mapsto> File ?d8)\<rparr>"
  have a1: "analyze_structure cfg env b64 mime w = (Inr s1, ?w1)"
    unfolding analyze_structure_def by (rule call_api_first_try [OF lim r1])
  have a2: "transcribe_raw cfg env b64 mime s1 ?w1 = (Inr (Text s2), ?w2)"
    unfolding transcribe_raw_def
    by (rule call_api_first_try [OF lim]) (use r2 in \<open>simp add: posted_record_post\<close>)
  have wr: "write_text env (raw_path_of cfg p) ?d4 ?w3 = (Inr (), ?w4)"
    by (rule write_text_always_ok [OF fs])
  have p4: "posted ?w4 = posted w @ [?q1, ?q2]"
    by (simp add: posted_def posted_of_append record_post_def read_clock_def)
  have a3: "clean_and_enrich cfg env (Text s2) s1 ?w4 = (Inr s3, ?w5)"
    unfolding clean_and_enrich_def
    by (rule call_api_first_try [OF lim]) (unfold p4, use r3 in \<open>simp add: numeral_2_eq_2\<close>)
  have p5: "posted ?w5 = posted w @ [?q1, ?q2, ?q3]"
    unfolding posted_record_post p4 by simp
  have a4: "synthesize_summary cfg env s3 s1 ?w5 = (Inr (Text s4), ?w6)"
    unfolding synthesize_summary_def
    by (rule call_api_first_try [OF lim]) (unfold p5, use r4 in \<open>simp add: numeral_3_eq_3\<close>)
  have w8: "write_text env (summary_path_of cfg p) ?d8 ?w7 = (Inr (), ?w8)"
    by (rule write_text_always_ok [OF fs])
  show ?thesis
    unfolding process_board_summary_write [OF enc sup a1 a2 wr a3 a4 w8]
    by (simp add: record_post_def read_clock_def)
qed

lemma env_example_ok:
  "\<not> (lo \<le> n \<and> n < hi) \<Longrightarrow>
     try_block (post (env_example lo hi reply) n q) = Inr (Text (example_output n))"
  by (auto simp: env_example_def ok_response_def raises_for_status_def)

lemma env_example_reply:
  "lo \<le> n \<Longrightarrow> n < hi \<Longrightarrow> post (env_example lo hi reply) n q = reply"
  by (simp add: env_example_def)

lemma env_example_fields:
  "recursion_limit (env_example lo hi reply) = 1000"
  "strftime (env_example lo hi reply) n = ''2026-02-26 12:00''"
  "\<forall>n p d. fs_write (env_example lo hi reply) n p d = WriteOk"
  by (simp_all add: env_example_def)

lemma example_outputs:
  "example_output 0 = ''~Antwort I~''"
  "example_output 1 = ''~Antwort II~''"
  "example_output 2 = ''~Antwort III~''"
  "example_output 3 = ''~Antwort IIII~''"
  "example_output 4 = ''~Antwort IIIII~''"
  by (simp_all add: example_output_def numeral_2_eq_2 numeral_3_eq_3 eval_nat_numeral)

lemma example_files:
  "files example_world (norm_path ''board.jpg'') = Some (File ''abc'')"
  "files batch_world (norm_path ''a.jpg'') = Some (File ''abc'')"
  "files batch_world (norm_path ''b.png'') = Some (File ''abc'')"
  "files batch_world (norm_path ''c.webp'') = Some (File ''abc'')"
  unfolding example_norms by (simp_all add: example_world_def batch_world_def)

lemma example_mimes:
  "(case map_of mime_map ''.jpg'' of None \<Rightarrow> ''image/jpeg'' | Some m \<Rightarrow> m) = ''image/jpeg''"
  "(case map_of mime_map ''.png'' of None \<Rightarrow> ''image/jpeg'' | Some m \<Rightarrow> m) = ''image/png''"
  "(case map_of mime_map ''.webp'' of None \<Rightarrow> ''image/jpeg'' | Some m \<Rightarrow> m) = ''image/webp''"
  by (simp_all add: mime_map_def)

lemma example_encodings:
  "encode_image ''board.jpg'' example_world = Inr (''YWJj'', ''image/jpeg'')"
  "encode_image ''a.jpg'' batch_world = Inr (''YWJj'', ''image/jpeg'')"
  using encode_image_value [OF example_files(1)] encode_image_value [OF example_files(2)]
  unfolding example_suffixes example_b64 example_mimes by simp_all

lemma example_artifact_paths:
  "raw_path_of example_config ''board.jpg'' = ''output/board_Raw.md''"
  "summary_path_of example_config ''board.jpg'' = ''output/board_Summary.md''"
  "raw_path_of example_config ''a.jpg'' = ''output/a_Raw.md''"
  "summary_path_of example_config ''a.jpg'' = ''output/a_Summary.md''"
  "raw_path_of example_config ''c.webp'' = ''output/c_Raw.md''"
  "summary_path_of example_config ''c.webp'' = ''output/c_Summary.md''"
  unfolding raw_path_of_eq summary_path_of_eq example_stems
  by (simp_all add: example_config_def path_root_def path_parts_def)

lemma tilde_not_in_fixed_texts:
  "CHR ''~'' \<notin> set SYSTEM_PROMPT_head"
  "CHR ''~'' \<notin> set SYSTEM_PROMPT_body"
  "CHR ''~'' \<notin> set SYSTEM_PROMPT_tail"
  "CHR ''~'' \<notin> set CONFIDENCE_SECTION"
  "CHR ''~'' \<notin> set analyze_structure_prompt"
  "CHR ''~'' \<notin> set transcribe_raw_prompt_1"
  "CHR ''~'' \<notin> set transcribe_raw_prompt_2"
  "CHR ''~'' \<notin> set clean_and_enrich_prompt_1"
  "CHR ''~'' \<notin> set clean_and_enrich_prompt_2"
  "CHR ''~'' \<notin> set synthesize_summary_prompt_1"
  "CHR ''~'' \<notin> set synthesize_summary_prompt_2"
  by (simp_all add: SYSTEM_PROMPT_head_def SYSTEM_PROMPT_body_def SYSTEM_PROMPT_tail_def
      CONFIDENCE_SECTION_def analyze_structure_prompt_def transcribe_raw_prompt_1_def
      transcribe_raw_prompt_2_def clean_and_enrich_prompt_1_def clean_and_enrich_prompt_2_def
      synthesize_summary_prompt_1_def synthesize_summary_prompt_2_def)

lemma not_sublist_char: "c \<in> set s \<Longrightarrow> c \<notin> set t \<Longrightarrow> \<not> sublist s t"
  using set_mono_sublist by fastforce

lemma request_lacks_char:
  assumes "c \<in> set s"
    and "\<forall>m\<in>set (req_messages q). \<forall>t\<in>set (content_texts (content m)). c \<notin> set t"
  shows "\<not> request_contains q s"
proof
  assume "request_contains q s"
  then obtain m t where mt: "m \<in> set (req_messages q)" "t \<in> set (content_texts (content m))"
    and sub: "sublist s t"
    by (auto simp: request_contains_def list_ex_iff)
  from assms(2) mt have "c \<notin> set t" by blast
  from not_sublist_char [OF assms(1) this] sub show False by (rule notE)
qed

lemma example_context_section: "build_context_section example_config = []"
  by (simp add: build_context_section_def example_config_def templates_get_named)

lemma example_requests_lack_tilde:
  "\<forall>m\<in>set (req_messages (build_request example_config md
       (analyze_structure_messages example_config ''YWJj'' ''image/jpeg''))).
     \<forall>t\<in>set (content_texts (content m)). CHR ''~'' \<notin> set t"
  "\<forall>m\<in>set (req_messages (build_request example_config md
       (transcribe_raw_messages example_config ''YWJj'' ''image/jpeg'' (Text [])))).
     \<forall>t\<in>set (content_texts (content m)). CHR ''~'' \<notin> set t"
  "\<forall>m\<in>set (req_messages (build_request example_config md
       (clean_and_enrich_messages example_config (Text []) (Text [])))).
     \<forall>t\<in>set (content_texts (content m)). CHR ''~'' \<notin> set t"
  "\<forall>m\<in>set (req_messages (build_request example_config md
       (synthesize_summary_messages example_config (Text []) (Text [])))).
     \<forall>t\<in>set (content_texts (content m)). CHR ''~'' \<notin> set t"
  by (simp_all add: build_request_def analyze_structure_messages_def
      transcribe_raw_messages_def clean_and_enrich_messages_def
      synthesize_summary_messages_def build_vision_message_def system_prompt_def
      system_prompt_format_def example_context_section tilde_not_in_fixed_texts Let_def
      templates_get_named example_config_def [THEN arg_cong [of _ _ template]]
      example_config_def [THEN arg_cong [of _ _ confidence]])


lemma posted_example_world: "posted example_world = []"
  by (simp add: posted_def example_world_def)

lemma model_example_config: "model example_config = ''google/gemini-2.0-flash''"
  by (simp add: example_config_def)

text \<open>
  The ordering of the pipeline at an example: the default configuration, the image \<^verbatim>\<open>board.jpg\<close> and an
  endpoint whose first answer is a timeout and whose answer number \<open>n\<close> is then the text
  \<open>example_output n\<close>. Stage 1 is tried twice; the requests of the stages 2, 3 and 4 contain
  the outputs of the earlier stages. The same requests built from empty outputs do not
  contain them, nor does the request of stage 1: the texts come from the outputs, not from
  the fixed prompts.
\<close>

theorem pipeline_ordering_witness:
  "posted (snd (process_board example_config (env_example 0 1 TimedOut) ''board.jpg''
      example_world)) =
     [build_request example_config ''google/gemini-2.0-flash''
        (analyze_structure_messages example_config ''YWJj'' ''image/jpeg''),
      build_request example_config ''google/gemini-2.0-flash''
        (analyze_structure_messages example_config ''YWJj'' ''image/jpeg''),
      build_request example_config ''google/gemini-2.0-flash''
        (transcribe_raw_messages example_config ''YWJj'' ''image/jpeg'' (Text ''~Antwort II~'')),
      build_request example_config ''google/gemini-2.0-flash''
        (clean_and_enrich_messages example_config (Text ''~Antwort III~'')
           (Text ''~Antwort II~'')),
      build_request example_config ''google/gemini-2.0-flash''
        (synthesize_summary_messages example_config (Text ''~Antwort IIII~'')
           (Text ''~Antwort II~''))] \<and>
   request_contains
     (build_request example_config ''google/gemini-2.0-flash''
        (transcribe_raw_messages example_config ''YWJj'' ''image/jpeg'' (Text ''~Antwort II~'')))
     ''~Antwort II~'' \<and>
   request_contains
     (build_request example_config ''google/gemini-2.0-flash''
        (clean_and_enrich_messages example_config (Text ''~Antwort III~'')
           (Text ''~Antwort II~'')))
     ''~Antwort II~'' \<and>
   request_contains
     (build_request example_config ''google/gemini-2.0-flash''
        (clean_and_enrich_messages example_config (Text ''~Antwort III~'')
           (Text ''~Antwort II~'')))
     ''~Antwort III~'' \<and>
   request_contains
     (build_request example_config ''google/gemini-2.0-flash''
        (synthesize_summary_messages example_config (Text ''~Antwort IIII~'')
           (Text ''~Antwort II~'')))
     ''~Antwort II~'' \<and>
   request_contains
     (build_request example_config ''google/gemini-2.0-flash''
        (synthesize_summary_messages example_config (Text ''~Antwort IIII~'')
           (Text ''~Antwort II~'')))
     ''~Antwort IIII~'' \<and>
   \<not> request_contains
     (build_request example_config ''google/gemini-2.0-flash''
        (analyze_structure_messages example_config ''YWJj'' ''image/jpeg''))
     ''~Antwort II~'' \<and>
   \<not> request_contains
     (build_request example_config ''google/gemini-2.0-flash''
        (transcribe_raw_messages example_config ''YWJj'' ''image/jpeg'' (Text [])))
     ''~Antwort II~'' \<and>
   \<not> request_contains
     (build_request example_config ''google/gemini-2.0-flash''
        (clean_and_enrich_messages example_config (Text []) (Text [])))
     ''~Antwort II~'' \<and>
   \<not> request_contains
     (build_request example_config ''google/gemini-2.0-flash''
        (clean_and_enrich_messages example_config (Text []) (Text [])))
     ''~Antwort III~'' \<and>
   \<not> request_contains
     (build_request example_config ''google/gemini-2.0-flash''
        (synthesize_summary_messages example_config (Text []) (Text [])))
     ''~Antwort II~'' \<and>
   \<not> request_contains
     (build_request example_config ''google/gemini-2.0-flash''
        (synthesize_summary_messages example_config (Text []) (Text [])))
     ''~Antwort IIII~''"
proof -
  define env where "env = env_example 0 1 TimedOut"
  define q1 where "q1 = build_request example_config (model example_config)
              (analyze_structure_messages example_config ''YWJj'' ''image/jpeg'')"
  define q2 where "q2 = build_request example_config (model example_config)
              (transcribe_raw_messages example_config ''YWJj'' ''image/jpeg''
                 (Text (example_output 1)))"
  define q3 where "q3 = build_request example_config (model example_config)
              (clean_and_enrich_messages example_config (Text (example_output 2))
                 (Text (example_output 1)))"
  define q4 where "q4 = build_request example_config (model example_config)
              (synthesize_summary_messages example_config (Text (example_output 3))
                 (Text (example_output 1)))"
  define w1 where "w1 = example_world\<lparr>trace := trace example_world @
              [Posted q1, Slept (RETRY_BASE_DELAY ^ 1), Posted q1]\<rparr>"
  define w2 where "w2 = record_post q2 w1"
  define d4 where "d4 = raw_header example_config (path_stem ''board.jpg'')
              (fst (read_clock env w2)) (Text (example_output 1)) @ example_output 2"
  define w4 where "w4 = (snd (read_clock env w2))\<lparr>trace := trace (snd (read_clock env w2)) @
              [Wrote (raw_path_of example_config ''board.jpg'')],
              files := (files (snd (read_clock env w2)))
                (raw_path_of example_config ''board.jpg'' \<mapsto> File d4)\<rparr>"
  define w5 where "w5 = record_post q3 w4"
  define w6 where "w6 = record_post q4 w5"
  have lim: "1 \<le> recursion_limit env"
    by (simp add: env_def env_example_fields)
  have p1: "posted w1 = [q1, q1]"
    by (simp add: w1_def posted_trace_append posted_example_world)
  have p2: "posted w2 = [q1, q1, q2]"
    by (simp add: w2_def posted_record_post p1)
  have p4: "posted w4 = [q1, q1, q2]"
    using p2 by (simp add: w4_def posted_def posted_of_append)
  have p5: "posted w5 = [q1, q1, q2, q3]"
    by (simp add: w5_def posted_record_post p4)
  have p6: "posted w6 = [q1, q1, q2, q3, q4]"
    by (simp add: w6_def posted_record_post p5)
  have s1: "analyze_structure example_config env ''YWJj'' ''image/jpeg'' example_world =
           (Inr (Text (example_output 1)), w1)"
    unfolding analyze_structure_def w1_def q1_def
    by (rule call_api_retry_once [OF lim])
       (simp_all add: env_def posted_example_world env_example_reply env_example_ok)
  have s2: "transcribe_raw example_config env ''YWJj'' ''image/jpeg'' (Text (example_output 1))
           w1 = (Inr (Text (example_output 2)), w2)"
    unfolding transcribe_raw_def w2_def q2_def
    by (rule call_api_first_try [OF lim]) (simp add: p1 env_def env_example_ok eval_nat_numeral)
  have wr: "write_text env (raw_path_of example_config ''board.jpg'')
           (raw_header example_config (path_stem ''board.jpg'') (fst (read_clock env w2))
              (Text (example_output 1)) @ example_output 2)
           (snd (read_clock env w2)) = (Inr (), w4)"
    unfolding w4_def d4_def env_def by (rule write_text_always_ok [OF env_example_fields(3)])
  have s3: "clean_and_enrich example_config env (Text (example_output 2))
           (Text (example_output 1)) w4 = (Inr (Text (example_output 3)), w5)"
    unfolding clean_and_enrich_def w5_def q3_def
    by (rule call_api_first_try [OF lim]) (simp add: p4 env_def env_example_ok eval_nat_numeral)
  have s4: "synthesize_summary example_config env (Text (example_output 3))
           (Text (example_output 1)) w5 = (Inr (Text (example_output 4)), w6)"
    unfolding synthesize_summary_def w6_def q4_def
    by (rule call_api_first_try [OF lim]) (simp add: p5 env_def env_example_ok eval_nat_numeral)
  have n2: "new_posts w1 w2 = [q2]" by (simp add: new_posts_def p1 p2)
  have n3: "new_posts w4 w5 = [q3]" by (simp add: new_posts_def p4 p5)
  have n4: "new_posts w5 w6 = [q4]" by (simp add: new_posts_def p5 p6)
  note main = pipeline_ordering [OF example_encodings(1) example_supported(4) s1 s2]
  note stage2 = main [THEN conjunct2, THEN conjunct2, THEN conjunct1, unfolded n2]
  note later = main [THEN conjunct2, THEN conjunct2, THEN conjunct2, rule_format,
      OF conjI [OF refl conjI [OF wr s3]]]
  note stage3 = later [THEN conjunct2, THEN conjunct2, THEN conjunct1, unfolded n3]
  note last = later [THEN conjunct2, THEN conjunct2, THEN conjunct2, rule_format,
      OF conjI [OF refl s4]]
  note stage4 = last [THEN conjunct2, THEN conjunct2, THEN conjunct1, unfolded n4]
  note all_posts = last [THEN conjunct2, THEN conjunct2, THEN conjunct2, unfolded p6]
  have c2: "request_contains q2 (example_output 1)"
    using stage2 by simp
  have c3: "request_contains q3 (example_output 1)" "request_contains q3 (example_output 2)"
    using stage3 by simp_all
  have c4: "request_contains q4 (example_output 1)" "request_contains q4 (example_output 3)"
    using stage4 by simp_all
  have t: "CHR ''~'' \<in> set ''~Antwort II~''" "CHR ''~'' \<in> set ''~Antwort III~''"
    "CHR ''~'' \<in> set ''~Antwort IIII~''"
    by simp_all
  note control = request_lacks_char [OF t(1) example_requests_lack_tilde(1)]
    request_lacks_char [OF t(1) example_requests_lack_tilde(2)]
    request_lacks_char [OF t(1) example_requests_lack_tilde(3)]
    request_lacks_char [OF t(2) example_requests_lack_tilde(3)]
    request_lacks_char [OF t(1) example_requests_lack_tilde(4)]
    request_lacks_char [OF t(3) example_requests_lack_tilde(4)]
  from all_posts c2 c3 c4 show ?thesis
    unfolding env_def q1_def q2_def q3_def q4_def example_outputs model_example_config
    by (intro conjI control)
qed

subsection \<open>The raw artifact\<close>

lemma write_calls_trace_append:
  "trace w' = trace w @ ext \<Longrightarrow> write_calls w' = write_calls w @ write_calls_of ext"
  by (simp add: write_calls_def write_calls_of_append)

lemma write_text_other:
  "write_text env p d w = (r, w') \<Longrightarrow> q \<noteq> p \<Longrightarrow> files w' q = files w q"
  by (auto simp: write_text_def split: write_result.splits option.splits)

lemma raw_header_eq:
  "raw_header cfg board_name now sa @ rc =
     ''# Rohdaten-Transkription: '' @ board_name @ ''\<newline>\<newline>**Erstellt:** '' @ now @
     ''\<newline>**Modell:** '' @ model cfg @ ''\<newline>**Template:** '' @ template cfg @
     ''\<newline>\<newline>---\<newline>\<newline>## Strukturanalyse\<newline>\<newline>'' @ to_text sa @
     ''\<newline>\<newline>---\<newline>\<newline>## Transkription\<newline>\<newline>'' @ rc"
  by (simp add: raw_header_def)

lemma process_board_keeps_raw:
  assumes enc: "encode_image p w = Inr (b64, mime)"
    and sup: "lower (path_suffix p) \<in> SUPPORTED_FORMATS"
    and s1: "analyze_structure cfg env b64 mime w = (Inr sa, w1)"
    and s2: "transcribe_raw cfg env b64 mime sa w1 = (Inr (Text rc), w2)"
    and wr: "write_text env (raw_path_of cfg p)
           (raw_header cfg (path_stem p) (fst (read_clock env w2)) sa @ rc)
           (snd (read_clock env w2)) = (Inr u, w4)"
  shows "files (snd (process_board cfg env p w)) (raw_path_of cfg p) =
           files w4 (raw_path_of cfg p)"
proof -
  obtain r3 w5 where s3: "clean_and_enrich cfg env (Text rc) sa w4 = (r3, w5)"
    by (cases "clean_and_enrich cfg env (Text rc) sa w4")
  have f5: "files w5 = files w4"
    using stage_effects(3) [OF s3] by simp
  show ?thesis
  proof (cases r3)
    case (Inl e)
    have "process_board cfg env p w = (Inl e, w5)"
      by (rule process_board_stage3_fails [OF enc sup s1 s2 wr s3 [unfolded Inl]])
    with f5 show ?thesis by simp
  next
    case (Inr cc)
    note s3' = s3 [unfolded Inr]
    obtain r4 w6 where s4: "synthesize_summary cfg env cc sa w5 = (r4, w6)"
      by (cases "synthesize_summary cfg env cc sa w5")
    have f6: "files w6 = files w4"
      using stage_effects(4) [OF s4] f5 by simp
    show ?thesis
    proof (cases r4)
      case (Inl e)
      have "process_board cfg env p w = (Inl e, w6)"
        by (rule process_board_stage4_fails [OF enc sup s1 s2 wr s3' s4 [unfolded Inl]])
      with f6 show ?thesis by simp
    next
      case (Inr v)
      note s4v = s4 [unfolded Inr]
      show ?thesis
      proof (cases v)
        case (NonText r)
        have "process_board cfg env p w = (Inl TypeError, snd (read_clock env w6))"
          by (rule process_board_summary_not_text [OF enc sup s1 s2 wr s3' s4v [unfolded NonText]])
        with f6 show ?thesis by simp
      next
        case (Text sc)
        obtain r8 w8 where w8: "write_text env (summary_path_of cfg p)
           (summary_header cfg (path_stem p) (fst (read_clock env w6)) @ sc)
           (snd (read_clock env w6)) = (r8, w8)"
          by (cases "write_text env (summary_path_of cfg p)
           (summary_header cfg (path_stem p) (fst (read_clock env w6)) @ sc)
           (snd (read_clock env w6))")
        have fin: "snd (process_board cfg env p w) = w8"
          unfolding process_board_summary_write [OF enc sup s1 s2 wr s3' s4v [unfolded Text] w8]
          by simp
        have "files w8 (raw_path_of cfg p) = files (snd (read_clock env w6)) (raw_path_of cfg p)"
          by (rule write_text_other [OF w8 raw_summary_paths_differ])
        with f6 show ?thesis unfolding fin by simp
      qed
    qed
  qed
qed

text \<open>
  C5 (confirmed). Take any run of the pipeline that passes the checks and in which stage 1
  returned \<open>sa\<close> and stage 2 returned \<open>v\<close>; the world before the run is \<open>w\<close>, the world after
  stage 2 is \<open>w2\<close>.

  If \<open>v\<close> is a text \<open>rc\<close>, the next thing the run does is the write of the raw artifact: the
  path is \<^verbatim>\<open>{stem}_Raw.md\<close> in the output directory and the content is the header (title
  with the stem of the image, time of creation, model, template), the section
  \<^verbatim>\<open>Strukturanalyse\<close> with \<open>sa\<close> and the section \<^verbatim>\<open>Transkription\<close> with \<open>rc\<close>. The event
  of this write follows the events of stage 2 at once. If the write fails, the run ends with
  its error. If it goes through, the file system is the one before the run with the raw
  artifact added; stage 3 then starts from this world, so all its events, and those of stage
  4, come after the write; and whatever happens later in the run, the raw artifact is at the
  end what was written.

  If stage 3 fails, or stage 3 returns and stage 4 fails, the run ends with that error; the
  file system is then still the one before the run with the raw artifact added; the write of
  the raw artifact is the only write the run has called; and the summary path holds what it
  held before the run.

  If \<open>v\<close> is not a text, the run ends with \<^verbatim>\<open>TypeError\<close> before any write and before
  stage 3.
\<close>

theorem partial_persistence:
  assumes "encode_image image_path w = Inr (image_b64, mime_type)"
    and "lower (path_suffix image_path) \<in> SUPPORTED_FORMATS"
    and "analyze_structure cfg env image_b64 mime_type w = (Inr sa, w1)"
    and "transcribe_raw cfg env image_b64 mime_type sa w1 = (Inr v, w2)"
  shows
    "(\<forall>r. v = NonText r \<longrightarrow>
        process_board cfg env image_path w = (Inl TypeError, snd (read_clock env w2)) \<and>
        trace (snd (read_clock env w2)) = trace w2) \<and>
     (\<forall>rc rw w4.
        v = Text rc \<and>
        write_text env (raw_path_of cfg image_path)
          (''# Rohdaten-Transkription: '' @ path_stem image_path @
           ''\<newline>\<newline>**Erstellt:** '' @ strftime env (clock_reads w) @
           ''\<newline>**Modell:** '' @ model cfg @ ''\<newline>**Template:** '' @ template cfg @
           ''\<newline>\<newline>---\<newline>\<newline>## Strukturanalyse\<newline>\<newline>'' @ to_text sa @
           ''\<newline>\<newline>---\<newline>\<newline>## Transkription\<newline>\<newline>'' @ rc)
          (snd (read_clock env w2)) = (rw, w4) \<longrightarrow>
        trace w4 = trace w2 @ [if isl rw then WriteFailed (raw_path_of cfg image_path)
                               else Wrote (raw_path_of cfg image_path)] \<and>
        prefix (trace w4) (trace (snd (process_board cfg env image_path w))) \<and>
        (\<forall>e. rw = Inl e \<longrightarrow> process_board cfg env image_path w = (Inl e, w4)) \<and>
        (\<forall>u r3 w5.
           rw = Inr u \<and> clean_and_enrich cfg env (Text rc) sa w4 = (r3, w5) \<longrightarrow>
           files w4 = (files w)(raw_path_of cfg image_path \<mapsto> File
             (''# Rohdaten-Transkription: '' @ path_stem image_path @
              ''\<newline>\<newline>**Erstellt:** '' @ strftime env (clock_reads w) @
              ''\<newline>**Modell:** '' @ model cfg @ ''\<newline>**Template:** '' @ template cfg @
              ''\<newline>\<newline>---\<newline>\<newline>## Strukturanalyse\<newline>\<newline>'' @ to_text sa @
              ''\<newline>\<newline>---\<newline>\<newline>## Transkription\<newline>\<newline>'' @ rc)) \<and>
           prefix (trace w4) (trace w5) \<and>
           prefix (trace w5) (trace (snd (process_board cfg env image_path w))) \<and>
           files (snd (process_board cfg env image_path w)) (raw_path_of cfg image_path) =
             files w4 (raw_path_of cfg image_path) \<and>
           (\<forall>e. r3 = Inl e \<longrightarrow>
              process_board cfg env image_path w = (Inl e, w5) \<and>
              files w5 = files w4 \<and>
              write_calls w5 = write_calls w @ [raw_path_of cfg image_path] \<and>
              files w5 (summary_path_of cfg image_path) =
                files w (summary_path_of cfg image_path)) \<and>
           (\<forall>cc e w6.
              r3 = Inr cc \<and> synthesize_summary cfg env cc sa w5 = (Inl e, w6) \<longrightarrow>
              process_board cfg env image_path w = (Inl e, w6) \<and>
              files w6 = files w4 \<and>
              write_calls w6 = write_calls w @ [raw_path_of cfg image_path] \<and>
              files w6 (summary_path_of cfg image_path) =
                files w (summary_path_of cfg image_path))))"
proof (intro conjI allI impI)
  note enc = assms(1) and sup = assms(2) and s1 = assms(3) and s2 = assms(4)
  note e1 = stage_effects(1) [OF s1] and e2 = stage_effects(2) [OF s2]
  have f2: "files w2 = files w" using e1 e2 by simp
  have c2: "clock_reads w2 = clock_reads w" using e1 e2 by simp
  have wc2: "write_calls w2 = write_calls w"
    using e1 e2 by (auto simp: write_calls_def write_calls_of_append)
  {
    fix r
    assume v: "v = NonText r"
    show "process_board cfg env image_path w = (Inl TypeError, snd (read_clock env w2))"
      by (rule process_board_raw_not_text [OF enc sup s1 s2 [unfolded v]])
    show "trace (snd (read_clock env w2)) = trace w2" by simp
  }
  fix rc rw w4
  let ?raw = "raw_path_of cfg image_path"
  let ?content = "''# Rohdaten-Transkription: '' @ path_stem image_path @
           ''\<newline>\<newline>**Erstellt:** '' @ strftime env (clock_reads w) @
           ''\<newline>**Modell:** '' @ model cfg @ ''\<newline>**Template:** '' @ template cfg @
           ''\<newline>\<newline>---\<newline>\<newline>## Strukturanalyse\<newline>\<newline>'' @ to_text sa @
           ''\<newline>\<newline>---\<newline>\<newline>## Transkription\<newline>\<newline>'' @ rc"
  assume h: "v = Text rc \<and>
        write_text env ?raw ?content (snd (read_clock env w2)) = (rw, w4)"
  from h have v: "v = Text rc" by (rule conjunct1)
  note s2' = s2 [unfolded v]
  from h have wr0: "write_text env ?raw ?content (snd (read_clock env w2)) = (rw, w4)"
    by (rule conjunct2)
  have content: "raw_header cfg (path_stem image_path) (fst (read_clock env w2)) sa @ rc =
      ?content"
    unfolding raw_header_eq fst_read_clock c2 by (rule refl)
  have wr: "write_text env ?raw
      (raw_header cfg (path_stem image_path) (fst (read_clock env w2)) sa @ rc)
      (snd (read_clock env w2)) = (rw, w4)"
    unfolding content by (rule wr0)
  show t4: "trace w4 = trace w2 @ [if isl rw then WriteFailed ?raw else Wrote ?raw]"
    using write_text_trace [OF wr] by simp
  have after2: "prefix (trace w2) (trace (snd (process_board cfg env image_path w)))"
    by (rule process_board_after_stage2 [OF enc sup s1 s2'])
  show "prefix (trace w4) (trace (snd (process_board cfg env image_path w)))"
  proof (cases rw)
    case (Inl e)
    have "process_board cfg env image_path w = (Inl e, w4)"
      by (rule process_board_raw_write_fails [OF enc sup s1 s2' wr [unfolded Inl]])
    then show ?thesis by simp
  next
    case (Inr u)
    obtain r3 w5 where s3: "clean_and_enrich cfg env (Text rc) sa w4 = (r3, w5)"
      by (cases "clean_and_enrich cfg env (Text rc) sa w4")
    have "prefix (trace w5) (trace (snd (process_board cfg env image_path w)))"
      by (rule process_board_after_stage3 [OF enc sup s1 s2' wr [unfolded Inr] s3])
    moreover have "prefix (trace w4) (trace w5)"
      by (rule stage_trace_prefix(3) [OF s3])
    ultimately show ?thesis by (rule prefix_order.trans [rotated])
  qed
  {
    fix e
    assume rw: "rw = Inl e"
    show "process_board cfg env image_path w = (Inl e, w4)"
      by (rule process_board_raw_write_fails [OF enc sup s1 s2' wr [unfolded rw]])
  }
  fix u r3 w5
  assume h3: "rw = Inr u \<and> clean_and_enrich cfg env (Text rc) sa w4 = (r3, w5)"
  from h3 have rw: "rw = Inr u" by (rule conjunct1)
  note wr' = wr [unfolded rw]
  from h3 have s3: "clean_and_enrich cfg env (Text rc) sa w4 = (r3, w5)" by (rule conjunct2)
  note e3 = stage_effects(3) [OF s3]
  have w4: "w4 = (snd (read_clock env w2))\<lparr>trace := trace (snd (read_clock env w2)) @ [Wrote ?raw],
      files := (files (snd (read_clock env w2)))(?raw \<mapsto> File
        (raw_header cfg (path_stem image_path) (fst (read_clock env w2)) sa @ rc))\<rparr>"
    by (rule write_text_ok [OF wr'])
  show f4: "files w4 = (files w)(?raw \<mapsto> File ?content)"
    unfolding w4 content by (simp add: f2)
  have wc4: "write_calls w4 = write_calls w @ [?raw]"
    unfolding w4 by (simp add: write_calls_def write_calls_of_append wc2 [unfolded write_calls_def])
  show "prefix (trace w4) (trace w5)"
    by (rule stage_trace_prefix(3) [OF s3])
  show "prefix (trace w5) (trace (snd (process_board cfg env image_path w)))"
    by (rule process_board_after_stage3 [OF enc sup s1 s2' wr' s3])
  show "files (snd (process_board cfg env image_path w)) ?raw = files w4 ?raw"
    by (rule process_board_keeps_raw [OF enc sup s1 s2' wr'])
  have f5: "files w5 = files w4" using e3 by simp
  have wc5: "write_calls w5 = write_calls w @ [?raw]"
    using e3 wc4 by (auto simp: write_calls_def write_calls_of_append)
  have sum4: "files w4 (summary_path_of cfg image_path) = files w (summary_path_of cfg image_path)"
    unfolding f4 using raw_summary_paths_differ [of cfg image_path] by simp
  {
    fix e
    assume r3: "r3 = Inl e"
    show "process_board cfg env image_path w = (Inl e, w5)"
      by (rule process_board_stage3_fails [OF enc sup s1 s2' wr' s3 [unfolded r3]])
    show "files w5 = files w4" by (rule f5)
    show "write_calls w5 = write_calls w @ [?raw]" by (rule wc5)
    show "files w5 (summary_path_of cfg image_path) = files w (summary_path_of cfg image_path)"
      unfolding f5 by (rule sum4)
  }
  fix cc e w6
  assume h4: "r3 = Inr cc \<and> synthesize_summary cfg env cc sa w5 = (Inl e, w6)"
  from h4 have r3: "r3 = Inr cc" by (rule conjunct1)
  from h4 have s4: "synthesize_summary cfg env cc sa w5 = (Inl e, w6)" by (rule conjunct2)
  note e4 = stage_effects(4) [OF s4]
  show "process_board cfg env image_path w = (Inl e, w6)"
    by (rule process_board_stage4_fails [OF enc sup s1 s2' wr' s3 [unfolded r3] s4])
  show f6: "files w6 = files w4" using e4 f5 by simp
  show "write_calls w6 = write_calls w @ [?raw]"
    using e4 wc5 by (auto simp: write_calls_def write_calls_of_append)
  show "files w6 (summary_path_of cfg image_path) = files w (summary_path_of cfg image_path)"
    unfolding f6 by (rule sum4)
qed

lemma prefix_take: "prefix xs ys \<Longrightarrow> take (length xs) ys = xs"
  by (auto simp: prefix_def)

lemma example_config_fields:
  "model example_config = ''google/gemini-2.0-flash''"
  "fallback_model example_config = ''anthropic/claude-sonnet-4-5''"
  "template example_config = ''custom''"
  by (simp_all add: example_config_def)

lemma example_world_fields:
  "trace example_world = []" "clock_reads example_world = 0"
  "write_calls example_world = []"
  "files example_world ''output/board_Summary.md'' = None"
  by (simp_all add: example_world_def write_calls_def)

lemma malformed_response_raises:
  "try_block (Responded malformed_response) = Inl OtherException"
  by (simp add: malformed_response_def raises_for_status_def)

text \<open>
  The raw artifact at two examples, with the default configuration and the image
  \<^verbatim>\<open>board.jpg\<close>. In the first run the requests of stage 3 all time out (three for the
  primary model, three for the fallback model); in the second the answer to the request of
  stage 4 has no \<^verbatim>\<open>choices\<close> entry. In both the run ends with the error, the first three
  events of the run are the requests of the stages 1 and 2 and the write of the raw artifact,
  the file system is the one before the run with the raw artifact added, and there is no
  other write and no summary artifact.
\<close>

theorem partial_persistence_witness:
  "fst (process_board example_config (env_example 2 8 TimedOut) ''board.jpg'' example_world) =
     Inl (RuntimeError_exhausted (Some Timeout)) \<and>
   take 3 (trace (snd (process_board example_config (env_example 2 8 TimedOut) ''board.jpg''
       example_world))) =
     [Posted (build_request example_config ''google/gemini-2.0-flash''
        (analyze_structure_messages example_config ''YWJj'' ''image/jpeg'')),
      Posted (build_request example_config ''google/gemini-2.0-flash''
        (transcribe_raw_messages example_config ''YWJj'' ''image/jpeg'' (Text ''~Antwort I~''))),
      Wrote ''output/board_Raw.md''] \<and>
   length (posted (snd (process_board example_config (env_example 2 8 TimedOut) ''board.jpg''
       example_world))) = 8 \<and>
   files (snd (process_board example_config (env_example 2 8 TimedOut) ''board.jpg''
       example_world)) =
     (files example_world)(''output/board_Raw.md'' \<mapsto> File
        (''# Rohdaten-Transkription: board\<newline>\<newline>'' @
         ''**Erstellt:** 2026-02-26 12:00\<newline>'' @
         ''**Modell:** google/gemini-2.0-flash\<newline>'' @
         ''**Template:** custom\<newline>\<newline>'' @
         ''---\<newline>\<newline>'' @
         ''## Strukturanalyse\<newline>\<newline>~Antwort I~\<newline>\<newline>'' @
         ''---\<newline>\<newline>'' @
         ''## Transkription\<newline>\<newline>~Antwort II~'')) \<and>
   write_calls (snd (process_board example_config (env_example 2 8 TimedOut) ''board.jpg''
       example_world)) = [''output/board_Raw.md''] \<and>
   files (snd (process_board example_config (env_example 2 8 TimedOut) ''board.jpg''
       example_world)) ''output/board_Summary.md'' = None \<and>
   fst (process_board example_config (env_example 3 4 (Responded malformed_response))
       ''board.jpg'' example_world) = Inl UncaughtError \<and>
   length (posted (snd (process_board example_config
       (env_example 3 4 (Responded malformed_response)) ''board.jpg'' example_world))) = 4 \<and>
   files (snd (process_board example_config (env_example 3 4 (Responded malformed_response))
       ''board.jpg'' example_world)) =
     (files example_world)(''output/board_Raw.md'' \<mapsto> File
        (''# Rohdaten-Transkription: board\<newline>\<newline>'' @
         ''**Erstellt:** 2026-02-26 12:00\<newline>'' @
         ''**Modell:** google/gemini-2.0-flash\<newline>'' @
         ''**Template:** custom\<newline>\<newline>'' @
         ''---\<newline>\<newline>'' @
         ''## Strukturanalyse\<newline>\<newline>~Antwort I~\<newline>\<newline>'' @
         ''---\<newline>\<newline>'' @
         ''## Transkription\<newline>\<newline>~Antwort II~'')) \<and>
   write_calls (snd (process_board example_config
       (env_example 3 4 (Responded malformed_response)) ''board.jpg'' example_world)) =
     [''output/board_Raw.md''] \<and>
   files (snd (process_board example_config (env_example 3 4 (Responded malformed_response))
       ''board.jpg'' example_world)) ''output/board_Summary.md'' = None"
proof -
  define q1 where "q1 = build_request example_config (model example_config)
              (analyze_structure_messages example_config ''YWJj'' ''image/jpeg'')"
  define q2 where "q2 = build_request example_config (model example_config)
              (transcribe_raw_messages example_config ''YWJj'' ''image/jpeg''
                 (Text (example_output 0)))"
  define q3 where "q3 = build_request example_config (model example_config)
              (clean_and_enrich_messages example_config (Text (example_output 1))
                 (Text (example_output 0)))"
  define q4 where "q4 = build_request example_config (model example_config)
              (synthesize_summary_messages example_config (Text (example_output 2))
                 (Text (example_output 0)))"
  define w1 where "w1 = record_post q1 example_world"
  define w2 where "w2 = record_post q2 w1"
  define content where "content =
     ''# Rohdaten-Transkription: '' @ path_stem ''board.jpg'' @
     ''\<newline>\<newline>**Erstellt:** '' @ ''2026-02-26 12:00'' @
     ''\<newline>**Modell:** '' @ model example_config @
     ''\<newline>**Template:** '' @ template example_config @
     ''\<newline>\<newline>---\<newline>\<newline>## Strukturanalyse\<newline>\<newline>'' @ to_text (Text (example_output 0)) @
     ''\<newline>\<newline>---\<newline>\<newline>## Transkription\<newline>\<newline>'' @ example_output 1"
  define w3 where "w3 = w2\<lparr>clock_reads := clock_reads w2 + 1\<rparr>"
  define w4 where "w4 = w3\<lparr>trace := trace w3 @ [Wrote (raw_path_of example_config ''board.jpg'')],
              files := (files w3)(raw_path_of example_config ''board.jpg'' \<mapsto> File content)\<rparr>"
  have p1: "posted w1 = [q1]"
    by (simp add: w1_def posted_record_post posted_example_world)
  have p2: "posted w2 = [q1, q2]"
    by (simp add: w2_def posted_record_post p1)
  have t2: "trace w2 = [Posted q1, Posted q2]"
    by (simp add: w2_def w1_def record_post_def example_world_fields)
  have p4: "posted w4 = [q1, q2]"
    using p2 by (simp add: w4_def w3_def posted_def posted_of_append)
  have content_eq: "content =
        ''# Rohdaten-Transkription: board\<newline>\<newline>'' @
         ''**Erstellt:** 2026-02-26 12:00\<newline>'' @
         ''**Modell:** google/gemini-2.0-flash\<newline>'' @
         ''**Template:** custom\<newline>\<newline>'' @
         ''---\<newline>\<newline>'' @
         ''## Strukturanalyse\<newline>\<newline>~Antwort I~\<newline>\<newline>'' @
         ''---\<newline>\<newline>'' @
         ''## Transkription\<newline>\<newline>~Antwort II~''"
    unfolding content_def example_stems example_config_fields example_outputs to_text.simps
    by simp
  have facts: "fst (process_board example_config env ''board.jpg'' example_world) = Inl err \<and>
      take 3 (trace (snd (process_board example_config env ''board.jpg'' example_world))) =
        [Posted q1, Posted q2, Wrote (raw_path_of example_config ''board.jpg'')] \<and>
      files (snd (process_board example_config env ''board.jpg'' example_world)) =
        (files example_world)(raw_path_of example_config ''board.jpg'' \<mapsto> File content) \<and>
      write_calls (snd (process_board example_config env ''board.jpg'' example_world)) =
        [raw_path_of example_config ''board.jpg''] \<and>
      files (snd (process_board example_config env ''board.jpg'' example_world))
        (summary_path_of example_config ''board.jpg'') = None \<and>
      posted (snd (process_board example_config env ''board.jpg'' example_world)) = posted wf"
    if env: "env = env_example lo hi reply" and lo: "2 \<le> lo"
      and fails: "(\<exists>w5. clean_and_enrich example_config env (Text (example_output 1))
                    (Text (example_output 0)) w4 = (Inl err, w5) \<and> wf = w5) \<or>
                  (\<exists>cc w5 w6. clean_and_enrich example_config env (Text (example_output 1))
                    (Text (example_output 0)) w4 = (Inr cc, w5) \<and>
                    synthesize_summary example_config env cc (Text (example_output 0)) w5 =
                      (Inl err, w6) \<and> wf = w6)"
    for env lo hi reply err wf
  proof -
    have lim: "1 \<le> recursion_limit env"
      by (simp add: env env_example_fields)
    have s1: "analyze_structure example_config env ''YWJj'' ''image/jpeg'' example_world =
           (Inr (Text (example_output 0)), w1)"
      unfolding analyze_structure_def w1_def q1_def
      by (rule call_api_first_try [OF lim])
         (use lo in \<open>simp add: env posted_example_world env_example_ok\<close>)
    have s2: "transcribe_raw example_config env ''YWJj'' ''image/jpeg''
           (Text (example_output 0)) w1 = (Inr (Text (example_output 1)), w2)"
      unfolding transcribe_raw_def w2_def q2_def
      by (rule call_api_first_try [OF lim]) (use lo in \<open>simp add: p1 env env_example_ok\<close>)
    have rc: "snd (read_clock env w2) = w3"
      by (simp add: read_clock_def w3_def)
    have now: "strftime env (clock_reads example_world) = ''2026-02-26 12:00''"
      by (simp add: env env_example_fields)
    have wr: "write_text env (raw_path_of example_config ''board.jpg'')
          (''# Rohdaten-Transkription: '' @ path_stem ''board.jpg'' @
           ''\<newline>\<newline>**Erstellt:** '' @ strftime env (clock_reads example_world) @
           ''\<newline>**Modell:** '' @ model example_config @
           ''\<newline>**Template:** '' @ template example_config @
           ''\<newline>\<newline>---\<newline>\<newline>## Strukturanalyse\<newline>\<newline>'' @
           to_text (Text (example_output 0)) @
           ''\<newline>\<newline>---\<newline>\<newline>## Transkription\<newline>\<newline>'' @ example_output 1)
          (snd (read_clock env w2)) = (Inr (), w4)"
      unfolding rc now
      unfolding w4_def content_def env
      by (rule write_text_always_ok [OF env_example_fields(3)])
    note main = partial_persistence [OF example_encodings(1) example_supported(4) s1 s2,
        THEN conjunct2, rule_format, OF conjI [OF refl wr]]
    have t4: "trace w4 = [Posted q1, Posted q2, Wrote (raw_path_of example_config ''board.jpg'')]"
      using main [THEN conjunct1] by (simp add: t2)
    have "take (length (trace w4))
        (trace (snd (process_board example_config env ''board.jpg'' example_world))) = trace w4"
      by (rule prefix_take [OF main [THEN conjunct2, THEN conjunct1]])
    then have ordering:
      "take 3 (trace (snd (process_board example_config env ''board.jpg'' example_world))) =
        [Posted q1, Posted q2, Wrote (raw_path_of example_config ''board.jpg'')]"
      unfolding t4 by (simp add: numeral_3_eq_3)
    from fails show ?thesis
    proof (elim disjE exE conjE)
      fix w5
      assume s3: "clean_and_enrich example_config env (Text (example_output 1))
                    (Text (example_output 0)) w4 = (Inl err, w5)" and wf: "wf = w5"
      note later = main [THEN conjunct2, THEN conjunct2, THEN conjunct2, rule_format,
          OF conjI [OF refl s3]]
      note f4 = later [THEN conjunct1]
      note stage3 = later [THEN conjunct2, THEN conjunct2, THEN conjunct2, THEN conjunct2,
          THEN conjunct1, rule_format, OF refl]
      have run: "process_board example_config env ''board.jpg'' example_world = (Inl err, w5)"
        by (rule stage3 [THEN conjunct1])
      have f5: "files w5 = files w4"
        by (rule stage3 [THEN conjunct2, THEN conjunct1])
      have wc: "write_calls w5 = write_calls example_world @
          [raw_path_of example_config ''board.jpg'']"
        by (rule stage3 [THEN conjunct2, THEN conjunct2, THEN conjunct1])
      have sm: "files w5 (summary_path_of example_config ''board.jpg'') =
          files example_world (summary_path_of example_config ''board.jpg'')"
        by (rule stage3 [THEN conjunct2, THEN conjunct2, THEN conjunct2])
      have files5: "files w5 =
          (files example_world)(raw_path_of example_config ''board.jpg'' \<mapsto> File content)"
        unfolding f5 f4 content_def now by (rule refl)
      show ?thesis
        using ordering files5 wc sm
        unfolding run wf example_artifact_paths
        by (simp add: example_world_fields)
    next
      fix cc w5 w6
      assume s3: "clean_and_enrich example_config env (Text (example_output 1))
                    (Text (example_output 0)) w4 = (Inr cc, w5)"
        and s4: "synthesize_summary example_config env cc (Text (example_output 0)) w5 =
                      (Inl err, w6)"
        and wf: "wf = w6"
      note later = main [THEN conjunct2, THEN conjunct2, THEN conjunct2, rule_format,
          OF conjI [OF refl s3]]
      note f4 = later [THEN conjunct1]
      note stage4 = later [THEN conjunct2, THEN conjunct2, THEN conjunct2, THEN conjunct2,
          THEN conjunct2, rule_format, OF conjI [OF refl s4]]
      have run: "process_board example_config env ''board.jpg'' example_world = (Inl err, w6)"
        by (rule stage4 [THEN conjunct1])
      have f6: "files w6 = files w4"
        by (rule stage4 [THEN conjunct2, THEN conjunct1])
      have wc: "write_calls w6 = write_calls example_world @
          [raw_path_of example_config ''board.jpg'']"
        by (rule stage4 [THEN conjunct2, THEN conjunct2, THEN conjunct1])
      have sm: "files w6 (summary_path_of example_config ''board.jpg'') =
          files example_world (summary_path_of example_config ''board.jpg'')"
        by (rule stage4 [THEN conjunct2, THEN conjunct2, THEN conjunct2])
      have files6: "files w6 =
          (files example_world)(raw_path_of example_config ''board.jpg'' \<mapsto> File content)"
        unfolding f6 f4 content_def now by (rule refl)
      show ?thesis
        using ordering files6 wc sm
        unfolding run wf example_artifact_paths
        by (simp add: example_world_fields)
    qed
  qed
  have lim2: "2 \<le> recursion_limit (env_example 2 8 TimedOut)"
    by (simp add: env_example_fields)
  have tm: "\<forall>n q. length (posted w4) \<le> n \<and> n < length (posted w4) + 6 \<longrightarrow>
      post (env_example 2 8 TimedOut) n q = TimedOut"
    unfolding p4 by (simp add: env_example_def)
  have a3: "clean_and_enrich example_config (env_example 2 8 TimedOut) (Text (example_output 1))
      (Text (example_output 0)) w4 =
      (Inl (RuntimeError_exhausted (Some Timeout)),
       w4\<lparr>trace := trace w4 @
         [Posted (build_request example_config (model example_config)
            (clean_and_enrich_messages example_config (Text (example_output 1))
               (Text (example_output 0)))), Slept RETRY_BASE_DELAY,
          Posted (build_request example_config (model example_config)
            (clean_and_enrich_messages example_config (Text (example_output 1))
               (Text (example_output 0)))), Slept (RETRY_BASE_DELAY ^ 2),
          Posted (build_request example_config (model example_config)
            (clean_and_enrich_messages example_config (Text (example_output 1))
               (Text (example_output 0)))),
          Posted (build_request example_config (fallback_model example_config)
            (clean_and_enrich_messages example_config (Text (example_output 1))
               (Text (example_output 0)))), Slept RETRY_BASE_DELAY,
          Posted (build_request example_config (fallback_model example_config)
            (clean_and_enrich_messages example_config (Text (example_output 1))
               (Text (example_output 0)))), Slept (RETRY_BASE_DELAY ^ 2),
          Posted (build_request example_config (fallback_model example_config)
            (clean_and_enrich_messages example_config (Text (example_output 1))
               (Text (example_output 0))))]\<rparr>)"
    unfolding clean_and_enrich_def
    by (rule call_api_six_timeouts [OF tm _ _ lim2]) (simp_all add: example_config_fields)
  note runA = facts [OF refl order_refl disjI1, OF exI, OF conjI [OF a3 refl]]
  note A1 = runA [THEN conjunct1]
  note A2 = runA [THEN conjunct2, THEN conjunct1]
  note A3 = runA [THEN conjunct2, THEN conjunct2, THEN conjunct1]
  note A4 = runA [THEN conjunct2, THEN conjunct2, THEN conjunct2, THEN conjunct1]
  note A5 = runA [THEN conjunct2, THEN conjunct2, THEN conjunct2, THEN conjunct2,
      THEN conjunct1]
  note A6 = runA [THEN conjunct2, THEN conjunct2, THEN conjunct2, THEN conjunct2,
      THEN conjunct2]
  have lenA: "length (posted (snd (process_board example_config (env_example 2 8 TimedOut)
      ''board.jpg'' example_world))) = 8"
    unfolding A6 by (simp add: posted_trace_append p4)
  have lim1: "1 \<le> recursion_limit (env_example 3 4 (Responded malformed_response))"
    by (simp add: env_example_fields)
  have b3: "clean_and_enrich example_config (env_example 3 4 (Responded malformed_response))
      (Text (example_output 1)) (Text (example_output 0)) w4 =
      (Inr (Text (example_output 2)), record_post q3 w4)"
    unfolding clean_and_enrich_def q3_def
    by (rule call_api_first_try [OF lim1]) (simp add: p4 env_example_ok eval_nat_numeral)
  have p5: "posted (record_post q3 w4) = [q1, q2, q3]"
    by (simp add: posted_record_post p4)
  have b4: "synthesize_summary example_config (env_example 3 4 (Responded malformed_response))
      (Text (example_output 2)) (Text (example_output 0)) (record_post q3 w4) =
      (Inl UncaughtError, record_post q4 (record_post q3 w4))"
    unfolding synthesize_summary_def q4_def
    by (rule call_api_uncaught [OF lim1])
       (simp add: p5 env_example_reply malformed_response_raises del: try_block.simps)
  have l23: "(2::nat) \<le> 3" by simp
  note runB = facts [OF refl l23 disjI2, OF exI, OF exI, OF exI,
      OF conjI [OF b3 conjI [OF b4 refl]]]
  note B1 = runB [THEN conjunct1]
  note B3 = runB [THEN conjunct2, THEN conjunct2, THEN conjunct1]
  note B4 = runB [THEN conjunct2, THEN conjunct2, THEN conjunct2, THEN conjunct1]
  note B5 = runB [THEN conjunct2, THEN conjunct2, THEN conjunct2, THEN conjunct2,
      THEN conjunct1]
  note B6 = runB [THEN conjunct2, THEN conjunct2, THEN conjunct2, THEN conjunct2,
      THEN conjunct2]
  have lenB: "length (posted (snd (process_board example_config
      (env_example 3 4 (Responded malformed_response)) ''board.jpg'' example_world))) = 4"
    unfolding B6 by (simp add: posted_record_post p4)
  from A1 A2 lenA A3 A4 A5 B1 lenB B3 B4 B5 show ?thesis
    unfolding example_artifact_paths q1_def q2_def example_config_fields example_outputs
      content_eq
    by (intro conjI)
qed

end
